theory Spec2Isabelle
  imports Main "HOL-Library.Sublist"
begin

section \<open>The package release command (bin/plugin/commands/packages.js)\<close>

text \<open>
  The command is a sequence of asynchronous steps over a Git working directory. Each step
  calls external collaborators (the Git adapter, the operator's confirmation prompt, the
  logger, child processes) and two of them read and rewrite files. The embedding threads
  an explicit world through the steps: the ordered list of calls issued so far, and the
  files the command reads and writes. What the collaborators answer is not in the
  repository's sources; it is a parameter of the model (the record \<open>env\<close>), and every
  theorem holds for all of its values.
\<close>

subsection \<open>Strings of the source\<close>

type_synonym path = string

definition nl :: string where
  "nl = [CHR 0x0A]"

definition dq :: string where
  "dq = [CHR 0x22]"

text \<open>
  \<open>String.prototype.split\<close> with a one-character separator: the empty string splits
  into one empty piece, and a separator at either end gives an empty piece there.
\<close>

fun split_on :: "char \<Rightarrow> string \<Rightarrow> string list" where
  "split_on sep [] = [[]]"
| "split_on sep (c # cs) =
     (if c = sep then [] # split_on sep cs
      else (case split_on sep cs of
              [] \<Rightarrow> [[c]]
            | x # xs \<Rightarrow> (c # x) # xs))"

text \<open>
  \<open>String.prototype.replace\<close> with a string pattern replaces the first occurrence only,
  and expands the dollar patterns of the replacement: \<open>$$\<close> is a dollar sign, \<open>$&\<close> the
  matched text, \<open>$`\<close> the text before the match and \<open>$'\<close> the text after it. A string
  pattern has no capture groups, so \<open>$1\<close> and \<open>$<name>\<close> stay as they are.
\<close>

fun first_occurrence :: "string \<Rightarrow> string \<Rightarrow> string \<Rightarrow> (string \<times> string) option" where
  "first_occurrence pat pre [] = (if pat = [] then Some (rev pre, []) else None)"
| "first_occurrence pat pre (c # cs) =
     (if prefix pat (c # cs) then Some (rev pre, drop (length pat) (c # cs))
      else first_occurrence pat (c # pre) cs)"

fun getSubstitution :: "string \<Rightarrow> string \<Rightarrow> string \<Rightarrow> string \<Rightarrow> string" where
  "getSubstitution matched pre post [] = []"
| "getSubstitution matched pre post [c] = [c]"
| "getSubstitution matched pre post (c # d # r) =
     (if c = CHR 0x24 then
        (if d = CHR 0x24 then CHR 0x24 # getSubstitution matched pre post r
         else if d = CHR 0x26 then matched @ getSubstitution matched pre post r
         else if d = CHR 0x60 then pre @ getSubstitution matched pre post r
         else if d = CHR 0x27 then post @ getSubstitution matched pre post r
         else c # getSubstitution matched pre post (d # r))
      else c # getSubstitution matched pre post (d # r))"

definition js_replace :: "string \<Rightarrow> string \<Rightarrow> string \<Rightarrow> string" where
  "js_replace pat replacement s =
     (case first_occurrence pat [] s of
        None \<Rightarrow> s
      | Some (pre, post) \<Rightarrow> pre @ getSubstitution pat pre post replacement @ post)"

text \<open>
  A nullable string of the source is a \<open>string option\<close>; \<open>None\<close> stands for both
  \<open>null\<close> and \<open>undefined\<close>, which the command never tells apart other than in the text
  a template literal prints. \<open>truthy\<close> is the test \<open>filter( Boolean )\<close> and a bare
  condition apply: a value that is present and not the empty string.
\<close>

definition truthy :: "string option \<Rightarrow> bool" where
  "truthy v = (case v of None \<Rightarrow> False | Some s \<Rightarrow> s \<noteq> [])"

definition null_text :: "string option \<Rightarrow> string" where
  "null_text v = (case v of None \<Rightarrow> ''null'' | Some s \<Rightarrow> s)"

definition undefined_text :: "string option \<Rightarrow> string" where
  "undefined_text v = (case v of None \<Rightarrow> ''undefined'' | Some s \<Rightarrow> s)"

definition filterBoolean :: "string option list \<Rightarrow> string list" where
  "filterBoolean vs = map the (filter truthy vs)"

subsection \<open>Data model\<close>

text \<open>
  \<open>WPPackagesConfig\<close>. The three entry points build it without a working directory and
  without a release branch. \<open>prepareForPackageRelease\<close> assigns the working directory on
  both of its branches before anything reads it, so the field is a plain string here.
  Nothing ever assigns \<open>releaseBranch\<close> on the config; \<open>runPushGitChangesStep\<close> reads it
  all the same, so the field is nullable. Release type and version bump are the strings
  the source compares them as.
\<close>

record config =
  gitWorkingDirectoryPath :: path
  interactive :: bool
  minimumVersionBump :: string
  releaseType :: string
  releaseBranch :: "string option"

text \<open>
  A parsed \<open>package.json\<close>: the two fields the command reads, and the remaining keys with
  their values as text. \<open>pkg_private\<close> is \<open>None\<close> when the key is absent; a value of
  \<open>private\<close> that is not a boolean is outside this type.
\<close>

record package_json =
  pkg_private :: "bool option"
  pkg_version :: "string option"
  pkg_other :: "(string \<times> string) list"

text \<open>The object \<open>updatePackages\<close> builds for each public package.\<close>

record package_change =
  changelogPath :: path
  packageJSONPath :: path
  packageName :: string
  nextVersion :: "string option"
  version :: "string option"

text \<open>
  Every call the command makes to a collaborator that acts on the repository, the
  operator, the terminal or a child process, with the arguments of the call.
\<close>

datatype call =
    GitCheckoutRemoteBranch path string
  | GitFetch path "string list"
  | GitReplaceContentFromRemoteBranch path string
  | GitCommit path string "string list option"
  | GitPushBranchToOrigin path "string option"
  | GitResetLocalBranchAgainstOrigin path string
  | GitCherrypickCommitIntoBranch path string
  | GitGetLastCommitHash path
  | FindReleaseBranchName path
  | RunGitRepositoryCloneStep string
  | RunCleanLocalFoldersStep "path list" string
  | Command string path bool
  | AskForConfirmation string "bool option" "string option"
  | Log "string list"

datatype error =
    Threw call
  | Abort "string option"
  | MissingFile path
  | TypeError string

type_synonym disk = "(path \<rightharpoonup> string) \<times> (path \<rightharpoonup> package_json)"

record world =
  trace :: "call list"
  files :: "path \<rightharpoonup> string"
  manifests :: "path \<rightharpoonup> package_json"

text \<open>
  The collaborators. Each answer may depend on the calls made so far. \<open>throws\<close> says
  whether a call raises, \<open>effect\<close> what it does to the files of the working directory
  (a checkout replaces them), \<open>accepts\<close> what the operator answers to a prompt. The last
  six fields are the library functions of Node, fast-glob's result aside, and of the
  modules \<open>./common\<close> and \<open>semver\<close>, none of which is among the sources.
\<close>

record env =
  accepts :: "call list \<Rightarrow> string \<Rightarrow> bool"
  throws :: "call list \<Rightarrow> call \<Rightarrow> bool"
  effect :: "call list \<Rightarrow> call \<Rightarrow> disk \<Rightarrow> disk"
  committedHash :: "call list \<Rightarrow> string option"
  headHash :: "call list \<Rightarrow> string"
  clonedDirectory :: "call list \<Rightarrow> path"
  pluginReleaseBranchName :: "call list \<Rightarrow> path \<Rightarrow> string"
  globResult :: "call list \<Rightarrow> string \<Rightarrow> path list"
  cwd :: path
  now :: string
  dependencies :: "string list option"
  path_resolve :: "path \<Rightarrow> string \<Rightarrow> path"
  path_join :: "path \<Rightarrow> string \<Rightarrow> path"
  path_dirname :: "path \<Rightarrow> path"
  readLines :: "string \<Rightarrow> string list"
  calculateVersionBumpFromChangelog :: "string list \<Rightarrow> string \<Rightarrow> string option"
  semverInc :: "string option \<Rightarrow> string \<Rightarrow> string option"

subsection \<open>Steps as state transformers with errors\<close>

type_synonym 'a io = "world \<Rightarrow> (error + 'a) \<times> world"

definition io_return :: "'a \<Rightarrow> 'a io" where
  "io_return x w = (Inr x, w)"

definition io_bind :: "'a io \<Rightarrow> ('a \<Rightarrow> 'b io) \<Rightarrow> 'b io" where
  "io_bind m f w =
     (case m w of
        (Inl e, w') \<Rightarrow> (Inl e, w')
      | (Inr x, w') \<Rightarrow> f x w')"

definition io_when :: "bool \<Rightarrow> unit io \<Rightarrow> unit io" where
  "io_when b m = (if b then m else io_return ())"

definition record_call :: "call \<Rightarrow> world \<Rightarrow> world" where
  "record_call c w = w\<lparr>trace := trace w @ [c]\<rparr>"

definition log :: "string list \<Rightarrow> unit io" where
  "log args w = (Inr (), record_call (Log args) w)"

text \<open>
  A call to a collaborator that acts on the repository or the machine: it is recorded,
  it does to the files what the environment says, and it raises or returns.
\<close>

definition call :: "env \<Rightarrow> call \<Rightarrow> unit io" where
  "call env c w =
     (let h = trace w;
          (fs, ms) = effect env h c (files w, manifests w);
          w' = w\<lparr>trace := h @ [c], files := fs, manifests := ms\<rparr>
      in if throws env h c then (Inl (Threw c), w') else (Inr (), w'))"

definition gitCommit :: "env \<Rightarrow> path \<Rightarrow> string \<Rightarrow> string list option \<Rightarrow> string option io" where
  "gitCommit env dir message filesToAdd =
     io_bind (call env (GitCommit dir message filesToAdd)) (\<lambda>_ w.
       (Inr (committedHash env (trace w)), w))"

definition gitGetLastCommitHash :: "env \<Rightarrow> path \<Rightarrow> string io" where
  "gitGetLastCommitHash env dir =
     io_bind (call env (GitGetLastCommitHash dir)) (\<lambda>_ w.
       (Inr (headHash env (trace w)), w))"

definition findReleaseBranchName :: "env \<Rightarrow> path \<Rightarrow> string io" where
  "findReleaseBranchName env packageJsonPath w =
     (let h = trace w; c = FindReleaseBranchName packageJsonPath; w' = record_call c w
      in if throws env h c then (Inl (Threw c), w')
         else (Inr (pluginReleaseBranchName env h packageJsonPath), w'))"

definition runGitRepositoryCloneStep :: "env \<Rightarrow> string \<Rightarrow> path io" where
  "runGitRepositoryCloneStep env abortMessage =
     io_bind (call env (RunGitRepositoryCloneStep abortMessage)) (\<lambda>_ w.
       (Inr (clonedDirectory env (trace w)), w))"

text \<open>
  Modelled from the spec: \<open>askForConfirmation\<close> of \<open>../lib/utils\<close>, which is not among
  the sources. The spec's confirmation adapter asks the operator and raises an abort
  signal when the operator declines. The prompt is recorded as a call; the abort carries
  the abort message the caller passed, if any.
\<close>

definition askForConfirmation :: "env \<Rightarrow> string \<Rightarrow> bool option \<Rightarrow> string option \<Rightarrow> unit io" where
  "askForConfirmation env message isDefault abortMessage w =
     (let h = trace w; w' = record_call (AskForConfirmation message isDefault abortMessage) w
      in if accepts env h message then (Inr (), w') else (Inl (Abort abortMessage), w'))"

text \<open>
  Modelled from the spec: \<open>runStep\<close> of \<open>../lib/utils\<close>, which is not among the sources.
  The spec's uniform wrapper announces the step's name, executes the step, and on an
  exception prints the step's abort message and raises again. The wrapper receives no
  list of temporary folders, so the cleanup the spec mentions is not part of it here.
\<close>

definition runStep :: "string \<Rightarrow> string \<Rightarrow> unit io \<Rightarrow> unit io" where
  "runStep name abortMessage handler w =
     (case handler (record_call (Log [name]) w) of
        (Inl e, w') \<Rightarrow> (Inl e, record_call (Log [abortMessage]) w')
      | (Inr x, w') \<Rightarrow> (Inr x, w'))"

subsection \<open>runWordPressReleaseBranchSyncStep\<close>

text \<open>
  The colour formatters of \<open>formats\<close> only wrap a text in terminal escape codes; the
  logged texts are kept without them. The step returns an object with the single field
  \<open>releaseBranch\<close>, which is the value returned here.
\<close>

definition wordpressReleaseBranch :: "string \<Rightarrow> string" where
  "wordpressReleaseBranch rt = (if rt = ''next'' then ''wp/next'' else ''wp/trunk'')"

definition syncHandler :: "env \<Rightarrow> config \<Rightarrow> string \<Rightarrow> unit io" where
  "syncHandler env cfg abortMessage =
     io_bind (call env (GitCheckoutRemoteBranch (gitWorkingDirectoryPath cfg) ''trunk'')) (\<lambda>_.
     io_bind (findReleaseBranchName env (gitWorkingDirectoryPath cfg @ ''/package.json''))
       (\<lambda>pluginReleaseBranch.
     io_bind (call env (GitCheckoutRemoteBranch (gitWorkingDirectoryPath cfg)
                (wordpressReleaseBranch (releaseType cfg)))) (\<lambda>_.
     io_bind (call env (GitFetch (gitWorkingDirectoryPath cfg) [''--depth=100''])) (\<lambda>_.
     io_bind (log [''>> The local release branch '' @ wordpressReleaseBranch (releaseType cfg)
                   @ '' has been successfully checked out.'']) (\<lambda>_.
     io_when (releaseType cfg \<in> set [''latest'', ''next''])
       (io_bind (io_when (interactive cfg)
          (askForConfirmation env
             (''The branch is ready for sync with the latest plugin release changes applied to ''
               @ dq @ pluginReleaseBranch @ dq @ ''. Proceed?'')
             (Some True) (Some abortMessage))) (\<lambda>_.
        io_bind (call env (GitReplaceContentFromRemoteBranch (gitWorkingDirectoryPath cfg)
                   pluginReleaseBranch)) (\<lambda>_.
        io_bind (gitCommit env (gitWorkingDirectoryPath cfg)
                   (''Merge changes published in the Gutenberg plugin '' @ dq
                     @ pluginReleaseBranch @ dq @ '' branch'') None) (\<lambda>_.
        log [''>> The local WordPress release branch ''
               @ wordpressReleaseBranch (releaseType cfg)
               @ '' has been successfully synced.''])))))))))"

definition runWordPressReleaseBranchSyncStep :: "env \<Rightarrow> config \<Rightarrow> string \<Rightarrow> string io" where
  "runWordPressReleaseBranchSyncStep env cfg abortMessage =
     io_bind (runStep ''Getting into the WordPress release branch'' abortMessage
                (syncHandler env cfg abortMessage)) (\<lambda>_.
     io_return (wordpressReleaseBranch (releaseType cfg)))"

subsection \<open>updatePackages\<close>

text \<open>
  The changelogs of public packages: \<open>require\<close> loads the \<open>package.json\<close> beside each
  changelog and raises when there is none.
\<close>

definition siblingManifestPath :: "env \<Rightarrow> path \<Rightarrow> path" where
  "siblingManifestPath env file =
     path_join env (path_dirname env file) ''package.json''"

fun changelogFilesPublicPackages :: "env \<Rightarrow> world \<Rightarrow> path list \<Rightarrow> error + path list" where
  "changelogFilesPublicPackages env w [] = Inr []"
| "changelogFilesPublicPackages env w (file # rest) =
     (case manifests w (siblingManifestPath env file) of
        None \<Rightarrow> Inl (MissingFile (siblingManifestPath env file))
      | Some pkg \<Rightarrow>
          (case changelogFilesPublicPackages env w rest of
             Inl e \<Rightarrow> Inl e
           | Inr kept \<Rightarrow>
               Inr (if pkg_private pkg \<noteq> Some True then file # kept else kept)))"

definition packageNameOf :: "path \<Rightarrow> string" where
  "packageNameOf file =
     ''@wordpress/'' @
       (case rev (split_on (CHR ''/'') file) of
          _ # directory # _ \<Rightarrow> directory
        | _ \<Rightarrow> ''undefined'')"

text \<open>
  Lines 165 to 181: the bump read from the changelog, raised to the minimum bump for a
  production package of a release that is not a \<open>next\<close> release.
\<close>

definition enforcedVersionBump ::
  "config \<Rightarrow> string list \<Rightarrow> string \<Rightarrow> string option \<Rightarrow> string option" where
  "enforcedVersionBump cfg productionPackageNames name versionBump =
     (if \<not> truthy versionBump \<and> releaseType cfg \<noteq> ''next''
          \<and> minimumVersionBump cfg \<noteq> ''patch'' \<and> name \<in> set productionPackageNames
      then Some (minimumVersionBump cfg)
      else versionBump)"

definition processPackage ::
  "env \<Rightarrow> config \<Rightarrow> string list \<Rightarrow> world \<Rightarrow> path \<Rightarrow> error + package_change" where
  "processPackage env cfg productionPackageNames w path =
     (case files w path of
        None \<Rightarrow> Inl (MissingFile path)
      | Some content \<Rightarrow>
          (let lines = readLines env content;
               versionBump = enforcedVersionBump cfg productionPackageNames (packageNameOf path)
                 (calculateVersionBumpFromChangelog env lines (minimumVersionBump cfg));
               jsonPath = js_replace ''CHANGELOG.md'' ''package.json'' path
           in case manifests w jsonPath of
                None \<Rightarrow> Inl (MissingFile jsonPath)
              | Some manifest \<Rightarrow>
                  Inr \<lparr> changelogPath = path,
                        packageJSONPath = jsonPath,
                        packageName = packageNameOf path,
                        nextVersion =
                          (case versionBump of
                             None \<Rightarrow> None
                           | Some bump \<Rightarrow> semverInc env (pkg_version manifest) bump),
                        version = pkg_version manifest \<rparr>))"

text \<open>
  \<open>Promise.all\<close> over the public changelogs. The callbacks only read, each its own
  files, so the model runs them in the order of the list; the first failure is the
  error of the whole.
\<close>

fun processAll ::
  "env \<Rightarrow> config \<Rightarrow> string list \<Rightarrow> world \<Rightarrow> path list \<Rightarrow> error + package_change list" where
  "processAll env cfg productionPackageNames w [] = Inr []"
| "processAll env cfg productionPackageNames w (path # rest) =
     (case processPackage env cfg productionPackageNames w path of
        Inl e \<Rightarrow> Inl e
      | Inr r \<Rightarrow>
          (case processAll env cfg productionPackageNames w rest of
             Inl e \<Rightarrow> Inl e
           | Inr rs \<Rightarrow> Inr (r # rs)))"

text \<open>Lines 136 to 198: from the glob to the list \<open>processedPackages\<close>.\<close>

definition processedPackages :: "env \<Rightarrow> config \<Rightarrow> world \<Rightarrow> error + package_change list" where
  "processedPackages env cfg w =
     (let changelogFiles = globResult env (trace w)
            (path_resolve env (gitWorkingDirectoryPath cfg) ''packages/*/CHANGELOG.md'')
      in case changelogFilesPublicPackages env w changelogFiles of
           Inl e \<Rightarrow> Inl e
         | Inr public \<Rightarrow>
             (case dependencies env of
                None \<Rightarrow> Inl (TypeError ''Cannot convert undefined or null to object'')
              | Some productionPackageNames \<Rightarrow>
                  processAll env cfg productionPackageNames w public))"

definition packagesToUpdate :: "package_change list \<Rightarrow> package_change list" where
  "packagesToUpdate processed = filter (\<lambda>r. truthy (nextVersion r)) processed"

text \<open>Lines 213 to 257: the rewrite of one package's changelog and manifest.\<close>

definition publishDate :: "env \<Rightarrow> string" where
  "publishDate env = takeWhile (\<lambda>c. c \<noteq> CHR ''T'') (now env)"

definition shownVersion :: "config \<Rightarrow> string option \<Rightarrow> string" where
  "shownVersion cfg next =
     (if releaseType cfg = ''next'' then null_text next @ ''-next.0'' else null_text next)"

definition changelogHeading :: "config \<Rightarrow> string \<Rightarrow> string option \<Rightarrow> string" where
  "changelogHeading cfg date next =
     ''## Unreleased'' @ nl @ nl @ ''## '' @ shownVersion cfg next @ '' ('' @ date @ '')''"

definition updatePackageFiles :: "config \<Rightarrow> string \<Rightarrow> package_change \<Rightarrow> unit io" where
  "updatePackageFiles cfg date r w =
     (case files w (changelogPath r) of
        None \<Rightarrow> (Inl (MissingFile (changelogPath r)), w)
      | Some content \<Rightarrow>
          (let w1 = w\<lparr>files := (files w)(changelogPath r \<mapsto>
                      js_replace ''## Unreleased'' (changelogHeading cfg date (nextVersion r))
                        content)\<rparr>
           in case manifests w1 (packageJSONPath r) of
                None \<Rightarrow> (Inl (MissingFile (packageJSONPath r)), w1)
              | Some packageJson \<Rightarrow>
                  log [''   - '' @ packageName r @ '': '' @ undefined_text (version r)
                         @ '' -> '' @ shownVersion cfg (nextVersion r)]
                    (w1\<lparr>manifests := (manifests w1)(packageJSONPath r \<mapsto>
                           packageJson\<lparr>pkg_version :=
                             Some (null_text (nextVersion r) @ ''-prerelease'')\<rparr>)\<rparr>)))"

text \<open>
  \<open>Promise.all\<close> over the packages to update. Each callback rewrites the two files of
  its own package; the model runs the callbacks in the order of the list.
\<close>

fun updateAll :: "config \<Rightarrow> string \<Rightarrow> package_change list \<Rightarrow> unit io" where
  "updateAll cfg date [] = io_return ()"
| "updateAll cfg date (r # rs) =
     io_bind (updatePackageFiles cfg date r) (\<lambda>_. updateAll cfg date rs)"

definition updatePackages :: "env \<Rightarrow> config \<Rightarrow> string \<Rightarrow> string option io" where
  "updatePackages env cfg abortMessage w =
     (case processedPackages env cfg w of
        Inl e \<Rightarrow> (Inl e, w)
      | Inr processed \<Rightarrow>
          (if length (packagesToUpdate processed) = 0
           then io_bind (log [''>> No changes in CHANGELOG files detected.''])
                  (\<lambda>_. io_return None) w
           else
             io_bind (log [''>> Recommended version bumps based on the changes detected in CHANGELOG files:'']) (\<lambda>_.
             io_bind (updateAll cfg (publishDate env) (packagesToUpdate processed)) (\<lambda>_.
             io_bind (io_when (interactive cfg)
                (askForConfirmation env
                   ''All corresponding files were updated. Commit the changes?''
                   (Some True) (Some abortMessage))) (\<lambda>_.
             io_bind (gitCommit env (gitWorkingDirectoryPath cfg) ''Update changelog files''
                        (Some [''./*''])) (\<lambda>hash.
             io_bind (log [''>> Changelog files changes have been committed successfully.''])
               (\<lambda>_.
             io_return hash))))) w))"

subsection \<open>Push, publish, backport\<close>

definition runPushGitChangesStep :: "env \<Rightarrow> config \<Rightarrow> string \<Rightarrow> unit io" where
  "runPushGitChangesStep env cfg abortMessage =
     runStep ''Pushing the release branch'' abortMessage
       (io_bind (io_when (interactive cfg)
          (askForConfirmation env
             ''The release branch is going to be pushed to the remote repository. Continue?''
             (Some True) (Some abortMessage))) (\<lambda>_.
        call env (GitPushBranchToOrigin (gitWorkingDirectoryPath cfg) (releaseBranch cfg))))"

definition publishPackagesToNpm :: "env \<Rightarrow> config \<Rightarrow> string io" where
  "publishPackagesToNpm env cfg =
     io_bind (log [''>> Installing npm packages.'']) (\<lambda>_.
     io_bind (call env (Command ''npm ci'' (gitWorkingDirectoryPath cfg) False)) (\<lambda>_.
     io_bind
       (if releaseType cfg = ''next'' then
          io_bind (log [''>> Bumping version of public packages changed since the last release.'']) (\<lambda>_.
          io_bind (gitGetLastCommitHash env (gitWorkingDirectoryPath cfg)) (\<lambda>hash.
          io_bind (call env (Command
             (''npx lerna version pre'' @ minimumVersionBump cfg @ '' --preid next.''
               @ hash @ '' --no-private'')
             (gitWorkingDirectoryPath cfg) True)) (\<lambda>_.
          io_bind (log [''>> Publishing modified packages to npm.'']) (\<lambda>_.
          call env (Command ''npx lerna publish from-package --dist-tag next''
            (gitWorkingDirectoryPath cfg) True)))))
        else if releaseType cfg = ''bugfix'' then
          io_bind (log [''>> Publishing modified packages to npm.'']) (\<lambda>_.
          call env (Command ''npm run publish:latest'' (gitWorkingDirectoryPath cfg) True))
        else
          io_bind (log [''>> Bumping version of public packages changed since the last release.'']) (\<lambda>_.
          io_bind (call env (Command
             (''npx lerna version '' @ minimumVersionBump cfg @ '' --no-private'')
             (gitWorkingDirectoryPath cfg) True)) (\<lambda>_.
          io_bind (log [''>> Publishing modified packages to npm.'']) (\<lambda>_.
          call env (Command ''npx lerna publish from-package''
            (gitWorkingDirectoryPath cfg) True))))) (\<lambda>_.
     gitGetLastCommitHash env (gitWorkingDirectoryPath cfg))))"

fun cherrypickAll :: "env \<Rightarrow> path \<Rightarrow> string list \<Rightarrow> unit io" where
  "cherrypickAll env dir [] = io_return ()"
| "cherrypickAll env dir (hash # rest) =
     io_bind (call env (GitCherrypickCommitIntoBranch dir hash))
       (\<lambda>_. cherrypickAll env dir rest)"

definition backportCommitsToTrunk :: "env \<Rightarrow> config \<Rightarrow> string list \<Rightarrow> unit io" where
  "backportCommitsToTrunk env cfg commits =
     (if releaseType cfg \<notin> set [''latest'', ''bugfix''] \<or> length commits = 0
      then io_return ()
      else
        io_bind (log [''>> Backporting commits.'']) (\<lambda>_.
        io_bind (call env (GitResetLocalBranchAgainstOrigin (gitWorkingDirectoryPath cfg)
                   ''trunk'')) (\<lambda>_.
        io_bind (cherrypickAll env (gitWorkingDirectoryPath cfg) commits) (\<lambda>_.
        call env (GitPushBranchToOrigin (gitWorkingDirectoryPath cfg) (Some ''trunk''))))))"

subsection \<open>prepareForPackageRelease and the three entry points\<close>

text \<open>
  The title of the first message has two emoji around its text; they are left out of
  the string here.
\<close>

definition runCleanLocalFoldersStep :: "env \<Rightarrow> path list \<Rightarrow> string \<Rightarrow> unit io" where
  "runCleanLocalFoldersStep env folders abortMessage =
     call env (RunCleanLocalFoldersStep folders abortMessage)"

definition chooseWorkingDirectory :: "env \<Rightarrow> config \<Rightarrow> string \<Rightarrow> (config \<times> path list) io" where
  "chooseWorkingDirectory env cfg abortMessage =
     (if interactive cfg then
        io_bind (askForConfirmation env ''Ready to go?'' None None) (\<lambda>_.
        io_bind (runGitRepositoryCloneStep env abortMessage) (\<lambda>dir.
        io_return (cfg\<lparr>gitWorkingDirectoryPath := dir\<rparr>, [dir])))
      else io_return (cfg\<lparr>gitWorkingDirectoryPath := cwd env\<rparr>, []))"

text \<open>The steps of \<open>prepareForPackageRelease\<close> from the branch sync to the last message.\<close>

definition releaseSteps :: "env \<Rightarrow> config \<Rightarrow> path list \<Rightarrow> unit io" where
  "releaseSteps env cfg temporaryFolders =
     io_bind (runWordPressReleaseBranchSyncStep env cfg ''Aborting!'') (\<lambda>branch.
     io_bind (updatePackages env cfg ''Aborting!'') (\<lambda>commitHashChangelogUpdates.
     io_bind (runPushGitChangesStep env cfg
                (''Aborting! Make sure to push changes applied to WordPress release branch ''
                  @ dq @ branch @ dq @ '' manually.'')) (\<lambda>_.
     io_bind (publishPackagesToNpm env cfg) (\<lambda>commitHashNpmPublish.
     io_bind (backportCommitsToTrunk env cfg
                (filterBoolean [commitHashChangelogUpdates, Some commitHashNpmPublish])) (\<lambda>_.
     io_bind (runCleanLocalFoldersStep env temporaryFolders ''Cleaning failed.'') (\<lambda>_.
     log [nl @ ''>> WordPress packages are now published!'' @ nl @ nl,
          ''Let also people know on WordPress Slack and celebrate together.'']))))))"

definition prepareForPackageRelease :: "env \<Rightarrow> config \<Rightarrow> string list \<Rightarrow> unit io" where
  "prepareForPackageRelease env config0 customMessages =
     io_bind (log ([nl @ ''Time to publish WordPress packages to npm'' @ nl @ nl,
                    ''To perform a release you'' @ [CHR 0x27]
                      @ ''ll have to be a member of the WordPress Team on npm.'' @ nl]
                   @ customMessages)) (\<lambda>_.
     io_bind (chooseWorkingDirectory env config0 ''Aborting!'') (\<lambda>(cfg, temporaryFolders).
     releaseSteps env cfg temporaryFolders))"

definition initialConfig :: "bool \<Rightarrow> string \<Rightarrow> string \<Rightarrow> config" where
  "initialConfig ci semver rt =
     \<lparr> gitWorkingDirectoryPath = [], interactive = \<not> ci, minimumVersionBump = semver,
       releaseType = rt, releaseBranch = None \<rparr>"

definition publishNpmLatestDistTag :: "env \<Rightarrow> bool \<Rightarrow> string \<Rightarrow> unit io" where
  "publishNpmLatestDistTag env ci semver =
     prepareForPackageRelease env (initialConfig ci semver ''latest'')
       [''Welcome! This tool helps with publishing a new latest version of WordPress packages.'' @ nl]"


definition publishNpmNextDistTag :: "env \<Rightarrow> bool \<Rightarrow> string \<Rightarrow> unit io" where
  "publishNpmNextDistTag env ci semver =
     prepareForPackageRelease env (initialConfig ci semver ''next'')
       [''Welcome! This tool helps with publishing a new next version of WordPress packages.'' @ nl]"

subsection \<open>Vocabulary of the properties\<close>

text \<open>
  The calls a step issued are those it appended to the trace. An environment is quiet
  when no collaborator raises, and cooperative when, in addition, the operator accepts
  every prompt.
\<close>

definition issued :: "world \<Rightarrow> world \<Rightarrow> call list" where
  "issued w w' = drop (length (trace w)) (trace w')"

definition quiet :: "env \<Rightarrow> bool" where
  "quiet env = (\<forall>h c. \<not> throws env h c)"

definition cooperative :: "env \<Rightarrow> bool" where
  "cooperative env = (quiet env \<and> (\<forall>h message. accepts env h message))"


definition adds :: "(call \<Rightarrow> bool) \<Rightarrow> 'a io \<Rightarrow> bool" where
  "adds P m = (\<forall>w. \<exists>new. trace (snd (m w)) = trace w @ new \<and> list_all P new)"


definition succeeds :: "'a io \<Rightarrow> bool" where
  "succeeds m = (\<forall>w. \<exists>x. fst (m w) = Inr x)"

text \<open>
  A step issues the calls of a list when, however it ends, what it has appended to the
  trace is an initial segment of the list, and the whole list when it returns.
\<close>

definition issues :: "'a io \<Rightarrow> call list \<Rightarrow> bool" where
  "issues m full =
     (\<forall>w. \<exists>new. trace (snd (m w)) = trace w @ new \<and> prefix new full \<and>
               (\<forall>x. fst (m w) = Inr x \<longrightarrow> new = full))"


text \<open>
  What a step that returns has appended to the trace, and the value it returns, as a
  property of the calls made before the step began: the answers of the collaborators
  depend on them.
\<close>

definition returning :: "'a io \<Rightarrow> (call list \<Rightarrow> call list \<Rightarrow> 'a \<Rightarrow> bool) \<Rightarrow> bool" where
  "returning m Q =
     (\<forall>w x w'. m w = (Inr x, w') \<longrightarrow> (\<exists>new. trace w' = trace w @ new \<and> Q (trace w) new x))"

definition isSync :: "call \<Rightarrow> bool" where
  "isSync c =
     (case c of
        GitReplaceContentFromRemoteBranch _ _ \<Rightarrow> True
      | GitCommit _ _ _ \<Rightarrow> True
      | _ \<Rightarrow> False)"

definition isConfirmation :: "call \<Rightarrow> bool" where
  "isConfirmation c = (case c of AskForConfirmation _ _ _ \<Rightarrow> True | _ \<Rightarrow> False)"



text \<open>
  A changelog whose first heading is the Unreleased heading, at the start of a line: the
  text before the first \<open>## Unreleased\<close> is empty or ends with a line break, and has
  no \<open>##\<close> in it.
\<close>

definition unreleasedHeadingFirst :: "string \<Rightarrow> bool" where
  "unreleasedHeadingFirst content =
     (\<exists>pre post. content = pre @ ''## Unreleased'' @ post \<and>
        (pre = [] \<or> last pre = CHR 0x0A) \<and> \<not> (\<exists>a b. pre = a @ ''##'' @ b))"

text \<open>
  Modelled from the spec: \<open>calculateVersionBumpFromChangelog\<close> of \<open>./common\<close>, which is
  not among the sources. The spec has it that a changelog with an Unreleased heading
  but no entries underneath yields no bump. The property asks this of the changelogs
  whose first heading is the Unreleased heading, on a line of its own, followed by a
  blank line and then by another heading of the second level.
\<close>

definition emptyUnreleasedSectionYieldsNoBump :: "env \<Rightarrow> bool" where
  "emptyUnreleasedSectionYieldsNoBump env =
     (\<forall>pre rest minimum.
        (pre = [] \<or> last pre = CHR 0x0A) \<and> \<not> (\<exists>a b. pre = a @ ''##'' @ b) \<longrightarrow>
        calculateVersionBumpFromChangelog env
          (readLines env (pre @ ''## Unreleased'' @ nl @ nl @ ''## '' @ rest)) minimum = None)"

subsection \<open>A concrete run\<close>

text \<open>
  One environment and one working directory on which the theorems below are evaluated:
  a public package \<open>a11y\<close> whose changelog has nothing under its Unreleased heading, and
  a private package \<open>e2e\<close> that has no changelog file at all.
\<close>

text \<open>
  Modelled from the spec: \<open>calculateVersionBumpFromChangelog\<close> of \<open>./common\<close>, which is
  not among the sources. The spec derives the bump from the Unreleased section: none
  when the section has no entries or the heading is missing, \<open>major\<close> for a breaking
  change whatever the configured minimum, and otherwise the level of the section's
  headings (new features and enhancements are \<open>minor\<close>, bug fixes \<open>patch\<close>), never
  below the minimum. The theorems take the function as a parameter; this one stands in
  for it in the concrete run only.
\<close>

fun unreleasedSection :: "string list \<Rightarrow> string list" where
  "unreleasedSection [] = []"
| "unreleasedSection (l # ls) =
     (if prefix ''## Unreleased'' l then takeWhile (\<lambda>l. \<not> prefix ''## '' l) ls
      else unreleasedSection ls)"

definition bumpOfHeading :: "string \<Rightarrow> string option" where
  "bumpOfHeading l =
     (if prefix ''### Breaking Change'' l then Some ''major''
      else if prefix ''### New Feature'' l \<or> prefix ''### Enhancement'' l then Some ''minor''
      else if prefix ''### Bug Fix'' l then Some ''patch''
      else None)"

definition bumpRank :: "string \<Rightarrow> nat" where
  "bumpRank b = (if b = ''major'' then 3 else if b = ''minor'' then 2 else 1)"

definition higherBump :: "string \<Rightarrow> string \<Rightarrow> string" where
  "higherBump a b = (if bumpRank a < bumpRank b then b else a)"

definition changelogBump :: "string list \<Rightarrow> string \<Rightarrow> string option" where
  "changelogBump lines minimum =
     (case List.map_filter bumpOfHeading (unreleasedSection lines) of
        [] \<Rightarrow> None
      | found \<Rightarrow> Some (foldr higherBump found minimum))"

text \<open>
  The values \<open>semver.inc\<close> has at the versions of the concrete run. Raising the minor
  (or major) version of a pre-release of \<open>X.Y.0\<close> gives \<open>X.Y.0\<close> itself.
\<close>

definition semverIncAt :: "string option \<Rightarrow> string \<Rightarrow> string option" where
  "semverIncAt v release =
     map_of [((Some ''1.0.0'', ''minor''), ''1.1.0''),
             ((Some ''1.0.0'', ''major''), ''2.0.0''),
             ((Some ''1.0.0'', ''patch''), ''1.0.1''),
             ((Some ''1.1.0-prerelease'', ''minor''), ''1.1.0'')] (v, release)"

definition posix_dirname :: "path \<Rightarrow> path" where
  "posix_dirname p = rev (drop 1 (dropWhile (\<lambda>c. c \<noteq> CHR ''/'') (rev p)))"

definition demo_env :: env where
  "demo_env =
     \<lparr> accepts = (\<lambda>_ _. True),
       throws = (\<lambda>_ _. False),
       effect = (\<lambda>_ _ d. d),
       committedHash = (\<lambda>_. Some ''1f2e3d4''),
       headHash = (\<lambda>_. ''9a8b7c6''),
       clonedDirectory = (\<lambda>_. ''/tmp/gutenberg''),
       pluginReleaseBranchName = (\<lambda>_ _. ''release/10.0''),
       globResult = (\<lambda>_ _. [''/tmp/gutenberg/packages/a11y/CHANGELOG.md'',
                               ''/tmp/gutenberg/packages/e2e/CHANGELOG.md'']),
       cwd = ''/tmp/gutenberg'',
       now = ''2021-03-04T05:06:07.089Z'',
       dependencies = Some [''@wordpress/a11y''],
       path_resolve = (\<lambda>d p. d @ ''/'' @ p),
       path_join = (\<lambda>d p. d @ ''/'' @ p),
       path_dirname = posix_dirname,
       readLines = split_on (CHR 0x0A),
       calculateVersionBumpFromChangelog = changelogBump,
       semverInc = semverIncAt \<rparr>"

definition demo_world :: world where
  "demo_world =
     \<lparr> trace = [],
       files = map_of
         [(''/tmp/gutenberg/packages/a11y/CHANGELOG.md'',
             ''## Unreleased'' @ nl @ nl @ ''## 1.0.0 (2021-01-01)'' @ nl @ nl
               @ ''Initial release.'')],
       manifests = map_of
         [(''/tmp/gutenberg/packages/a11y/package.json'',
             \<lparr> pkg_private = None, pkg_version = Some ''1.0.0'', pkg_other = [] \<rparr>),
          (''/tmp/gutenberg/packages/e2e/package.json'',
             \<lparr> pkg_private = Some True, pkg_version = Some ''1.0.0'', pkg_other = [] \<rparr>)] \<rparr>"

definition demo_config :: "bool \<Rightarrow> string \<Rightarrow> string \<Rightarrow> config" where
  "demo_config ia bump rt =
     \<lparr> gitWorkingDirectoryPath = ''/tmp/gutenberg'', interactive = ia,
       minimumVersionBump = bump, releaseType = rt, releaseBranch = None \<rparr>"

text \<open>The record \<open>updatePackages\<close> builds for \<open>a11y\<close> when the bump is \<open>minor\<close>.\<close>

definition demo_change :: package_change where
  "demo_change =
     \<lparr> changelogPath = ''/tmp/gutenberg/packages/a11y/CHANGELOG.md'',
       packageJSONPath = ''/tmp/gutenberg/packages/a11y/package.json'',
       packageName = ''@wordpress/a11y'', nextVersion = Some ''1.1.0'',
       version = Some ''1.0.0'' \<rparr>"

text \<open>The same working directory with one bug fix under the Unreleased heading of \<open>a11y\<close>.\<close>

definition demo_world_fix :: world where
  "demo_world_fix =
     demo_world\<lparr>files := map_of
       [(''/tmp/gutenberg/packages/a11y/CHANGELOG.md'',
           ''## Unreleased'' @ nl @ nl @ ''### Bug Fixes'' @ nl @ nl @ ''- Fix focus loss.''
             @ nl @ nl @ ''## 1.0.0 (2021-01-01)'' @ nl @ nl @ ''Initial release.'')]\<rparr>"


text \<open>The same working directory with a changelog of \<open>a11y\<close> that has no Unreleased heading.\<close>

definition demo_world_bare :: world where
  "demo_world_bare =
     demo_world\<lparr>files := map_of
       [(''/tmp/gutenberg/packages/a11y/CHANGELOG.md'',
           ''## 1.0.0 (2021-01-01)'' @ nl @ nl @ ''Initial release.'')]\<rparr>"



section \<open>Properties\<close>

subsection \<open>Running a step\<close>

lemma issued_append: "trace w' = trace w @ new \<Longrightarrow> issued w w' = new"
  by (simp add: issued_def)

lemma io_bind_Inr: "fst (m w) = Inr x \<Longrightarrow> io_bind m f w = f x (snd (m w))"
  by (cases "m w") (simp add: io_bind_def)

lemma call_quiet:
  "quiet env \<Longrightarrow> fst (call env c w) = Inr () \<and> trace (snd (call env c w)) = trace w @ [c]"
  by (simp add: call_def quiet_def Let_def split: prod.splits)

lemma log_run: "log args w = (Inr (), w\<lparr>trace := trace w @ [Log args]\<rparr>)"
  by (simp add: log_def record_call_def)

lemma cherrypickAll_quiet:
  "quiet env \<Longrightarrow> fst (cherrypickAll env dir cs w) = Inr () \<and>
     trace (snd (cherrypickAll env dir cs w)) = trace w @ map (GitCherrypickCommitIntoBranch dir) cs"
  by (induction cs arbitrary: w)
     (simp_all add: io_return_def io_bind_def call_def quiet_def Let_def split: prod.splits)

lemma quiet_demo: "quiet demo_env"
  by (simp add: quiet_def demo_env_def)

lemma cooperative_demo: "cooperative demo_env"
  by (simp add: cooperative_def quiet_def demo_env_def)

subsection \<open>What a step appends to the trace\<close>

lemma addsD: "adds P m \<Longrightarrow> \<exists>new. trace (snd (m w)) = trace w @ new \<and> list_all P new"
  by (simp add: adds_def)

lemma adds_return: "adds P (io_return x)"
  by (simp add: adds_def io_return_def)

lemma adds_log: "P (Log args) \<Longrightarrow> adds P (log args)"
  by (simp add: adds_def log_def record_call_def)

lemma adds_call: "P c \<Longrightarrow> adds P (call env c)"
  by (simp add: adds_def call_def Let_def split: prod.splits)

lemma adds_ask:
  "P (AskForConfirmation message d a) \<Longrightarrow> adds P (askForConfirmation env message d a)"
  by (simp add: adds_def askForConfirmation_def record_call_def Let_def)

lemma adds_find: "P (FindReleaseBranchName p) \<Longrightarrow> adds P (findReleaseBranchName env p)"
  by (simp add: adds_def findReleaseBranchName_def record_call_def Let_def)

lemma adds_bind:
  assumes "adds P m" and "\<And>x. adds P (f x)"
  shows "adds P (io_bind m f)"
proof (unfold adds_def, rule allI)
  fix w
  obtain r w1 where m: "m w = (r, w1)" by (cases "m w")
  from addsD [OF assms(1), of w] m obtain n1
    where n1: "trace w1 = trace w @ n1" "list_all P n1" by auto
  show "\<exists>new. trace (snd (io_bind m f w)) = trace w @ new \<and> list_all P new"
  proof (cases r)
    case (Inl e)
    with m n1 show ?thesis by (simp add: io_bind_def)
  next
    case (Inr x)
    from addsD [OF assms(2), of x w1] obtain n2
      where "trace (snd (f x w1)) = trace w1 @ n2" "list_all P n2" by auto
    with m n1 Inr show ?thesis by (simp add: io_bind_def)
  qed
qed

lemma adds_when: "(b \<Longrightarrow> adds P m) \<Longrightarrow> adds P (io_when b m)"
  by (simp add: io_when_def adds_return)

lemma adds_if: "(b \<Longrightarrow> adds P m) \<Longrightarrow> (\<not> b \<Longrightarrow> adds P n) \<Longrightarrow> adds P (if b then m else n)"
  by simp

lemma adds_value: "adds P m \<Longrightarrow> adds P (io_bind m (\<lambda>_ w. (Inr (g w), w)))"
  by (rule adds_bind) (simp_all add: adds_def)

lemma adds_runStep:
  assumes "P (Log [name])" and "P (Log [abortMessage])" and "adds P handler"
  shows "adds P (runStep name abortMessage handler)"
proof (unfold adds_def, rule allI)
  fix w
  from addsD [OF assms(3), of "record_call (Log [name]) w"] obtain n
    where "trace (snd (handler (record_call (Log [name]) w))) = trace w @ Log [name] # n"
      and "list_all P n"
    by (auto simp: record_call_def)
  with assms(1,2)
  show "\<exists>new. trace (snd (runStep name abortMessage handler w)) = trace w @ new \<and> list_all P new"
    by (cases "handler (record_call (Log [name]) w)")
       (auto simp: runStep_def record_call_def split: sum.splits)
qed

lemmas adds_intros = adds_return adds_log adds_call adds_ask adds_find adds_bind adds_when
  adds_if adds_runStep


subsection \<open>What a step has appended when it returns\<close>














lemma sync_bugfix_adds:
  "releaseType cfg \<notin> {''latest'', ''next''} \<Longrightarrow>
   adds (\<lambda>c. \<not> isSync c) (runWordPressReleaseBranchSyncStep env cfg am)"
  unfolding runWordPressReleaseBranchSyncStep_def syncHandler_def gitCommit_def
  by (intro adds_intros adds_value) (simp_all add: isSync_def)


subsection \<open>When a step returns\<close>

lemma succeedsD: "succeeds m \<Longrightarrow> \<exists>x. fst (m w) = Inr x"
  by (simp add: succeeds_def)

lemma succeeds_return: "succeeds (io_return x)"
  by (simp add: succeeds_def io_return_def)

lemma succeeds_log: "succeeds (log args)"
  by (simp add: succeeds_def log_def)

lemma succeeds_call: "quiet env \<Longrightarrow> succeeds (call env c)"
  by (simp add: succeeds_def call_quiet)

lemma succeeds_ask: "cooperative env \<Longrightarrow> succeeds (askForConfirmation env message d a)"
  by (simp add: succeeds_def cooperative_def askForConfirmation_def Let_def)

lemma succeeds_find: "quiet env \<Longrightarrow> succeeds (findReleaseBranchName env p)"
  by (simp add: succeeds_def quiet_def findReleaseBranchName_def Let_def)

lemma succeeds_bind:
  assumes "succeeds m" and "\<And>x. succeeds (f x)"
  shows "succeeds (io_bind m f)"
proof (unfold succeeds_def, rule allI)
  fix w
  from succeedsD [OF assms(1), of w] obtain x where x: "fst (m w) = Inr x" ..
  from succeedsD [OF assms(2), of x "snd (m w)"] io_bind_Inr [of m w x f] x
  show "\<exists>y. fst (io_bind m f w) = Inr y" by simp
qed

lemma succeeds_value: "succeeds m \<Longrightarrow> succeeds (io_bind m (\<lambda>_ w. (Inr (g w), w)))"
  by (rule succeeds_bind) (simp_all add: succeeds_def)

lemma succeeds_when: "(b \<Longrightarrow> succeeds m) \<Longrightarrow> succeeds (io_when b m)"
  by (simp add: io_when_def succeeds_return)

lemma succeeds_if: "(b \<Longrightarrow> succeeds m) \<Longrightarrow> (\<not> b \<Longrightarrow> succeeds n) \<Longrightarrow> succeeds (if b then m else n)"
  by simp

lemma succeeds_runStep: "succeeds handler \<Longrightarrow> succeeds (runStep name abortMessage handler)"
  by (auto simp: succeeds_def runStep_def split: prod.splits sum.splits)
     (metis fst_conv sum.distinct(1))

lemmas succeeds_intros = succeeds_return succeeds_log succeeds_call succeeds_ask succeeds_find
  succeeds_bind succeeds_when succeeds_if succeeds_runStep

lemma sync_succeeds:
  "cooperative env \<Longrightarrow> succeeds (runWordPressReleaseBranchSyncStep env cfg am)"
  unfolding runWordPressReleaseBranchSyncStep_def syncHandler_def gitCommit_def
  by (rule succeeds_value succeeds_intros | simp add: cooperative_def)+

lemma sync_value:
  assumes "runWordPressReleaseBranchSyncStep env cfg am w = (Inr branch, w')"
  shows "branch = wordpressReleaseBranch (releaseType cfg)"
  using assms
  by (auto simp: runWordPressReleaseBranchSyncStep_def io_bind_def io_return_def
      split: prod.splits sum.splits)


lemma sync_succeeds_value:
  "cooperative env \<Longrightarrow> \<exists>b. fst (runWordPressReleaseBranchSyncStep env cfg am w) = Inr b"
  using succeedsD [OF sync_succeeds] by blast


subsection \<open>Reading the packages\<close>

lemma public_kept:
  "changelogFilesPublicPackages env w ps = Inr kept \<Longrightarrow> p \<in> set kept \<Longrightarrow>
   p \<in> set ps \<and> (\<exists>pkg. manifests w (siblingManifestPath env p) = Some pkg \<and> pkg_private pkg \<noteq> Some True)"
proof (induction ps arbitrary: kept)
  case Nil
  then show ?case by simp
next
  case (Cons q qs)
  then show ?case
    by (auto split: option.splits sum.splits if_splits)
qed

lemma public_manifests_only:
  "manifests w' = manifests w \<Longrightarrow>
   changelogFilesPublicPackages env w' ps = changelogFilesPublicPackages env w ps"
  by (induction ps) (auto split: option.splits sum.splits)

lemma processPackage_fields:
  "processPackage env cfg deps w p = Inr r \<Longrightarrow>
   changelogPath r = p \<and> packageName r = packageNameOf p \<and>
   (\<exists>content manifest. files w p = Some content \<and>
      manifests w (packageJSONPath r) = Some manifest \<and> version r = pkg_version manifest \<and>
      nextVersion r =
        (case enforcedVersionBump cfg deps (packageNameOf p)
                (calculateVersionBumpFromChangelog env (readLines env content)
                   (minimumVersionBump cfg)) of
           None \<Rightarrow> None
         | Some bump \<Rightarrow> semverInc env (pkg_version manifest) bump))"
  by (auto simp: processPackage_def Let_def split: option.splits)

lemma processPackage_reads:
  "manifests w' = manifests w \<Longrightarrow> files w' p = files w p \<Longrightarrow>
   processPackage env cfg deps w' p = processPackage env cfg deps w p"
  by (simp add: processPackage_def Let_def split: option.splits)

lemma processAll_reads:
  "manifests w' = manifests w \<Longrightarrow> \<forall>p \<in> set ps. files w' p = files w p \<Longrightarrow>
   processAll env cfg deps w' ps = processAll env cfg deps w ps"
proof (induction ps)
  case Nil
  then show ?case by simp
next
  case (Cons q qs)
  from Cons.prems have "processPackage env cfg deps w' q = processPackage env cfg deps w q"
    by (intro processPackage_reads) simp_all
  moreover from Cons have "processAll env cfg deps w' qs = processAll env cfg deps w qs"
    by simp
  ultimately show ?case by (simp cong: sum.case_cong)
qed

lemma processAll_member:
  "processAll env cfg deps w ps = Inr rs \<Longrightarrow> r \<in> set rs \<Longrightarrow>
   \<exists>p \<in> set ps. processPackage env cfg deps w p = Inr r"
proof (induction ps arbitrary: rs)
  case Nil
  then show ?case by simp
next
  case (Cons q qs)
  then show ?case by (auto split: sum.splits)
qed

lemma processed_member:
  assumes "processedPackages env cfg w = Inr rs" and "r \<in> set rs"
  shows "\<exists>deps kept. dependencies env = Some deps \<and>
     changelogFilesPublicPackages env w
       (globResult env (trace w)
          (path_resolve env (gitWorkingDirectoryPath cfg) ''packages/*/CHANGELOG.md'')) = Inr kept \<and>
     changelogPath r \<in> set kept \<and>
     processPackage env cfg deps w (changelogPath r) = Inr r"
proof -
  from assms(1) obtain deps kept where d: "dependencies env = Some deps"
    and k: "changelogFilesPublicPackages env w
       (globResult env (trace w)
          (path_resolve env (gitWorkingDirectoryPath cfg) ''packages/*/CHANGELOG.md'')) = Inr kept"
    and a: "processAll env cfg deps w kept = Inr rs"
    by (auto simp: processedPackages_def Let_def split: sum.splits option.splits)
  from processAll_member [OF a assms(2)] obtain p
    where p: "p \<in> set kept" "processPackage env cfg deps w p = Inr r" by blast
  with processPackage_fields [OF p(2)] have "changelogPath r = p" by simp
  with d k p show ?thesis by auto
qed

lemma processPackage_next:
  "processPackage env cfg deps w p = Inr r \<Longrightarrow> files w p = Some content \<Longrightarrow>
   packageName r = packageNameOf p \<and>
   nextVersion r =
     (case enforcedVersionBump cfg deps (packageNameOf p)
             (calculateVersionBumpFromChangelog env (readLines env content)
                (minimumVersionBump cfg)) of
        None \<Rightarrow> None
      | Some bump \<Rightarrow> semverInc env (version r) bump)"
  by (auto simp: processPackage_def Let_def split: option.splits)

lemma demo_processed:
  "processedPackages demo_env (demo_config False ''minor'' ''latest'') demo_world =
     Inr [\<lparr> changelogPath = ''/tmp/gutenberg/packages/a11y/CHANGELOG.md'',
            packageJSONPath = ''/tmp/gutenberg/packages/a11y/package.json'',
            packageName = ''@wordpress/a11y'', nextVersion = Some ''1.1.0'',
            version = Some ''1.0.0'' \<rparr>]"
  by code_simp


subsection \<open>Rewriting the packages\<close>

lemma getSubstitution_plain:
  "CHR 0x24 \<notin> set replacement \<Longrightarrow> getSubstitution matched pre post replacement = replacement"
  by (induction matched pre post replacement rule: getSubstitution.induct) auto

lemma first_occurrence_sound:
  "first_occurrence pat acc s = Some (pre, post) \<Longrightarrow> rev acc @ s = pre @ pat @ post"
proof (induction s arbitrary: acc)
  case Nil
  then show ?case by (simp split: if_splits)
next
  case (Cons c cs)
  show ?case
  proof (cases "prefix pat (c # cs)")
    case True
    then obtain rest where rest: "c # cs = pat @ rest" by (auto simp: prefix_def)
    from Cons.prems True have "pre = rev acc" and "post = drop (length pat) (c # cs)"
      by simp_all
    then show ?thesis unfolding rest by simp
  next
    case False
    with Cons.prems have "first_occurrence pat (c # acc) cs = Some (pre, post)" by simp
    from Cons.IH [OF this] show ?thesis by simp
  qed
qed

lemma first_occurrence_least:
  "s = x @ pat @ y \<Longrightarrow>
   \<exists>pre post. first_occurrence pat acc s = Some (pre, post) \<and> length pre \<le> length acc + length x"
proof (induction s arbitrary: acc x)
  case Nil
  then show ?case by simp
next
  case (Cons c cs)
  show ?case
  proof (cases "prefix pat (c # cs)")
    case True
    then show ?thesis by simp
  next
    case False
    with Cons.prems obtain x' where x: "x = c # x'" "cs = x' @ pat @ y"
      by (cases x) (auto simp: prefix_def)
    from Cons.IH [OF x(2), of "c # acc"] False x(1) show ?thesis by auto
  qed
qed

lemma updatePackageFiles_Inr:
  assumes "updatePackageFiles cfg date r w = (Inr u, w')"
  shows "\<exists>content m. files w (changelogPath r) = Some content \<and>
           manifests w (packageJSONPath r) = Some m \<and>
           files w' = (files w)(changelogPath r \<mapsto>
             js_replace ''## Unreleased'' (changelogHeading cfg date (nextVersion r)) content) \<and>
           manifests w' = (manifests w)(packageJSONPath r \<mapsto>
             m\<lparr>pkg_version := Some (null_text (nextVersion r) @ ''-prerelease'')\<rparr>)"
  using assms
  by (auto simp: updatePackageFiles_def Let_def log_def record_call_def split: option.splits)

lemma updateAll_frame:
  "updateAll cfg date rs w = (Inr u, w') \<Longrightarrow>
   (p \<notin> changelogPath ` set rs \<longrightarrow> files w' p = files w p) \<and>
   (q \<notin> packageJSONPath ` set rs \<longrightarrow> manifests w' q = manifests w q)"
proof (induction rs arbitrary: w)
  case Nil
  then show ?case by (simp add: io_return_def)
next
  case (Cons r rs)
  from Cons.prems obtain w1 where 1: "updatePackageFiles cfg date r w = (Inr (), w1)"
    and 2: "updateAll cfg date rs w1 = (Inr u, w')"
    by (auto simp: io_bind_def split: prod.splits sum.splits)
  from updatePackageFiles_Inr [OF 1] Cons.IH [OF 2] show ?case by auto
qed

lemma updateAll_rewrites:
  "updateAll cfg date rs w = (Inr u, w') \<Longrightarrow> r \<in> set rs \<Longrightarrow>
   (distinct (map changelogPath rs) \<longrightarrow>
      (\<exists>content. files w (changelogPath r) = Some content \<and>
         files w' (changelogPath r) = Some (js_replace ''## Unreleased''
           (changelogHeading cfg date (nextVersion r)) content))) \<and>
   (distinct (map packageJSONPath rs) \<longrightarrow>
      (\<exists>m. manifests w (packageJSONPath r) = Some m \<and>
         manifests w' (packageJSONPath r) =
           Some (m\<lparr>pkg_version := Some (null_text (nextVersion r) @ ''-prerelease'')\<rparr>)))"
proof (induction rs arbitrary: w)
  case Nil
  then show ?case by simp
next
  case (Cons a rs)
  from Cons.prems(1) obtain w1 where 1: "updatePackageFiles cfg date a w = (Inr (), w1)"
    and 2: "updateAll cfg date rs w1 = (Inr u, w')"
    by (auto simp: io_bind_def split: prod.splits sum.splits)
  note first = updatePackageFiles_Inr [OF 1]
  show ?case
  proof (cases "r = a")
    case True
    from updateAll_frame [OF 2, of "changelogPath a" "packageJSONPath a"] first True
    show ?thesis by auto
  next
    case False
    with Cons.prems(2) have "r \<in> set rs" by simp
    from Cons.IH [OF 2 this] first \<open>r \<in> set rs\<close> show ?thesis
      by (auto simp: image_iff)
  qed
qed

subsection \<open>The whole pipeline\<close>

lemma not_confirmation:
  "\<not> isConfirmation (GitCheckoutRemoteBranch a b)"
  "\<not> isConfirmation (GitFetch a bs)"
  "\<not> isConfirmation (GitReplaceContentFromRemoteBranch a b)"
  "\<not> isConfirmation (GitCommit a b c)"
  "\<not> isConfirmation (GitPushBranchToOrigin a d)"
  "\<not> isConfirmation (GitResetLocalBranchAgainstOrigin a b)"
  "\<not> isConfirmation (GitCherrypickCommitIntoBranch a b)"
  "\<not> isConfirmation (GitGetLastCommitHash a)"
  "\<not> isConfirmation (FindReleaseBranchName a)"
  "\<not> isConfirmation (RunGitRepositoryCloneStep a)"
  "\<not> isConfirmation (RunCleanLocalFoldersStep bs a)"
  "\<not> isConfirmation (Command a b e)"
  "\<not> isConfirmation (Log bs)"
  by (simp_all add: isConfirmation_def)


lemma adds_updatePackageFiles:
  "(\<And>args. P (Log args)) \<Longrightarrow> adds P (updatePackageFiles cfg date r)"
  by (auto simp: adds_def updatePackageFiles_def Let_def log_def record_call_def
      split: option.splits)

lemma adds_updateAll: "(\<And>args. P (Log args)) \<Longrightarrow> adds P (updateAll cfg date rs)"
  by (induction rs) (auto intro!: adds_bind adds_return adds_updatePackageFiles)

lemma adds_cherrypickAll:
  "(\<And>h. P (GitCherrypickCommitIntoBranch dir h)) \<Longrightarrow> adds P (cherrypickAll env dir cs)"
  by (induction cs) (auto intro!: adds_bind adds_return adds_call)

lemma adds_updatePackages:
  assumes "\<And>c. \<not> isConfirmation c \<Longrightarrow> P c"
    and "interactive cfg \<Longrightarrow> (\<And>c. P c)"
  shows "adds P (updatePackages env cfg am)"
proof (unfold adds_def, rule allI)
  fix w
  let ?rest = "io_bind (log [''>> Recommended version bumps based on the changes detected in CHANGELOG files:'']) (\<lambda>_.
             io_bind (updateAll cfg (publishDate env) (packagesToUpdate (projr (processedPackages env cfg w)))) (\<lambda>_.
             io_bind (io_when (interactive cfg)
                (askForConfirmation env
                   ''All corresponding files were updated. Commit the changes?''
                   (Some True) (Some am))) (\<lambda>_.
             io_bind (gitCommit env (gitWorkingDirectoryPath cfg) ''Update changelog files''
                        (Some [''./*''])) (\<lambda>hash.
             io_bind (log [''>> Changelog files changes have been committed successfully.''])
               (\<lambda>_.
             io_return hash)))))"
  have 1: "adds P ?rest"
    unfolding gitCommit_def
    by (intro adds_intros adds_value adds_updateAll)
       (erule assms(2) | rule assms(1), rule not_confirmation)+
  have 2: "adds P (io_bind (log [''>> No changes in CHANGELOG files detected.''])
                  (\<lambda>_. io_return (None :: string option)))"
    by (intro adds_intros) (rule assms(1), rule not_confirmation)+
  show "\<exists>new. trace (snd (updatePackages env cfg am w)) = trace w @ new \<and> list_all P new"
  proof (cases "processedPackages env cfg w")
    case (Inl e)
    then show ?thesis by (simp add: updatePackages_def)
  next
    case (Inr processed)
    with addsD [OF 1, of w] addsD [OF 2, of w] show ?thesis
      by (simp add: updatePackages_def)
  qed
qed

lemma adds_sync:
  assumes "\<And>c. \<not> isConfirmation c \<Longrightarrow> P c"
    and "interactive cfg \<Longrightarrow> (\<And>c. P c)"
  shows "adds P (runWordPressReleaseBranchSyncStep env cfg am)"
  unfolding runWordPressReleaseBranchSyncStep_def syncHandler_def gitCommit_def
  by (intro adds_intros adds_value) (erule assms(2) | rule assms(1), rule not_confirmation)+

lemma adds_push:
  assumes "\<And>c. \<not> isConfirmation c \<Longrightarrow> P c"
    and "interactive cfg \<Longrightarrow> (\<And>c. P c)"
  shows "adds P (runPushGitChangesStep env cfg am)"
  unfolding runPushGitChangesStep_def
  by (intro adds_intros adds_value) (erule assms(2) | rule assms(1), rule not_confirmation)+

lemma adds_publish:
  assumes "\<And>c. \<not> isConfirmation c \<Longrightarrow> P c"
  shows "adds P (publishPackagesToNpm env cfg)"
  unfolding publishPackagesToNpm_def gitGetLastCommitHash_def
  by (intro adds_intros adds_value) (rule assms(1), rule not_confirmation)+

lemma adds_backport:
  assumes "\<And>c. \<not> isConfirmation c \<Longrightarrow> P c"
  shows "adds P (backportCommitsToTrunk env cfg commits)"
  unfolding backportCommitsToTrunk_def
  by (intro adds_intros adds_cherrypickAll) (rule assms(1), rule not_confirmation)+


lemma choose_interactive:
  "chooseWorkingDirectory env cfg am w = (Inr (cfg', folders), w') \<Longrightarrow>
   interactive cfg' = interactive cfg \<and> releaseType cfg' = releaseType cfg \<and>
   releaseBranch cfg' = releaseBranch cfg \<and> minimumVersionBump cfg' = minimumVersionBump cfg"
  by (auto simp: chooseWorkingDirectory_def io_bind_def io_return_def
      runGitRepositoryCloneStep_def split: if_splits prod.splits sum.splits)

lemma adds_clean:
  assumes "\<And>c. \<not> isConfirmation c \<Longrightarrow> P c"
  shows "adds P (runCleanLocalFoldersStep env folders am)"
  unfolding runCleanLocalFoldersStep_def
  by (intro adds_intros) (rule assms(1), rule not_confirmation)+


lemma adds_releaseSteps:
  assumes "\<And>c. \<not> isConfirmation c \<Longrightarrow> P c"
    and "interactive cfg \<Longrightarrow> (\<And>c. P c)"
  shows "adds P (releaseSteps env cfg folders)"
  unfolding releaseSteps_def
  by (intro adds_bind adds_sync adds_updatePackages adds_push adds_publish adds_backport
      adds_clean adds_log)
     (erule assms(2) | rule assms(1), (assumption | rule not_confirmation))+


lemma io_bind_InrE:
  assumes "io_bind m f w = (Inr y, w')"
  obtains x w1 where "m w = (Inr x, w1)" and "f x w1 = (Inr y, w')"
  using assms by (auto simp: io_bind_def split: prod.splits sum.splits)

lemma adds_extends:
  assumes "adds (\<lambda>_. True) m" and "m w = (r, w')"
  shows "\<exists>new. trace w' = trace w @ new"
  using addsD [OF assms(1), of w] assms(2) by auto

lemma updatePackages_no_changes:
  assumes "processedPackages env cfg w = Inr processed" and "packagesToUpdate processed = []"
  shows "updatePackages env cfg abortMessage w =
           (Inr None, w\<lparr>trace := trace w @ [Log [''>> No changes in CHANGELOG files detected.'']]\<rparr>)"
  using assms
  by (simp add: updatePackages_def io_bind_def io_return_def log_def record_call_def)


subsection \<open>The concrete run, step by step\<close>

lemma demo_call: "call demo_env c w = (Inr (), w\<lparr>trace := trace w @ [c]\<rparr>)"
  by (simp add: call_def demo_env_def)

lemma demo_ask:
  "askForConfirmation demo_env message d a w =
     (Inr (), w\<lparr>trace := trace w @ [AskForConfirmation message d a]\<rparr>)"
  by (simp add: askForConfirmation_def demo_env_def record_call_def)

lemma demo_find:
  "findReleaseBranchName demo_env p w =
     (Inr ''release/10.0'', w\<lparr>trace := trace w @ [FindReleaseBranchName p]\<rparr>)"
  by (simp add: findReleaseBranchName_def demo_env_def record_call_def)

lemma demo_commit:
  "gitCommit demo_env dir message added w =
     (Inr (Some ''1f2e3d4''), w\<lparr>trace := trace w @ [GitCommit dir message added]\<rparr>)"
  by (simp add: gitCommit_def io_bind_def demo_call) (simp add: demo_env_def)

lemma demo_head:
  "gitGetLastCommitHash demo_env dir w =
     (Inr ''9a8b7c6'', w\<lparr>trace := trace w @ [GitGetLastCommitHash dir]\<rparr>)"
  by (simp add: gitGetLastCommitHash_def io_bind_def demo_call) (simp add: demo_env_def)

lemma demo_clone:
  "runGitRepositoryCloneStep demo_env am w =
     (Inr ''/tmp/gutenberg'', w\<lparr>trace := trace w @ [RunGitRepositoryCloneStep am]\<rparr>)"
  by (simp add: runGitRepositoryCloneStep_def io_bind_def demo_call) (simp add: demo_env_def)

lemmas demo_runs = demo_call demo_ask demo_find demo_commit demo_head demo_clone log_run


lemma demo_processed_any:
  assumes "files w = files demo_world" and "manifests w = manifests demo_world"
  shows "processedPackages demo_env cfg w = processedPackages demo_env cfg demo_world"
proof -
  let ?glob = "[''/tmp/gutenberg/packages/a11y/CHANGELOG.md'',
               ''/tmp/gutenberg/packages/e2e/CHANGELOG.md'']"
  have g: "globResult demo_env h p = ?glob" for h p by (simp add: demo_env_def)
  have pub: "changelogFilesPublicPackages demo_env w ps
      = changelogFilesPublicPackages demo_env demo_world ps" for ps
    by (rule public_manifests_only) (rule assms(2))
  have all: "processAll demo_env cfg deps w ps = processAll demo_env cfg deps demo_world ps"
    for deps ps
    by (rule processAll_reads) (simp_all add: assms)
  show ?thesis
    by (simp only: processedPackages_def pub all g)
qed

lemma demo_nothing_to_update:
  "packagesToUpdate (projr (processedPackages demo_env (demo_config False ''patch'' ''latest'')
      demo_world)) = []"
  "isl (processedPackages demo_env (demo_config False ''patch'' ''latest'') demo_world) = False"
  "packagesToUpdate (projr (processedPackages demo_env (demo_config True ''patch'' ''bugfix'')
      demo_world)) = []"
  "isl (processedPackages demo_env (demo_config True ''patch'' ''bugfix'') demo_world) = False"
  by code_simp+

lemma demo_update_none:
  assumes "files w = files demo_world" and "manifests w = manifests demo_world"
    and "cfg = demo_config False ''patch'' ''latest'' \<or> cfg = demo_config True ''patch'' ''bugfix''"
  shows "updatePackages demo_env cfg am w =
           (Inr None, w\<lparr>trace := trace w @ [Log [''>> No changes in CHANGELOG files detected.'']]\<rparr>)"
proof -
  from assms(3) demo_nothing_to_update
  have "isl (processedPackages demo_env cfg demo_world) = False"
    and "packagesToUpdate (projr (processedPackages demo_env cfg demo_world)) = []"
    by auto
  then obtain processed where "processedPackages demo_env cfg demo_world = Inr processed"
    and "packagesToUpdate processed = []"
    by (cases "processedPackages demo_env cfg demo_world") auto
  with demo_processed_any [OF assms(1,2), of cfg] show ?thesis
    by (intro updatePackages_no_changes) simp_all
qed

lemma demo_push:
  "runPushGitChangesStep demo_env cfg am w =
     (Inr (), w\<lparr>trace := trace w @ Log [''Pushing the release branch'']
        # (if interactive cfg
           then [AskForConfirmation
                   ''The release branch is going to be pushed to the remote repository. Continue?''
                   (Some True) (Some am)]
           else [])
        @ [GitPushBranchToOrigin (gitWorkingDirectoryPath cfg) (releaseBranch cfg)]\<rparr>)"
  by (simp add: runPushGitChangesStep_def runStep_def record_call_def io_bind_def io_return_def
      io_when_def demo_runs)

lemma demo_publish_latest:
  "publishPackagesToNpm demo_env (demo_config ia ''patch'' ''latest'') w =
     (Inr ''9a8b7c6'', w\<lparr>trace := trace w @
        [Log [''>> Installing npm packages.''],
         Command ''npm ci'' ''/tmp/gutenberg'' False,
         Log [''>> Bumping version of public packages changed since the last release.''],
         Command ''npx lerna version patch --no-private'' ''/tmp/gutenberg'' True,
         Log [''>> Publishing modified packages to npm.''],
         Command ''npx lerna publish from-package'' ''/tmp/gutenberg'' True,
         GitGetLastCommitHash ''/tmp/gutenberg'']\<rparr>)"
  by (simp add: publishPackagesToNpm_def io_bind_def demo_runs demo_config_def)


lemma demo_backport:
  "rt = ''latest'' \<or> rt = ''bugfix'' \<Longrightarrow>
   backportCommitsToTrunk demo_env (demo_config ia ''patch'' rt) [''9a8b7c6''] w =
     (Inr (), w\<lparr>trace := trace w @
        [Log [''>> Backporting commits.''],
         GitResetLocalBranchAgainstOrigin ''/tmp/gutenberg'' ''trunk'',
         GitCherrypickCommitIntoBranch ''/tmp/gutenberg'' ''9a8b7c6'',
         GitPushBranchToOrigin ''/tmp/gutenberg'' (Some ''trunk'')]\<rparr>)"
  by (auto simp: backportCommitsToTrunk_def io_bind_def io_return_def demo_runs demo_config_def)

lemma demo_sync_latest:
  "runWordPressReleaseBranchSyncStep demo_env (demo_config False bump ''latest'') am w =
     (Inr ''wp/trunk'',
      w\<lparr>trace := trace w @
        [Log [''Getting into the WordPress release branch''],
         GitCheckoutRemoteBranch ''/tmp/gutenberg'' ''trunk'',
         FindReleaseBranchName ''/tmp/gutenberg/package.json'',
         GitCheckoutRemoteBranch ''/tmp/gutenberg'' ''wp/trunk'',
         GitFetch ''/tmp/gutenberg'' [''--depth=100''],
         Log [''>> The local release branch wp/trunk has been successfully checked out.''],
         GitReplaceContentFromRemoteBranch ''/tmp/gutenberg'' ''release/10.0'',
         GitCommit ''/tmp/gutenberg''
           (''Merge changes published in the Gutenberg plugin '' @ dq @ ''release/10.0'' @ dq
             @ '' branch'') None,
         Log [''>> The local WordPress release branch wp/trunk has been successfully synced.'']]\<rparr>)"
  by (simp add: runWordPressReleaseBranchSyncStep_def syncHandler_def runStep_def
      record_call_def io_bind_def io_return_def io_when_def demo_runs demo_config_def
      wordpressReleaseBranch_def)

lemma demo_releaseSteps_latest:
  assumes "files w = files demo_world" and "manifests w = manifests demo_world"
  shows "releaseSteps demo_env (demo_config False ''patch'' ''latest'') folders w =
     (Inr (), w\<lparr>trace := trace w @
        [Log [''Getting into the WordPress release branch''],
         GitCheckoutRemoteBranch ''/tmp/gutenberg'' ''trunk'',
         FindReleaseBranchName ''/tmp/gutenberg/package.json'',
         GitCheckoutRemoteBranch ''/tmp/gutenberg'' ''wp/trunk'',
         GitFetch ''/tmp/gutenberg'' [''--depth=100''],
         Log [''>> The local release branch wp/trunk has been successfully checked out.''],
         GitReplaceContentFromRemoteBranch ''/tmp/gutenberg'' ''release/10.0'',
         GitCommit ''/tmp/gutenberg''
           (''Merge changes published in the Gutenberg plugin '' @ dq @ ''release/10.0'' @ dq
             @ '' branch'') None,
         Log [''>> The local WordPress release branch wp/trunk has been successfully synced.''],
         Log [''>> No changes in CHANGELOG files detected.''],
         Log [''Pushing the release branch''],
         GitPushBranchToOrigin ''/tmp/gutenberg'' None,
         Log [''>> Installing npm packages.''],
         Command ''npm ci'' ''/tmp/gutenberg'' False,
         Log [''>> Bumping version of public packages changed since the last release.''],
         Command ''npx lerna version patch --no-private'' ''/tmp/gutenberg'' True,
         Log [''>> Publishing modified packages to npm.''],
         Command ''npx lerna publish from-package'' ''/tmp/gutenberg'' True,
         GitGetLastCommitHash ''/tmp/gutenberg'',
         Log [''>> Backporting commits.''],
         GitResetLocalBranchAgainstOrigin ''/tmp/gutenberg'' ''trunk'',
         GitCherrypickCommitIntoBranch ''/tmp/gutenberg'' ''9a8b7c6'',
         GitPushBranchToOrigin ''/tmp/gutenberg'' (Some ''trunk''),
         RunCleanLocalFoldersStep folders ''Cleaning failed.'',
         Log [nl @ ''>> WordPress packages are now published!'' @ nl @ nl,
              ''Let also people know on WordPress Slack and celebrate together.'']]\<rparr>)"
proof -
  have fb: "filterBoolean [None, Some ''9a8b7c6''] = [''9a8b7c6'']"
    by (simp add: filterBoolean_def truthy_def)
  have cfg: "interactive (demo_config False ''patch'' ''latest'') = False"
    "gitWorkingDirectoryPath (demo_config False ''patch'' ''latest'') = ''/tmp/gutenberg''"
    "releaseBranch (demo_config False ''patch'' ''latest'') = None"
    by (simp_all add: demo_config_def)
  show ?thesis
    unfolding releaseSteps_def
    by (simp add: io_bind_def demo_sync_latest demo_update_none assms demo_push
        demo_publish_latest fb demo_backport runCleanLocalFoldersStep_def demo_runs cfg)
qed

lemma demo_choose_ci:
  "chooseWorkingDirectory demo_env (initialConfig True bump rt) am w =
     (Inr (demo_config False bump rt, []), w)"
  by (simp add: chooseWorkingDirectory_def initialConfig_def io_return_def demo_config_def
      demo_env_def)


lemma demo_latest_ci:
  "publishNpmLatestDistTag demo_env True ''patch'' demo_world =
     (Inr (), demo_world\<lparr>trace :=
        [Log [nl @ ''Time to publish WordPress packages to npm'' @ nl @ nl,
              ''To perform a release you'' @ [CHR 0x27]
                @ ''ll have to be a member of the WordPress Team on npm.'' @ nl,
              ''Welcome! This tool helps with publishing a new latest version of WordPress packages.'' @ nl],
         Log [''Getting into the WordPress release branch''],
         GitCheckoutRemoteBranch ''/tmp/gutenberg'' ''trunk'',
         FindReleaseBranchName ''/tmp/gutenberg/package.json'',
         GitCheckoutRemoteBranch ''/tmp/gutenberg'' ''wp/trunk'',
         GitFetch ''/tmp/gutenberg'' [''--depth=100''],
         Log [''>> The local release branch wp/trunk has been successfully checked out.''],
         GitReplaceContentFromRemoteBranch ''/tmp/gutenberg'' ''release/10.0'',
         GitCommit ''/tmp/gutenberg''
           (''Merge changes published in the Gutenberg plugin '' @ dq @ ''release/10.0'' @ dq
             @ '' branch'') None,
         Log [''>> The local WordPress release branch wp/trunk has been successfully synced.''],
         Log [''>> No changes in CHANGELOG files detected.''],
         Log [''Pushing the release branch''],
         GitPushBranchToOrigin ''/tmp/gutenberg'' None,
         Log [''>> Installing npm packages.''],
         Command ''npm ci'' ''/tmp/gutenberg'' False,
         Log [''>> Bumping version of public packages changed since the last release.''],
         Command ''npx lerna version patch --no-private'' ''/tmp/gutenberg'' True,
         Log [''>> Publishing modified packages to npm.''],
         Command ''npx lerna publish from-package'' ''/tmp/gutenberg'' True,
         GitGetLastCommitHash ''/tmp/gutenberg'',
         Log [''>> Backporting commits.''],
         GitResetLocalBranchAgainstOrigin ''/tmp/gutenberg'' ''trunk'',
         GitCherrypickCommitIntoBranch ''/tmp/gutenberg'' ''9a8b7c6'',
         GitPushBranchToOrigin ''/tmp/gutenberg'' (Some ''trunk''),
         RunCleanLocalFoldersStep [] ''Cleaning failed.'',
         Log [nl @ ''>> WordPress packages are now published!'' @ nl @ nl,
              ''Let also people know on WordPress Slack and celebrate together.'']]\<rparr>)"
proof -
  have t: "trace demo_world = []" by (simp add: demo_world_def)
  show ?thesis
    unfolding publishNpmLatestDistTag_def prepareForPackageRelease_def
    by (simp add: io_bind_def log_run demo_choose_ci demo_releaseSteps_latest t)
qed


subsection \<open>The confirmation gates\<close>








lemma updatePackageFiles_keeps:
  assumes "files w (changelogPath r) \<noteq> None" and "manifests w (packageJSONPath r) \<noteq> None"
  shows "fst (updatePackageFiles cfg date r w) = Inr () \<and>
         (\<forall>p. files w p \<noteq> None \<longrightarrow> files (snd (updatePackageFiles cfg date r w)) p \<noteq> None) \<and>
         (\<forall>p. manifests w p \<noteq> None \<longrightarrow> manifests (snd (updatePackageFiles cfg date r w)) p \<noteq> None)"
  using assms
  by (auto simp: updatePackageFiles_def Let_def log_def record_call_def split: option.splits)

lemma updateAll_succeeds:
  "\<forall>r \<in> set rs. files w (changelogPath r) \<noteq> None \<and> manifests w (packageJSONPath r) \<noteq> None \<Longrightarrow>
   fst (updateAll cfg date rs w) = Inr ()"
proof (induction rs arbitrary: w)
  case Nil
  then show ?case by (simp add: io_return_def)
next
  case (Cons r rs)
  let ?w1 = "snd (updatePackageFiles cfg date r w)"
  from Cons.prems have here: "files w (changelogPath r) \<noteq> None" "manifests w (packageJSONPath r) \<noteq> None"
    by simp_all
  note keeps = updatePackageFiles_keeps [OF here, of cfg date]
  from keeps Cons.prems
  have "\<forall>r \<in> set rs. files ?w1 (changelogPath r) \<noteq> None \<and> manifests ?w1 (packageJSONPath r) \<noteq> None"
    by auto
  from Cons.IH [OF this] keeps show ?case
    by (simp add: io_bind_Inr [of "updatePackageFiles cfg date r" w "()"])
qed

lemma processed_files_exist:
  assumes "processedPackages env cfg w = Inr processed" and "r \<in> set processed"
  shows "files w (changelogPath r) \<noteq> None \<and> manifests w (packageJSONPath r) \<noteq> None"
proof -
  from processed_member [OF assms] obtain deps
    where "processPackage env cfg deps w (changelogPath r) = Inr r" by blast
  from processPackage_fields [OF this] show ?thesis by auto
qed




lemma bind_log: "io_bind (log args) f w = f () (w\<lparr>trace := trace w @ [Log args]\<rparr>)"
  by (simp add: io_bind_def log_run)


lemma bind_when:
  "io_bind (io_when b m) f w = (if b then io_bind m f w else f () w)"
  by (simp add: io_when_def io_bind_def io_return_def)
















subsection \<open>Running the update again\<close>

lemma demo_fix_first_run:
  "fst (updatePackages demo_env (demo_config False ''patch'' ''latest'') ''Aborting!''
         demo_world_fix) = Inr (Some ''1f2e3d4'')"
  "files (snd (updatePackages demo_env (demo_config False ''patch'' ''latest'') ''Aborting!''
         demo_world_fix)) ''/tmp/gutenberg/packages/a11y/CHANGELOG.md''
     = Some (''## Unreleased'' @ nl @ nl @ ''## 1.0.1 (2021-03-04)'' @ nl @ nl
              @ ''### Bug Fixes'' @ nl @ nl @ ''- Fix focus loss.''
              @ nl @ nl @ ''## 1.0.0 (2021-01-01)'' @ nl @ nl @ ''Initial release.'')"
  by code_simp+


subsection \<open>The calls of the backport\<close>

lemma issuesD:
  "issues m full \<Longrightarrow>
   \<exists>new. trace (snd (m w)) = trace w @ new \<and> prefix new full \<and>
         (\<forall>x. fst (m w) = Inr x \<longrightarrow> new = full)"
  by (simp add: issues_def)

lemma issues_return: "issues (io_return x) []"
  by (simp add: issues_def io_return_def)

lemma issues_log: "issues (log args) [Log args]"
  by (simp add: issues_def log_def record_call_def)

lemma issues_call: "issues (call env c) [c]"
  by (simp add: issues_def call_def Let_def split: prod.splits)

lemma issues_bind:
  assumes "issues m full1" and "\<And>x. issues (g x) full2"
  shows "issues (io_bind m g) (full1 @ full2)"
proof (unfold issues_def, rule allI)
  fix w
  obtain r w1 where m: "m w = (r, w1)" by (cases "m w")
  from issuesD [OF assms(1), of w] m obtain n1
    where n1: "trace w1 = trace w @ n1" "prefix n1 full1" "\<forall>x. r = Inr x \<longrightarrow> n1 = full1"
    by auto
  show "\<exists>new. trace (snd (io_bind m g w)) = trace w @ new \<and> prefix new (full1 @ full2) \<and>
          (\<forall>x. fst (io_bind m g w) = Inr x \<longrightarrow> new = full1 @ full2)"
  proof (cases r)
    case (Inl e)
    with m n1 show ?thesis by (auto simp: io_bind_def)
  next
    case (Inr x)
    from issuesD [OF assms(2), of x w1] obtain n2
      where "trace (snd (g x w1)) = trace w1 @ n2" "prefix n2 full2"
        "\<forall>y. fst (g x w1) = Inr y \<longrightarrow> n2 = full2"
      by auto
    with m n1 Inr show ?thesis by (auto simp: io_bind_def)
  qed
qed

lemma issues_cherrypickAll:
  "issues (cherrypickAll env dir cs) (map (GitCherrypickCommitIntoBranch dir) cs)"
proof (induction cs)
  case Nil
  then show ?case by (simp add: issues_return)
next
  case (Cons c cs)
  from issues_bind [OF issues_call, of "\<lambda>_. cherrypickAll env dir cs", OF Cons]
  show ?case by simp
qed

lemma issues_backport:
  assumes "releaseType cfg \<in> {''latest'', ''bugfix''}" and "commits \<noteq> []"
  shows "issues (backportCommitsToTrunk env cfg commits)
     ([Log [''>> Backporting commits.'']] @
      [GitResetLocalBranchAgainstOrigin (gitWorkingDirectoryPath cfg) ''trunk''] @
      map (GitCherrypickCommitIntoBranch (gitWorkingDirectoryPath cfg)) commits @
      [GitPushBranchToOrigin (gitWorkingDirectoryPath cfg) (Some ''trunk'')])"
proof -
  have "issues
     (io_bind (log [''>> Backporting commits.'']) (\<lambda>_.
      io_bind (call env (GitResetLocalBranchAgainstOrigin (gitWorkingDirectoryPath cfg)
                 ''trunk'')) (\<lambda>_.
      io_bind (cherrypickAll env (gitWorkingDirectoryPath cfg) commits) (\<lambda>_.
      call env (GitPushBranchToOrigin (gitWorkingDirectoryPath cfg) (Some ''trunk''))))))
     ([Log [''>> Backporting commits.'']] @
      [GitResetLocalBranchAgainstOrigin (gitWorkingDirectoryPath cfg) ''trunk''] @
      map (GitCherrypickCommitIntoBranch (gitWorkingDirectoryPath cfg)) commits @
      [GitPushBranchToOrigin (gitWorkingDirectoryPath cfg) (Some ''trunk'')])"
    by (intro issues_bind issues_log issues_call issues_cherrypickAll)
  moreover from assms have "backportCommitsToTrunk env cfg commits =
      io_bind (log [''>> Backporting commits.'']) (\<lambda>_.
      io_bind (call env (GitResetLocalBranchAgainstOrigin (gitWorkingDirectoryPath cfg)
                 ''trunk'')) (\<lambda>_.
      io_bind (cherrypickAll env (gitWorkingDirectoryPath cfg) commits) (\<lambda>_.
      call env (GitPushBranchToOrigin (gitWorkingDirectoryPath cfg) (Some ''trunk'')))))"
    by (auto simp: backportCommitsToTrunk_def)
  ultimately show ?thesis by simp
qed

lemma backport_quiet:
  "(releaseType cfg \<in> {''latest'', ''bugfix''} \<and> commits \<noteq> [] \<and> quiet env \<longrightarrow>
      fst (backportCommitsToTrunk env cfg commits w) = Inr () \<and>
      trace (snd (backportCommitsToTrunk env cfg commits w)) =
        trace w @ [Log [''>> Backporting commits.''],
                   GitResetLocalBranchAgainstOrigin (gitWorkingDirectoryPath cfg) ''trunk'']
          @ map (GitCherrypickCommitIntoBranch (gitWorkingDirectoryPath cfg)) commits
          @ [GitPushBranchToOrigin (gitWorkingDirectoryPath cfg) (Some ''trunk'')])"
proof (intro conjI impI)
  assume a: "releaseType cfg \<in> {''latest'', ''bugfix''} \<and> commits \<noteq> [] \<and> quiet env"
  let ?dir = "gitWorkingDirectoryPath cfg"
  let ?w1 = "w\<lparr>trace := trace w @ [Log [''>> Backporting commits.'']]\<rparr>"
  let ?w2 = "snd (call env (GitResetLocalBranchAgainstOrigin ?dir ''trunk'') ?w1)"
  let ?w3 = "snd (cherrypickAll env ?dir commits ?w2)"
  let ?push = "call env (GitPushBranchToOrigin ?dir (Some ''trunk''))"
  from a have q: "quiet env" by simp
  have run: "backportCommitsToTrunk env cfg commits w = ?push ?w3"
    using a call_quiet [OF q] cherrypickAll_quiet [OF q]
    by (simp add: backportCommitsToTrunk_def io_bind_Inr log_run)
  have t3: "trace ?w3 = trace w @ [Log [''>> Backporting commits.''],
                   GitResetLocalBranchAgainstOrigin ?dir ''trunk'']
          @ map (GitCherrypickCommitIntoBranch ?dir) commits"
    using call_quiet [OF q] cherrypickAll_quiet [OF q] by simp
  show "fst (backportCommitsToTrunk env cfg commits w) = Inr ()"
    using run call_quiet [OF q] by simp
  show "trace (snd (backportCommitsToTrunk env cfg commits w)) =
        trace w @ [Log [''>> Backporting commits.''],
                   GitResetLocalBranchAgainstOrigin (gitWorkingDirectoryPath cfg) ''trunk'']
          @ map (GitCherrypickCommitIntoBranch (gitWorkingDirectoryPath cfg)) commits
          @ [GitPushBranchToOrigin (gitWorkingDirectoryPath cfg) (Some ''trunk'')]"
    using run t3 call_quiet [OF q] by simp
qed


subsection \<open>The calls of a step that returns\<close>

lemma returningD:
  "returning m Q \<Longrightarrow> m w = (Inr x, w') \<Longrightarrow> \<exists>new. trace w' = trace w @ new \<and> Q (trace w) new x"
  by (simp add: returning_def)

lemma returning_weaken:
  "returning m Q \<Longrightarrow> (\<And>h new x. Q h new x \<Longrightarrow> Q' h new x) \<Longrightarrow> returning m Q'"
  by (fastforce simp: returning_def)

lemma returning_return: "returning (io_return x) (\<lambda>h new y. new = [] \<and> y = x)"
  by (auto simp: returning_def io_return_def)

lemma returning_log: "returning (log args) (\<lambda>h new _. new = [Log args])"
  by (auto simp: returning_def log_def record_call_def)

lemma returning_call: "returning (call env c) (\<lambda>h new _. new = [c])"
  by (auto simp: returning_def call_def Let_def split: prod.splits if_splits)

lemma returning_ask:
  "returning (askForConfirmation env message d a)
     (\<lambda>h new _. new = [AskForConfirmation message d a])"
  by (auto simp: returning_def askForConfirmation_def record_call_def Let_def split: if_splits)

lemma returning_find:
  "returning (findReleaseBranchName env p)
     (\<lambda>h new x. new = [FindReleaseBranchName p] \<and> x = pluginReleaseBranchName env h p)"
  by (auto simp: returning_def findReleaseBranchName_def record_call_def Let_def
      split: if_splits)

lemma returning_bind:
  assumes "returning m Q1" and "\<And>x. returning (f x) (Q2 x)"
  shows "returning (io_bind m f)
           (\<lambda>h new y. \<exists>n1 n2 x. new = n1 @ n2 \<and> Q1 h n1 x \<and> Q2 x (h @ n1) n2 y)"
proof (unfold returning_def, intro allI impI)
  fix w y w'
  assume run: "io_bind m f w = (Inr y, w')"
  obtain r w1 where m: "m w = (r, w1)" by (cases "m w")
  with run obtain x where r: "r = Inr x" and f: "f x w1 = (Inr y, w')"
    by (cases r) (auto simp: io_bind_def)
  from returningD [OF assms(1)] m r obtain n1
    where n1: "trace w1 = trace w @ n1" "Q1 (trace w) n1 x" by blast
  from returningD [OF assms(2) f] obtain n2
    where n2: "trace w' = trace w1 @ n2" "Q2 x (trace w1) n2 y" by blast
  from n1 n2 show "\<exists>new. trace w' = trace w @ new \<and>
      (\<exists>n1 n2 x. new = n1 @ n2 \<and> Q1 (trace w) n1 x \<and> Q2 x (trace w @ n1) n2 y)"
    by auto
qed

lemma returning_commit:
  "returning (gitCommit env dir message added)
     (\<lambda>h new x. new = [GitCommit dir message added] \<and> x = committedHash env (h @ new))"
  unfolding gitCommit_def
  by (auto simp: returning_def io_bind_def call_def Let_def split: prod.splits if_splits sum.splits)

lemma returning_head:
  "returning (gitGetLastCommitHash env dir)
     (\<lambda>h new x. new = [GitGetLastCommitHash dir] \<and> x = headHash env (h @ new))"
  unfolding gitGetLastCommitHash_def
  by (auto simp: returning_def io_bind_def call_def Let_def split: prod.splits if_splits sum.splits)

lemma returning_clone:
  "returning (runGitRepositoryCloneStep env am)
     (\<lambda>h new x. new = [RunGitRepositoryCloneStep am] \<and> x = clonedDirectory env (h @ new))"
  unfolding runGitRepositoryCloneStep_def
  by (auto simp: returning_def io_bind_def call_def Let_def split: prod.splits if_splits sum.splits)

lemma returning_when:
  "(b \<Longrightarrow> returning m Q) \<Longrightarrow>
   returning (io_when b m) (\<lambda>h new _. if b then \<exists>x. Q h new x else new = [])"
  by (cases b) (fastforce simp: io_when_def returning_def io_return_def)+

lemma returning_if:
  "(b \<Longrightarrow> returning m Q) \<Longrightarrow> (\<not> b \<Longrightarrow> returning n Q') \<Longrightarrow>
   returning (if b then m else n) (\<lambda>h new x. if b then Q h new x else Q' h new x)"
  by (cases b) simp_all

lemma returning_runStep:
  assumes "returning handler Q"
  shows "returning (runStep name abortMessage handler)
           (\<lambda>h new x. \<exists>rest. new = Log [name] # rest \<and> Q (h @ [Log [name]]) rest x)"
proof (unfold returning_def, intro allI impI)
  fix w x w'
  assume "runStep name abortMessage handler w = (Inr x, w')"
  then have "handler (record_call (Log [name]) w) = (Inr x, w')"
    by (auto simp: runStep_def split: prod.splits sum.splits)
  from returningD [OF assms this]
  show "\<exists>new. trace w' = trace w @ new \<and>
          (\<exists>rest. new = Log [name] # rest \<and> Q (trace w @ [Log [name]]) rest x)"
    by (auto simp: record_call_def)
qed

lemmas returning_intros = returning_return returning_log returning_call returning_ask
  returning_find returning_commit returning_head returning_clone returning_bind returning_when
  returning_if returning_runStep

lemma sync_calls:
  "returning (runWordPressReleaseBranchSyncStep env cfg am)
    (\<lambda>h new branch. branch = wordpressReleaseBranch (releaseType cfg) \<and>
       new =
        [Log [''Getting into the WordPress release branch''],
         GitCheckoutRemoteBranch (gitWorkingDirectoryPath cfg) ''trunk'',
         FindReleaseBranchName (gitWorkingDirectoryPath cfg @ ''/package.json''),
         GitCheckoutRemoteBranch (gitWorkingDirectoryPath cfg)
           (wordpressReleaseBranch (releaseType cfg)),
         GitFetch (gitWorkingDirectoryPath cfg) [''--depth=100''],
         Log [''>> The local release branch '' @ wordpressReleaseBranch (releaseType cfg)
                @ '' has been successfully checked out.'']]
        @ (if releaseType cfg \<in> {''latest'', ''next''} then
             (if interactive cfg then
                [AskForConfirmation
                   (''The branch is ready for sync with the latest plugin release changes applied to ''
                     @ dq @ pluginReleaseBranchName env
                        (h @ [Log [''Getting into the WordPress release branch''],
                              GitCheckoutRemoteBranch (gitWorkingDirectoryPath cfg) ''trunk''])
                        (gitWorkingDirectoryPath cfg @ ''/package.json'')
                     @ dq @ ''. Proceed?'') (Some True) (Some am)]
              else [])
             @ [GitReplaceContentFromRemoteBranch (gitWorkingDirectoryPath cfg)
                  (pluginReleaseBranchName env
                        (h @ [Log [''Getting into the WordPress release branch''],
                              GitCheckoutRemoteBranch (gitWorkingDirectoryPath cfg) ''trunk''])
                        (gitWorkingDirectoryPath cfg @ ''/package.json'')),
                GitCommit (gitWorkingDirectoryPath cfg)
                  (''Merge changes published in the Gutenberg plugin '' @ dq
                    @ pluginReleaseBranchName env
                        (h @ [Log [''Getting into the WordPress release branch''],
                              GitCheckoutRemoteBranch (gitWorkingDirectoryPath cfg) ''trunk''])
                        (gitWorkingDirectoryPath cfg @ ''/package.json'')
                    @ dq @ '' branch'') None,
                Log [''>> The local WordPress release branch ''
                       @ wordpressReleaseBranch (releaseType cfg)
                       @ '' has been successfully synced.'']]
           else []))"
  unfolding runWordPressReleaseBranchSyncStep_def syncHandler_def
  apply (rule returning_weaken)
   apply (rule returning_intros)+
  apply (auto split: if_splits)
  done

lemma push_calls:
  "returning (runPushGitChangesStep env cfg am)
     (\<lambda>h new _. new =
        Log [''Pushing the release branch'']
        # (if interactive cfg
           then [AskForConfirmation
                   ''The release branch is going to be pushed to the remote repository. Continue?''
                   (Some True) (Some am)]
           else [])
        @ [GitPushBranchToOrigin (gitWorkingDirectoryPath cfg) (releaseBranch cfg)])"
  unfolding runPushGitChangesStep_def
  apply (rule returning_weaken)
   apply (rule returning_intros)+
  apply (auto split: if_splits)
  done

lemma publish_calls:
  "returning (publishPackagesToNpm env cfg)
     (\<lambda>h new hash. \<exists>preid.
        new =
          [Log [''>> Installing npm packages.''],
           Command ''npm ci'' (gitWorkingDirectoryPath cfg) False]
          @ (if releaseType cfg = ''next'' then
               [Log [''>> Bumping version of public packages changed since the last release.''],
                GitGetLastCommitHash (gitWorkingDirectoryPath cfg),
                Command (''npx lerna version pre'' @ minimumVersionBump cfg @ '' --preid next.''
                          @ preid @ '' --no-private'') (gitWorkingDirectoryPath cfg) True,
                Log [''>> Publishing modified packages to npm.''],
                Command ''npx lerna publish from-package --dist-tag next''
                  (gitWorkingDirectoryPath cfg) True]
             else if releaseType cfg = ''bugfix'' then
               [Log [''>> Publishing modified packages to npm.''],
                Command ''npm run publish:latest'' (gitWorkingDirectoryPath cfg) True]
             else
               [Log [''>> Bumping version of public packages changed since the last release.''],
                Command (''npx lerna version '' @ minimumVersionBump cfg @ '' --no-private'')
                  (gitWorkingDirectoryPath cfg) True,
                Log [''>> Publishing modified packages to npm.''],
                Command ''npx lerna publish from-package'' (gitWorkingDirectoryPath cfg) True])
          @ [GitGetLastCommitHash (gitWorkingDirectoryPath cfg)] \<and>
        hash = headHash env (h @ new))"
  unfolding publishPackagesToNpm_def
  apply (rule returning_weaken)
   apply (rule returning_intros)+
  apply (auto split: if_splits)
  done

lemma backport_calls:
  "returning (backportCommitsToTrunk env cfg commits)
     (\<lambda>h new _. new =
        (if releaseType cfg \<in> {''latest'', ''bugfix''} \<and> commits \<noteq> [] then
           [Log [''>> Backporting commits.''],
            GitResetLocalBranchAgainstOrigin (gitWorkingDirectoryPath cfg) ''trunk'']
           @ map (GitCherrypickCommitIntoBranch (gitWorkingDirectoryPath cfg)) commits
           @ [GitPushBranchToOrigin (gitWorkingDirectoryPath cfg) (Some ''trunk'')]
         else []))"
proof (cases "releaseType cfg \<in> {''latest'', ''bugfix''} \<and> commits \<noteq> []")
  case True
  then have rt: "releaseType cfg \<in> {''latest'', ''bugfix''}" and c: "commits \<noteq> []" by simp_all
  show ?thesis
  proof (unfold returning_def, intro allI impI)
    fix w x w'
    assume run: "backportCommitsToTrunk env cfg commits w = (Inr x, w')"
    from issuesD [OF issues_backport [OF rt c], of env w] run True
    show "\<exists>new. trace w' = trace w @ new \<and> new =
        (if releaseType cfg \<in> {''latest'', ''bugfix''} \<and> commits \<noteq> [] then
           [Log [''>> Backporting commits.''],
            GitResetLocalBranchAgainstOrigin (gitWorkingDirectoryPath cfg) ''trunk'']
           @ map (GitCherrypickCommitIntoBranch (gitWorkingDirectoryPath cfg)) commits
           @ [GitPushBranchToOrigin (gitWorkingDirectoryPath cfg) (Some ''trunk'')]
         else [])"
      by auto
  qed
next
  case False
  then show ?thesis
    by (auto simp: returning_def backportCommitsToTrunk_def io_return_def)
qed

lemma choose_calls:
  "returning (chooseWorkingDirectory env cfg am)
     (\<lambda>h new x.
        (if interactive cfg
         then new = [AskForConfirmation ''Ready to go?'' None None, RunGitRepositoryCloneStep am] \<and>
              x = (cfg\<lparr>gitWorkingDirectoryPath := clonedDirectory env (h @ new)\<rparr>,
                   [clonedDirectory env (h @ new)])
         else new = [] \<and> x = (cfg\<lparr>gitWorkingDirectoryPath := cwd env\<rparr>, [])))"
  unfolding chooseWorkingDirectory_def
  apply (rule returning_weaken)
   apply (rule returning_intros)+
  apply (auto split: if_splits)
  done

lemma updateAll_logs:
  "returning (updateAll cfg date rs) (\<lambda>h new _. \<forall>c \<in> set new. \<exists>line. c = Log [''   - '' @ line])"
proof (induction rs)
  case Nil
  show ?case by (auto simp: returning_def io_return_def)
next
  case (Cons r rs)
  have one: "returning (updatePackageFiles cfg date r)
      (\<lambda>h new _. \<forall>c \<in> set new. \<exists>line. c = Log [''   - '' @ line])"
    by (auto simp: returning_def updatePackageFiles_def Let_def log_def record_call_def
        split: option.splits)
  show ?case
    unfolding updateAll.simps
    by (rule returning_weaken [OF returning_bind [OF one Cons]]) auto
qed

lemma updatePackages_calls:
  "returning (updatePackages env cfg am)
     (\<lambda>h new hash.
        (new = [Log [''>> No changes in CHANGELOG files detected.'']] \<and> hash = None) \<or>
        Log [''>> No changes in CHANGELOG files detected.''] \<notin> set new)"
proof (unfold returning_def, intro allI impI)
  fix w hash w'
  assume run: "updatePackages env cfg am w = (Inr hash, w')"
  then obtain processed where p: "processedPackages env cfg w = Inr processed"
    by (cases "processedPackages env cfg w") (auto simp: updatePackages_def)
  let ?no = "Log [''>> No changes in CHANGELOG files detected.'']"
  show "\<exists>new. trace w' = trace w @ new \<and> ((new = [?no] \<and> hash = None) \<or> ?no \<notin> set new)"
  proof (cases "packagesToUpdate processed = []")
    case True
    from updatePackages_no_changes [OF p True, of am] run show ?thesis by auto
  next
    case False
    let ?chain = "io_bind (log [''>> Recommended version bumps based on the changes detected in CHANGELOG files:'']) (\<lambda>_.
             io_bind (updateAll cfg (publishDate env) (packagesToUpdate processed)) (\<lambda>_.
             io_bind (io_when (interactive cfg)
                (askForConfirmation env
                   ''All corresponding files were updated. Commit the changes?''
                   (Some True) (Some am))) (\<lambda>_.
             io_bind (gitCommit env (gitWorkingDirectoryPath cfg) ''Update changelog files''
                        (Some [''./*''])) (\<lambda>hash.
             io_bind (log [''>> Changelog files changes have been committed successfully.''])
               (\<lambda>_.
             io_return hash)))))"
    have "returning ?chain (\<lambda>h new _. ?no \<notin> set new)"
      apply (rule returning_weaken)
       apply (rule updateAll_logs returning_intros)+
      apply (auto split: if_splits)
      done
    moreover from p run False have "?chain w = (Inr hash, w')"
      by (simp add: updatePackages_def)
    ultimately show ?thesis by (auto dest!: returningD)
  qed
qed

lemma filterBoolean_publish:
  "filterBoolean [None, Some hash] = (if hash = [] then [] else [hash])"
  by (simp add: filterBoolean_def truthy_def)

lemma releaseSteps_after_no_changes:
  assumes run: "releaseSteps env cfg folders w = (Inr u, w')"
    and no: "Log [''>> No changes in CHANGELOG files detected.''] \<in> set (issued w w')"
  shows "\<exists>pre preid before.
     before =
       pre @ [Log [''>> No changes in CHANGELOG files detected.''],
              Log [''Pushing the release branch'']]
       @ (if interactive cfg
          then [AskForConfirmation
                  ''The release branch is going to be pushed to the remote repository. Continue?''
                  (Some True)
                  (Some (''Aborting! Make sure to push changes applied to WordPress release branch ''
                           @ dq @ wordpressReleaseBranch (releaseType cfg) @ dq @ '' manually.''))]
          else [])
       @ [GitPushBranchToOrigin (gitWorkingDirectoryPath cfg) (releaseBranch cfg),
          Log [''>> Installing npm packages.''],
          Command ''npm ci'' (gitWorkingDirectoryPath cfg) False]
       @ (if releaseType cfg = ''next'' then
            [Log [''>> Bumping version of public packages changed since the last release.''],
             GitGetLastCommitHash (gitWorkingDirectoryPath cfg),
             Command (''npx lerna version pre'' @ minimumVersionBump cfg @ '' --preid next.''
                       @ preid @ '' --no-private'') (gitWorkingDirectoryPath cfg) True,
             Log [''>> Publishing modified packages to npm.''],
             Command ''npx lerna publish from-package --dist-tag next''
               (gitWorkingDirectoryPath cfg) True]
          else if releaseType cfg = ''bugfix'' then
            [Log [''>> Publishing modified packages to npm.''],
             Command ''npm run publish:latest'' (gitWorkingDirectoryPath cfg) True]
          else
            [Log [''>> Bumping version of public packages changed since the last release.''],
             Command (''npx lerna version '' @ minimumVersionBump cfg @ '' --no-private'')
               (gitWorkingDirectoryPath cfg) True,
             Log [''>> Publishing modified packages to npm.''],
             Command ''npx lerna publish from-package'' (gitWorkingDirectoryPath cfg) True])
       @ [GitGetLastCommitHash (gitWorkingDirectoryPath cfg)] \<and>
     issued w w' =
       before
       @ (if releaseType cfg \<in> {''latest'', ''bugfix''} \<and> headHash env (trace w @ before) \<noteq> []
          then [Log [''>> Backporting commits.''],
                GitResetLocalBranchAgainstOrigin (gitWorkingDirectoryPath cfg) ''trunk'',
                GitCherrypickCommitIntoBranch (gitWorkingDirectoryPath cfg)
                  (headHash env (trace w @ before)),
                GitPushBranchToOrigin (gitWorkingDirectoryPath cfg) (Some ''trunk'')]
          else [])
       @ [RunCleanLocalFoldersStep folders ''Cleaning failed.'',
          Log [nl @ ''>> WordPress packages are now published!'' @ nl @ nl,
               ''Let also people know on WordPress Slack and celebrate together.'']]"
  using run unfolding releaseSteps_def
proof (elim io_bind_InrE, goal_cases)
  case (1 branch w1 hash w2 u3 w3 published w4 u5 w5 u6 w6)
  let ?no = "Log [''>> No changes in CHANGELOG files detected.'']"
  let ?dir = "gitWorkingDirectoryPath cfg"
  from returningD [OF sync_calls 1(1)] obtain n1
    where n1: "trace w1 = trace w @ n1" and b: "branch = wordpressReleaseBranch (releaseType cfg)"
      and s1: "?no \<notin> set n1"
    by (auto split: if_splits)
  from returningD [OF updatePackages_calls 1(2)] obtain n2
    where n2: "trace w2 = trace w1 @ n2"
      and c2: "(n2 = [?no] \<and> hash = None) \<or> ?no \<notin> set n2" by blast
  define n3 where "n3 = Log [''Pushing the release branch'']
        # (if interactive cfg
           then [AskForConfirmation
                   ''The release branch is going to be pushed to the remote repository. Continue?''
                   (Some True)
                   (Some (''Aborting! Make sure to push changes applied to WordPress release branch ''
                           @ dq @ wordpressReleaseBranch (releaseType cfg) @ dq @ '' manually.''))]
           else [])
        @ [GitPushBranchToOrigin ?dir (releaseBranch cfg)]"
  from returningD [OF push_calls 1(3)] have n3: "trace w3 = trace w2 @ n3"
    unfolding n3_def b by auto
  have s3: "?no \<notin> set n3" by (simp add: n3_def)
  from returningD [OF publish_calls 1(4)] obtain preid where
    n4: "trace w4 = trace w3 @
          [Log [''>> Installing npm packages.''],
           Command ''npm ci'' ?dir False]
          @ (if releaseType cfg = ''next'' then
               [Log [''>> Bumping version of public packages changed since the last release.''],
                GitGetLastCommitHash ?dir,
                Command (''npx lerna version pre'' @ minimumVersionBump cfg @ '' --preid next.''
                          @ preid @ '' --no-private'') ?dir True,
                Log [''>> Publishing modified packages to npm.''],
                Command ''npx lerna publish from-package --dist-tag next'' ?dir True]
             else if releaseType cfg = ''bugfix'' then
               [Log [''>> Publishing modified packages to npm.''],
                Command ''npm run publish:latest'' ?dir True]
             else
               [Log [''>> Bumping version of public packages changed since the last release.''],
                Command (''npx lerna version '' @ minimumVersionBump cfg @ '' --no-private'')
                  ?dir True,
                Log [''>> Publishing modified packages to npm.''],
                Command ''npx lerna publish from-package'' ?dir True])
          @ [GitGetLastCommitHash ?dir]"
    and h4: "published = headHash env (trace w4)"
    by auto
  define n4 where "n4 = drop (length (trace w3)) (trace w4)"
  from n4 have n4': "trace w4 = trace w3 @ n4" unfolding n4_def by simp
  from n4 have s4: "?no \<notin> set n4" unfolding n4_def by (simp split: if_splits)
  define commits where "commits = filterBoolean [hash, Some published]"
  from returningD [OF backport_calls 1(5)] have n5: "trace w5 = trace w4 @
        (if releaseType cfg \<in> {''latest'', ''bugfix''} \<and> commits \<noteq> [] then
           [Log [''>> Backporting commits.''],
            GitResetLocalBranchAgainstOrigin ?dir ''trunk'']
           @ map (GitCherrypickCommitIntoBranch ?dir) commits
           @ [GitPushBranchToOrigin ?dir (Some ''trunk'')]
         else [])"
    unfolding commits_def by auto
  define n5 where "n5 = drop (length (trace w4)) (trace w5)"
  from n5 have n5': "trace w5 = trace w4 @ n5" unfolding n5_def by simp
  from n5 have s5: "?no \<notin> set n5" unfolding n5_def by (auto split: if_splits)
  from 1(6) have n6: "trace w6 = trace w5 @ [RunCleanLocalFoldersStep folders ''Cleaning failed.'']"
    using returningD [OF returning_call] by (fastforce simp: runCleanLocalFoldersStep_def)
  from 1(7) have n7: "trace w' = trace w6 @
      [Log [nl @ ''>> WordPress packages are now published!'' @ nl @ nl,
            ''Let also people know on WordPress Slack and celebrate together.'']]"
    by (auto simp: log_def record_call_def)
  have all: "issued w w' = n1 @ n2 @ n3 @ n4 @ n5 @
      [RunCleanLocalFoldersStep folders ''Cleaning failed.'',
       Log [nl @ ''>> WordPress packages are now published!'' @ nl @ nl,
            ''Let also people know on WordPress Slack and celebrate together.'']]"
    by (simp add: issued_def n1 n2 n3 n4' n5' n6 n7)
  with no s1 s3 s4 s5 have "?no \<in> set n2" by auto
  with c2 have u2: "n2 = [?no]" and hn: "hash = None" by auto
  have commits: "commits = (if published = [] then [] else [published])"
    unfolding commits_def hn by (rule filterBoolean_publish)
  define before where "before = n1 @ n2 @ n3 @ n4"
  have tb: "trace w4 = trace w @ before"
    by (simp add: before_def n1 n2 n3 n4')
  have n5'': "n5 = (if releaseType cfg \<in> {''latest'', ''bugfix''} \<and> headHash env (trace w @ before) \<noteq> []
          then [Log [''>> Backporting commits.''],
                GitResetLocalBranchAgainstOrigin ?dir ''trunk'',
                GitCherrypickCommitIntoBranch ?dir (headHash env (trace w @ before)),
                GitPushBranchToOrigin ?dir (Some ''trunk'')]
          else [])"
    unfolding n5_def n5 commits h4 tb by simp
  have n4'': "n4 = [Log [''>> Installing npm packages.''],
           Command ''npm ci'' ?dir False]
          @ (if releaseType cfg = ''next'' then
               [Log [''>> Bumping version of public packages changed since the last release.''],
                GitGetLastCommitHash ?dir,
                Command (''npx lerna version pre'' @ minimumVersionBump cfg @ '' --preid next.''
                          @ preid @ '' --no-private'') ?dir True,
                Log [''>> Publishing modified packages to npm.''],
                Command ''npx lerna publish from-package --dist-tag next'' ?dir True]
             else if releaseType cfg = ''bugfix'' then
               [Log [''>> Publishing modified packages to npm.''],
                Command ''npm run publish:latest'' ?dir True]
             else
               [Log [''>> Bumping version of public packages changed since the last release.''],
                Command (''npx lerna version '' @ minimumVersionBump cfg @ '' --no-private'')
                  ?dir True,
                Log [''>> Publishing modified packages to npm.''],
                Command ''npx lerna publish from-package'' ?dir True])
          @ [GitGetLastCommitHash ?dir]"
    unfolding n4_def n4 by simp
  show ?case
    apply (rule exI [of _ n1], rule exI [of _ preid], rule exI [of _ before])
    apply (rule conjI)
     apply (simp only: before_def u2 n3_def n4'' append_Cons append_Nil append_assoc)
    apply (simp only: all n5'' before_def append_assoc)
    done
qed

lemma adds_updateAll_lines:
  assumes "\<And>line. P (Log [''   - '' @ line])"
  shows "adds P (updateAll cfg date rs)"
proof (induction rs)
  case Nil
  show ?case by (simp add: adds_return)
next
  case (Cons r rs)
  have "adds P (updatePackageFiles cfg date r)"
    using assms [of "packageName r @ '': '' @ undefined_text (version r)
                         @ '' -> '' @ shownVersion cfg (nextVersion r)"]
    by (auto simp: adds_def updatePackageFiles_def Let_def log_def record_call_def
        split: option.splits)
  with Cons show ?case by (auto intro!: adds_bind)
qed

lemma updatePackages_reports_changes:
  assumes "processedPackages env cfg w = Inr processed" and "packagesToUpdate processed \<noteq> []"
  shows "Log [''>> No changes in CHANGELOG files detected.'']
           \<notin> set (issued w (snd (updatePackages env cfg am w)))"
proof -
  let ?chain = "io_bind (log [''>> Recommended version bumps based on the changes detected in CHANGELOG files:'']) (\<lambda>_.
             io_bind (updateAll cfg (publishDate env) (packagesToUpdate processed)) (\<lambda>_.
             io_bind (io_when (interactive cfg)
                (askForConfirmation env
                   ''All corresponding files were updated. Commit the changes?''
                   (Some True) (Some am))) (\<lambda>_.
             io_bind (gitCommit env (gitWorkingDirectoryPath cfg) ''Update changelog files''
                        (Some [''./*''])) (\<lambda>hash.
             io_bind (log [''>> Changelog files changes have been committed successfully.''])
               (\<lambda>_.
             io_return hash)))))"
  have "adds (\<lambda>c. c \<noteq> Log [''>> No changes in CHANGELOG files detected.'']) ?chain"
    unfolding gitCommit_def
    by (intro adds_intros adds_value adds_updateAll_lines) simp_all
  from addsD [OF this, of w] assms show ?thesis
    by (auto simp: updatePackages_def issued_append list_all_iff)
qed

subsection \<open>The files after an update\<close>

lemma public_filter:
  "changelogFilesPublicPackages env w ps = Inr kept \<Longrightarrow>
   kept = filter (\<lambda>p. \<forall>pkg. manifests w (siblingManifestPath env p) = Some pkg \<longrightarrow>
                          pkg_private pkg \<noteq> Some True) ps"
proof (induction ps arbitrary: kept)
  case Nil
  then show ?case by simp
next
  case (Cons q qs)
  then show ?case
    by (auto split: option.splits sum.splits if_splits)
qed

lemma processAll_paths:
  "processAll env cfg deps w ps = Inr rs \<Longrightarrow>
   map changelogPath rs = ps \<and>
   map packageJSONPath rs = map (js_replace ''CHANGELOG.md'' ''package.json'') ps"
proof (induction ps arbitrary: rs)
  case Nil
  then show ?case by simp
next
  case (Cons q qs)
  from Cons.prems obtain r rest where r: "processPackage env cfg deps w q = Inr r"
    and rest: "processAll env cfg deps w qs = Inr rest" and rs: "rs = r # rest"
    by (auto split: sum.splits)
  from r have "changelogPath r = q"
    and "packageJSONPath r = js_replace ''CHANGELOG.md'' ''package.json'' q"
    by (auto simp: processPackage_def Let_def split: option.splits)
  with Cons.IH [OF rest] rs show ?case by simp
qed

lemma processed_paths:
  assumes "processedPackages env cfg w = Inr processed"
  shows "\<exists>P. map changelogPath processed =
            filter P (globResult env (trace w)
              (path_resolve env (gitWorkingDirectoryPath cfg) ''packages/*/CHANGELOG.md'')) \<and>
          map packageJSONPath processed =
            map (js_replace ''CHANGELOG.md'' ''package.json'')
              (filter P (globResult env (trace w)
                (path_resolve env (gitWorkingDirectoryPath cfg) ''packages/*/CHANGELOG.md'')))"
proof -
  from assms obtain deps kept where k: "changelogFilesPublicPackages env w
       (globResult env (trace w)
          (path_resolve env (gitWorkingDirectoryPath cfg) ''packages/*/CHANGELOG.md'')) = Inr kept"
    and a: "processAll env cfg deps w kept = Inr processed"
    by (auto simp: processedPackages_def Let_def split: sum.splits option.splits)
  from public_filter [OF k] processAll_paths [OF a] show ?thesis by blast
qed

lemma processed_distinct_changelogs:
  assumes "processedPackages env cfg w = Inr processed"
    and "distinct (globResult env (trace w)
           (path_resolve env (gitWorkingDirectoryPath cfg) ''packages/*/CHANGELOG.md''))"
  shows "distinct (map changelogPath (packagesToUpdate processed))"
proof -
  from processed_paths [OF assms(1)] assms(2) have "distinct (map changelogPath processed)"
    by auto
  then show ?thesis unfolding packagesToUpdate_def by (rule distinct_map_filter)
qed

lemma processed_distinct_manifests:
  assumes "processedPackages env cfg w = Inr processed"
    and "distinct (map (js_replace ''CHANGELOG.md'' ''package.json'')
           (globResult env (trace w)
              (path_resolve env (gitWorkingDirectoryPath cfg) ''packages/*/CHANGELOG.md'')))"
  shows "distinct (map packageJSONPath processed)"
proof -
  from processed_paths [OF assms(1)] obtain P
    where "map packageJSONPath processed =
            map (js_replace ''CHANGELOG.md'' ''package.json'')
              (filter P (globResult env (trace w)
                (path_resolve env (gitWorkingDirectoryPath cfg) ''packages/*/CHANGELOG.md'')))"
    by blast
  with assms(2) show ?thesis by (simp add: distinct_map_filter)
qed

lemma call_keeps:
  assumes "call env c w = (Inr u, w')" and "effect env (trace w) c (files w, manifests w) = (files w, manifests w)"
  shows "files w' = files w \<and> manifests w' = manifests w"
  using assms by (auto simp: call_def Let_def split: prod.splits if_splits)

lemma updatePackages_updates:
  assumes "processedPackages env cfg w = Inr processed"
    and "packagesToUpdate processed \<noteq> []"
    and "updatePackages env cfg am w = (Inr hash, w')"
    and "\<And>h d. effect env h (GitCommit (gitWorkingDirectoryPath cfg) ''Update changelog files''
                    (Some [''./*''])) d = d"
  shows "\<exists>w0 w1. files w0 = files w \<and> manifests w0 = manifests w \<and>
           updateAll cfg (publishDate env) (packagesToUpdate processed) w0 = (Inr (), w1) \<and>
           files w' = files w1 \<and> manifests w' = manifests w1"
proof -
  from assms(1,2,3) have "io_bind (log [''>> Recommended version bumps based on the changes detected in CHANGELOG files:'']) (\<lambda>_.
             io_bind (updateAll cfg (publishDate env) (packagesToUpdate processed)) (\<lambda>_.
             io_bind (io_when (interactive cfg)
                (askForConfirmation env
                   ''All corresponding files were updated. Commit the changes?''
                   (Some True) (Some am))) (\<lambda>_.
             io_bind (gitCommit env (gitWorkingDirectoryPath cfg) ''Update changelog files''
                        (Some [''./*''])) (\<lambda>hash.
             io_bind (log [''>> Changelog files changes have been committed successfully.''])
               (\<lambda>_.
             io_return hash))))) w = (Inr hash, w')"
    by (simp add: updatePackages_def)
  then show ?thesis
  proof (elim io_bind_InrE, goal_cases)
    case (1 u0 w0 u1 w1 u2 w2 h3 w3 u4 w4)
    from 1(1) have w0: "files w0 = files w" "manifests w0 = manifests w"
      by (auto simp: log_def record_call_def)
    from 1(3) have w2: "files w2 = files w1" "manifests w2 = manifests w1"
      by (auto simp: io_when_def io_return_def askForConfirmation_def record_call_def Let_def
          split: if_splits)
    from 1(4) obtain u where c: "call env (GitCommit (gitWorkingDirectoryPath cfg)
        ''Update changelog files'' (Some [''./*''])) w2 = (Inr u, w3)"
      by (auto simp: gitCommit_def io_bind_def split: prod.splits sum.splits)
    from call_keeps [OF c] assms(4) have w3: "files w3 = files w2" "manifests w3 = manifests w2"
      by simp_all
    from 1(5) have w4: "files w4 = files w3" "manifests w4 = manifests w3"
      by (auto simp: log_def record_call_def)
    from 1(6) have w': "w' = w4" by (simp add: io_return_def)
    from w0 1(2) w2 w3 w4 w' show ?case by (cases u1) auto
  qed
qed

lemma updatePackages_returns:
  assumes "processedPackages env cfg w = Inr processed" and "cooperative env"
  shows "\<exists>hash. fst (updatePackages env cfg am w) = Inr hash"
proof (cases "packagesToUpdate processed = []")
  case True
  from updatePackages_no_changes [OF assms(1) True, of am] show ?thesis by simp
next
  case False
  let ?w1 = "w\<lparr>trace := trace w @ [Log [''>> Recommended version bumps based on the changes detected in CHANGELOG files:'']]\<rparr>"
  let ?all = "updateAll cfg (publishDate env) (packagesToUpdate processed)"
  have "\<forall>r \<in> set (packagesToUpdate processed).
          files ?w1 (changelogPath r) \<noteq> None \<and> manifests ?w1 (packageJSONPath r) \<noteq> None"
    using processed_files_exist [OF assms(1)] by (auto simp: packagesToUpdate_def)
  from updateAll_succeeds [OF this] have ok: "fst (?all ?w1) = Inr ()" .
  have b: "io_bind ?all f ?w1 = f () (snd (?all ?w1))" for f
    using io_bind_Inr [of ?all ?w1 "()" f] ok by simp
  from assms(2) have q: "quiet env" and a: "\<And>h m. accepts env h m"
    by (simp_all add: cooperative_def)
  have ask: "io_bind (askForConfirmation env m d x) f v
      = f () (v\<lparr>trace := trace v @ [AskForConfirmation m d x]\<rparr>)" for m d x f v
    by (simp add: io_bind_def askForConfirmation_def record_call_def a)
  have commit: "\<exists>hash. fst (io_bind (gitCommit env dir msg added) (\<lambda>hash.
             io_bind (log args) (\<lambda>_. io_return hash)) v) = Inr hash" for dir msg added args v
    using q by (simp add: gitCommit_def io_bind_def call_def Let_def log_run io_return_def
        quiet_def split: prod.splits)
  from False assms(1) show ?thesis
    by (simp add: updatePackages_def bind_log b bind_when ask commit)
qed

lemma js_replace_absent:
  assumes "\<not> (\<exists>x y. s = x @ pat @ y)"
  shows "js_replace pat replacement s = s"
proof (cases "first_occurrence pat [] s")
  case None
  then show ?thesis by (simp add: js_replace_def)
next
  case (Some a)
  obtain pre post where "a = (pre, post)" by (cases a)
  with Some first_occurrence_sound [of pat "[]" s pre post] assms show ?thesis by auto
qed

lemma first_occurrence_first:
  "first_occurrence pat acc s = Some (pre, post) \<Longrightarrow> s = x @ pat @ y \<Longrightarrow>
   length pre \<le> length acc + length x"
  using first_occurrence_least [of s x pat y acc] by auto

lemma js_replace_present:
  assumes "s = x @ pat @ y" and "CHR 0x24 \<notin> set replacement"
  shows "\<exists>pre post. s = pre @ pat @ post \<and>
           (\<forall>x' y'. s = x' @ pat @ y' \<longrightarrow> length pre \<le> length x') \<and>
           js_replace pat replacement s = pre @ replacement @ post"
proof -
  from first_occurrence_least [OF assms(1), of "[]"] obtain pre post
    where f: "first_occurrence pat [] s = Some (pre, post)" by auto
  from first_occurrence_sound [OF f] have s: "s = pre @ pat @ post" by simp
  have least: "\<forall>x' y'. s = x' @ pat @ y' \<longrightarrow> length pre \<le> length x'"
    using first_occurrence_first [OF f] by auto
  from f assms(2) have "js_replace pat replacement s = pre @ replacement @ post"
    by (simp add: js_replace_def getSubstitution_plain)
  with s least show ?thesis by blast
qed

lemma heading_at_front:
  assumes "\<exists>content. files w p = Some content \<and>
               ((\<exists>x y. content = x @ ''## Unreleased'' @ y) \<longrightarrow>
                  (\<exists>pre post. content = pre @ ''## Unreleased'' @ post \<and>
                     (\<forall>x y. content = x @ ''## Unreleased'' @ y \<longrightarrow> length pre \<le> length x) \<and>
                     files w' p =
                       Some (pre @ ''## Unreleased'' @ nl @ nl @ ''## '' @ ver
                         @ '' ('' @ date @ '')'' @ post))) \<and>
               (\<not> (\<exists>x y. content = x @ ''## Unreleased'' @ y) \<longrightarrow>
                  files w' p = Some content)"
    and "files w p = Some (''## Unreleased'' @ rest)"
  shows "files w' p =
           Some (''## Unreleased'' @ nl @ nl @ ''## '' @ ver @ '' ('' @ date @ '')'' @ rest)"
proof -
  define marker where "marker = ''## Unreleased''"
  from assms [folded marker_def] obtain pre post
    where split: "marker @ rest = pre @ marker @ post"
      and least: "\<forall>x y. marker @ rest = x @ marker @ y \<longrightarrow> length pre \<le> length x"
      and new: "files w' p = Some (pre @ marker @ nl @ nl @ ''## '' @ ver
                         @ '' ('' @ date @ '')'' @ post)"
    by (metis append_Nil option.inject)
  from least [rule_format, of "[]" rest] have "pre = []" by simp
  with split new show ?thesis by (simp add: marker_def)
qed

lemma demo_effect: "effect demo_env h c d = d"
  by (simp add: demo_env_def)

lemma demo_glob:
  "globResult demo_env h p = [''/tmp/gutenberg/packages/a11y/CHANGELOG.md'',
                              ''/tmp/gutenberg/packages/e2e/CHANGELOG.md'']"
  by (simp add: demo_env_def)

lemma demo_manifest_paths:
  "map (js_replace ''CHANGELOG.md'' ''package.json'')
     [''/tmp/gutenberg/packages/a11y/CHANGELOG.md'',
      ''/tmp/gutenberg/packages/e2e/CHANGELOG.md'']
   = [''/tmp/gutenberg/packages/a11y/package.json'',
      ''/tmp/gutenberg/packages/e2e/package.json'']"
  by code_simp

lemma demo_processed_fix:
  "processedPackages demo_env (demo_config False ''minor'' ''latest'') demo_world_fix
     = Inr [demo_change]"
  "processedPackages demo_env (demo_config False ''minor'' ''next'') demo_world_fix
     = Inr [demo_change]"
  by code_simp+

subsection \<open>The second run\<close>

lemma js_replace_at_heading:
  assumes "pre = [] \<or> last pre = CHR 0x0A" and "\<not> (\<exists>a b. pre = a @ ''##'' @ b)"
    and "CHR 0x24 \<notin> set replacement"
  shows "js_replace ''## Unreleased'' replacement (pre @ ''## Unreleased'' @ post)
           = pre @ replacement @ post"
proof -
  from js_replace_present [OF refl assms(3), of pre "''## Unreleased''" post] obtain pre' post'
    where eq: "pre @ ''## Unreleased'' @ post = pre' @ ''## Unreleased'' @ post'"
      and least: "length pre' \<le> length pre"
      and js: "js_replace ''## Unreleased'' replacement (pre @ ''## Unreleased'' @ post)
                 = pre' @ replacement @ post'"
    by blast
  from eq least obtain z where z: "pre = pre' @ z"
    and rest: "z @ ''## Unreleased'' @ post = ''## Unreleased'' @ post'"
    by (auto simp: append_eq_append_conv2)
  have "z = []"
  proof (cases z)
    case Nil
    then show ?thesis .
  next
    case (Cons a z')
    with rest have a: "a = CHR ''#''" by simp
    show ?thesis
    proof (cases z')
      case Nil
      with Cons a z assms(1) show ?thesis by simp
    next
      case (Cons b z'')
      with rest \<open>z = a # z'\<close> have "b = CHR ''#''" by simp
      with Cons \<open>z = a # z'\<close> a z have "pre = pre' @ ''##'' @ z''" by simp
      with assms(2) show ?thesis by blast
    qed
  qed
  with z rest js show ?thesis by simp
qed

lemma updateAll_private:
  "updateAll cfg date rs w = (Inr u, w') \<Longrightarrow>
   map_option pkg_private (manifests w' q) = map_option pkg_private (manifests w q)"
proof (induction rs arbitrary: w)
  case Nil
  then show ?case by (simp add: io_return_def)
next
  case (Cons r rs)
  from Cons.prems obtain w1 where 1: "updatePackageFiles cfg date r w = (Inr (), w1)"
    and 2: "updateAll cfg date rs w1 = (Inr u, w')"
    by (auto simp: io_bind_def split: prod.splits sum.splits)
  from updatePackageFiles_Inr [OF 1]
  have "map_option pkg_private (manifests w1 q) = map_option pkg_private (manifests w q)"
    by auto
  with Cons.IH [OF 2] show ?case by simp
qed

lemma public_private_only:
  assumes "\<And>q. map_option pkg_private (manifests w' q) = map_option pkg_private (manifests w q)"
  shows "changelogFilesPublicPackages env w' ps = changelogFilesPublicPackages env w ps"
proof (induction ps)
  case Nil
  show ?case by simp
next
  case (Cons p ps)
  show ?case
  proof (cases "manifests w (siblingManifestPath env p)")
    case None
    with assms [of "siblingManifestPath env p"]
    have "manifests w' (siblingManifestPath env p) = None" by simp
    with None show ?thesis by simp
  next
    case (Some pkg)
    with assms [of "siblingManifestPath env p"] obtain pkg'
      where "manifests w' (siblingManifestPath env p) = Some pkg'"
        and "pkg_private pkg' = pkg_private pkg"
      by (cases "manifests w' (siblingManifestPath env p)") auto
    with Some Cons show ?thesis by (simp split: sum.splits)
  qed
qed

lemma processPackage_reads_own:
  "files w' p = files w p \<Longrightarrow>
   manifests w' (js_replace ''CHANGELOG.md'' ''package.json'' p)
     = manifests w (js_replace ''CHANGELOG.md'' ''package.json'' p) \<Longrightarrow>
   processPackage env cfg deps w' p = processPackage env cfg deps w p"
  by (simp add: processPackage_def Let_def split: option.splits)

lemma processAll_all2:
  "processAll env cfg deps w ps = Inr rs \<Longrightarrow>
   list_all2 (\<lambda>p r. processPackage env cfg deps w p = Inr r) ps rs"
proof (induction ps arbitrary: rs)
  case Nil
  then show ?case by simp
next
  case (Cons p ps)
  then show ?case by (auto split: sum.splits)
qed

lemma processAll_of_all2:
  "list_all2 (\<lambda>p r. processPackage env cfg deps w p = Inr r) ps rs \<Longrightarrow>
   processAll env cfg deps w ps = Inr rs"
proof (induction ps arbitrary: rs)
  case Nil
  then show ?case by simp
next
  case (Cons p ps)
  then obtain r rest where "rs = r # rest" "processPackage env cfg deps w p = Inr r"
    "list_all2 (\<lambda>p r. processPackage env cfg deps w p = Inr r) ps rest"
    by (cases rs) auto
  with Cons.IH [of rest] show ?case by simp
qed

lemma changelogHeading_text:
  "changelogHeading cfg date (Some v) =
     ''## Unreleased'' @ nl @ nl @ ''## '' @ (shownVersion cfg (Some v) @ '' ('' @ date @ '')'')"
  by (simp add: changelogHeading_def)

lemma changelogHeading_plain:
  assumes "CHR 0x24 \<notin> set v" and "CHR 0x24 \<notin> set (now env)"
  shows "CHR 0x24 \<notin> set (changelogHeading cfg (publishDate env) (Some v))"
proof -
  have "set (takeWhile (\<lambda>c. c \<noteq> CHR ''T'') (now env)) \<subseteq> set (now env)"
    by (auto dest: set_takeWhileD)
  with assms show ?thesis
    by (auto simp: changelogHeading_def shownVersion_def null_text_def publishDate_def nl_def)
qed

lemma second_run_processed:
  assumes first: "updatePackages env cfg am w = (Inr hash, w1)"
    and processed: "processedPackages env cfg w = Inr processed"
    and deps: "dependencies env = Some deps"
    and glob: "globResult env (trace w1)
                 (path_resolve env (gitWorkingDirectoryPath cfg) ''packages/*/CHANGELOG.md'')
               = globResult env (trace w)
                 (path_resolve env (gitWorkingDirectoryPath cfg) ''packages/*/CHANGELOG.md'')"
    and dist: "distinct (map (js_replace ''CHANGELOG.md'' ''package.json'')
           (globResult env (trace w)
              (path_resolve env (gitWorkingDirectoryPath cfg) ''packages/*/CHANGELOG.md'')))"
    and commit: "\<forall>h d. effect env h (GitCommit (gitWorkingDirectoryPath cfg)
                    ''Update changelog files'' (Some [''./*''])) d = d"
    and parser: "emptyUnreleasedSectionYieldsNoBump env"
    and wf: "\<forall>r \<in> set (packagesToUpdate processed). \<forall>content.
               files w (changelogPath r) = Some content \<longrightarrow> unreleasedHeadingFirst content"
    and plain: "CHR 0x24 \<notin> set (now env)"
      "\<forall>r \<in> set (packagesToUpdate processed). \<forall>v. nextVersion r = Some v \<longrightarrow> CHR 0x24 \<notin> set v"
  shows "processedPackages env cfg w1 =
     Inr (map (\<lambda>r. if truthy (nextVersion r)
                    then r\<lparr>nextVersion :=
                             (case enforcedVersionBump cfg deps (packageName r) None of
                                None \<Rightarrow> None
                              | Some bump \<Rightarrow>
                                  semverInc env (Some (null_text (nextVersion r) @ ''-prerelease''))
                                    bump),
                           version := Some (null_text (nextVersion r) @ ''-prerelease'')\<rparr>
                    else r) processed)"
proof -
  let ?G = "globResult env (trace w)
              (path_resolve env (gitWorkingDirectoryPath cfg) ''packages/*/CHANGELOG.md'')"
  let ?json = "js_replace ''CHANGELOG.md'' ''package.json''"
  define f :: "package_change \<Rightarrow> package_change" where "f = (\<lambda>r. if truthy (nextVersion r)
                    then r\<lparr>nextVersion :=
                             (case enforcedVersionBump cfg deps (packageName r) None of
                                None \<Rightarrow> None
                              | Some bump \<Rightarrow>
                                  semverInc env (Some (null_text (nextVersion r) @ ''-prerelease''))
                                    bump),
                           version := Some (null_text (nextVersion r) @ ''-prerelease'')\<rparr>
                    else r)"
  define upd where "upd = packagesToUpdate processed"
  from processed deps obtain kept where k: "changelogFilesPublicPackages env w ?G = Inr kept"
    and a: "processAll env cfg deps w kept = Inr processed"
    by (auto simp: processedPackages_def Let_def split: sum.splits option.splits)
  from dist have dG: "distinct ?G" by (simp add: distinct_map)
  from processed_paths [OF processed] dG have dcp: "distinct (map changelogPath processed)"
    by auto
  have djp: "distinct (map packageJSONPath processed)"
    using processed dist by (rule processed_distinct_manifests)
  have state:
    "(\<forall>q. map_option pkg_private (manifests w1 q) = map_option pkg_private (manifests w q)) \<and>
     (\<forall>r \<in> set upd. \<exists>c m.
        files w (changelogPath r) = Some c \<and>
        files w1 (changelogPath r) =
          Some (js_replace ''## Unreleased''
                  (changelogHeading cfg (publishDate env) (nextVersion r)) c) \<and>
        manifests w (packageJSONPath r) = Some m \<and>
        manifests w1 (packageJSONPath r) =
          Some (m\<lparr>pkg_version := Some (null_text (nextVersion r) @ ''-prerelease'')\<rparr>)) \<and>
     (\<forall>p. p \<notin> changelogPath ` set upd \<longrightarrow> files w1 p = files w p) \<and>
     (\<forall>q. q \<notin> packageJSONPath ` set upd \<longrightarrow> manifests w1 q = manifests w q)"
  proof (cases "upd = []")
    case True
    from updatePackages_no_changes [OF processed True [unfolded upd_def], of am] first
    have "files w1 = files w" "manifests w1 = manifests w" by auto
    with True show ?thesis by simp
  next
    case False
    from updatePackages_updates [OF processed False [unfolded upd_def] first] commit
    obtain w0 wa where w0: "files w0 = files w" "manifests w0 = manifests w"
      and all: "updateAll cfg (publishDate env) upd w0 = (Inr (), wa)"
      and wa: "files w1 = files wa" "manifests w1 = manifests wa"
      unfolding upd_def by auto
    have d1: "distinct (map changelogPath upd)" and d2: "distinct (map packageJSONPath upd)"
      unfolding upd_def packagesToUpdate_def using dcp djp by (simp_all add: distinct_map_filter)
    have 1: "\<forall>q. map_option pkg_private (manifests w1 q) = map_option pkg_private (manifests w q)"
      using updateAll_private [OF all] w0 wa by simp
    have 2: "\<forall>r \<in> set upd. \<exists>c m.
        files w (changelogPath r) = Some c \<and>
        files w1 (changelogPath r) =
          Some (js_replace ''## Unreleased''
                  (changelogHeading cfg (publishDate env) (nextVersion r)) c) \<and>
        manifests w (packageJSONPath r) = Some m \<and>
        manifests w1 (packageJSONPath r) =
          Some (m\<lparr>pkg_version := Some (null_text (nextVersion r) @ ''-prerelease'')\<rparr>)"
    proof
      fix r assume "r \<in> set upd"
      from updateAll_rewrites [OF all this] d1 d2 w0 wa
      show "\<exists>c m.
        files w (changelogPath r) = Some c \<and>
        files w1 (changelogPath r) =
          Some (js_replace ''## Unreleased''
                  (changelogHeading cfg (publishDate env) (nextVersion r)) c) \<and>
        manifests w (packageJSONPath r) = Some m \<and>
        manifests w1 (packageJSONPath r) =
          Some (m\<lparr>pkg_version := Some (null_text (nextVersion r) @ ''-prerelease'')\<rparr>)"
        by auto
    qed
    have 3: "\<forall>p. p \<notin> changelogPath ` set upd \<longrightarrow> files w1 p = files w p"
      and 4: "\<forall>q. q \<notin> packageJSONPath ` set upd \<longrightarrow> manifests w1 q = manifests w q"
      using updateAll_frame [OF all] w0 wa by auto
    from 1 2 3 4 show ?thesis by blast
  qed
  from state public_private_only [of w1 w env ?G] k
  have k1: "changelogFilesPublicPackages env w1 ?G = Inr kept" by simp
  have point: "processPackage env cfg deps w1 p = Inr (f r)"
    if r: "r \<in> set processed" and pp: "processPackage env cfg deps w p = Inr r" for p r
  proof -
    from pp obtain c m where c: "files w p = Some c" and m: "manifests w (?json p) = Some m"
      and fields: "changelogPath r = p" "packageJSONPath r = ?json p"
        "packageName r = packageNameOf p" "version r = pkg_version m"
      by (auto simp: processPackage_def Let_def split: option.splits)
    show ?thesis
    proof (cases "truthy (nextVersion r)")
      case True
      then obtain v where v: "nextVersion r = Some v" by (auto simp: truthy_def split: option.splits)
      from True r have u: "r \<in> set upd" by (simp add: upd_def packagesToUpdate_def)
      from state u fields c m v
      have c1: "files w1 p = Some (js_replace ''## Unreleased''
                  (changelogHeading cfg (publishDate env) (Some v)) c)"
        and m1: "manifests w1 (?json p) = Some (m\<lparr>pkg_version := Some (v @ ''-prerelease'')\<rparr>)"
        by (auto simp: null_text_def)
      from wf u c fields have "unreleasedHeadingFirst c" by (auto simp: upd_def)
      then obtain pre post where shape: "c = pre @ ''## Unreleased'' @ post"
        and start: "pre = [] \<or> last pre = CHR 0x0A" and none: "\<not> (\<exists>a b. pre = a @ ''##'' @ b)"
        by (auto simp: unreleasedHeadingFirst_def)
      from plain u v have "CHR 0x24 \<notin> set v" by (auto simp: upd_def)
      from changelogHeading_plain [OF this plain(1)]
      have "js_replace ''## Unreleased'' (changelogHeading cfg (publishDate env) (Some v)) c
          = pre @ changelogHeading cfg (publishDate env) (Some v) @ post"
        unfolding shape by (rule js_replace_at_heading [OF start none])
      then have new: "js_replace ''## Unreleased'' (changelogHeading cfg (publishDate env) (Some v)) c
          = pre @ ''## Unreleased'' @ nl @ nl @ ''## ''
              @ (shownVersion cfg (Some v) @ '' ('' @ publishDate env @ '')'' @ post)"
        by (simp only: changelogHeading_text append_assoc)
      from start none have "(pre = [] \<or> last pre = CHR 0x0A) \<and> \<not> (\<exists>a b. pre = a @ ''##'' @ b)"
        by (rule conjI)
      from parser [unfolded emptyUnreleasedSectionYieldsNoBump_def, rule_format, OF this]
      have none_read: "calculateVersionBumpFromChangelog env
          (readLines env (js_replace ''## Unreleased''
             (changelogHeading cfg (publishDate env) (Some v)) c)) (minimumVersionBump cfg) = None"
        unfolding new .
      have "processPackage env cfg deps w1 p =
          Inr \<lparr> changelogPath = p, packageJSONPath = ?json p, packageName = packageNameOf p,
                nextVersion =
                  (case enforcedVersionBump cfg deps (packageNameOf p) None of
                     None \<Rightarrow> None
                   | Some bump \<Rightarrow> semverInc env (Some (v @ ''-prerelease'')) bump),
                version = Some (v @ ''-prerelease'') \<rparr>"
        by (simp add: processPackage_def c1 m1 none_read Let_def split: option.splits)
      also have "\<dots> = Inr (f r)"
        using True v fields by (cases r) (simp add: f_def null_text_def split: option.splits)
      finally show ?thesis .
    next
      case False
      have "p \<notin> changelogPath ` set upd"
      proof
        assume "p \<in> changelogPath ` set upd"
        then obtain s where s: "s \<in> set processed" "truthy (nextVersion s)" "changelogPath s = p"
          by (auto simp: upd_def packagesToUpdate_def)
        with dcp r fields have "s = r" by (metis distinct_map inj_onD)
        with s False show False by simp
      qed
      moreover have "?json p \<notin> packageJSONPath ` set upd"
      proof
        assume "?json p \<in> packageJSONPath ` set upd"
        then obtain s where s: "s \<in> set processed" "truthy (nextVersion s)"
          "packageJSONPath s = ?json p"
          by (auto simp: upd_def packagesToUpdate_def)
        with djp r fields have "s = r" by (metis distinct_map inj_onD)
        with s False show False by simp
      qed
      ultimately have "files w1 p = files w p" "manifests w1 (?json p) = manifests w (?json p)"
        using state by simp_all
      from processPackage_reads_own [OF this] pp False show ?thesis by (simp add: f_def)
    qed
  qed
  from processAll_all2 [OF a]
  have "list_all2 (\<lambda>p r. processPackage env cfg deps w1 p = Inr (f r)) kept processed"
    by (rule list.rel_mono_strong) (rule point)
  then have "list_all2 (\<lambda>p r. processPackage env cfg deps w1 p = Inr r) kept (map f processed)"
    by (simp add: list_all2_map2)
  from processAll_of_all2 [OF this] k1 deps glob
  have "processedPackages env cfg w1 = Inr (map f processed)"
    by (simp add: processedPackages_def)
  then show ?thesis unfolding f_def .
qed

subsection \<open>The changelog parser of the concrete run\<close>

lemma split_on_nonempty: "split_on sep s \<noteq> []"
  by (induction s) (auto split: list.splits)

lemma split_on_append: "split_on sep (a @ sep # b) = split_on sep a @ split_on sep b"
proof (induction a)
  case Nil
  show ?case by simp
next
  case (Cons c cs)
  obtain x xs where "split_on sep cs = x # xs"
    using split_on_nonempty [of sep cs] by (cases "split_on sep cs") auto
  with Cons show ?case by simp
qed

lemma split_on_plain:
  "sep \<notin> set a \<Longrightarrow> \<exists>l ls. split_on sep (a @ b) = (a @ l) # ls"
proof (induction a)
  case Nil
  show ?case using split_on_nonempty [of sep b] by (cases "split_on sep b") auto
next
  case (Cons c cs)
  then obtain l ls where "split_on sep (cs @ b) = (cs @ l) # ls" by auto
  with Cons.prems show ?case by auto
qed

lemma split_on_pieces:
  "(\<exists>b. s = hd (split_on sep s) @ b) \<and> (\<forall>l \<in> set (split_on sep s). \<exists>a b. s = a @ l @ b)"
proof (induction s)
  case Nil
  show ?case by simp
next
  case (Cons c cs)
  obtain x xs where x: "split_on sep cs = x # xs"
    using split_on_nonempty [of sep cs] by (cases "split_on sep cs") auto
  from Cons x obtain b where b: "cs = x @ b" by auto
  from Cons have rest: "\<forall>l \<in> set (split_on sep cs). \<exists>a b. cs = a @ l @ b" by simp
  show ?case
  proof (cases "c = sep")
    case True
    have "\<exists>a b. c # cs = a @ l @ b" if "l \<in> set (split_on sep cs)" for l
    proof -
      from rest that obtain a b where "cs = a @ l @ b" by blast
      then have "c # cs = (c # a) @ l @ b" by simp
      then show ?thesis by blast
    qed
    moreover have "c # cs = [] @ [] @ (c # cs)" by simp
    then have "\<exists>a b. c # cs = a @ [] @ b" by blast
    ultimately show ?thesis using True by auto
  next
    case False
    have "\<exists>a b'. c # cs = a @ l @ b'" if "l \<in> set xs" for l
    proof -
      from rest that x obtain a b' where "cs = a @ l @ b'" by auto
      then have "c # cs = (c # a) @ l @ b'" by simp
      then show ?thesis by blast
    qed
    moreover from b have "c # cs = [] @ (c # x) @ b" by simp
    then have "\<exists>a b'. c # cs = a @ (c # x) @ b'" by blast
    moreover from b have "c # cs = (c # x) @ b" by simp
    ultimately show ?thesis using False x by auto
  qed
qed

lemma unreleasedSection_skip:
  "\<forall>l \<in> set xs. \<not> prefix ''## Unreleased'' l \<Longrightarrow>
   unreleasedSection (xs @ ys) = unreleasedSection ys"
  by (induction xs) simp_all

lemma demo_section:
  "unreleasedSection (split_on (CHR 0x0A) (''## Unreleased'' @ nl @ nl @ ''## '' @ rest)) = [[]]"
proof -
  obtain l ls where l: "split_on (CHR 0x0A) (''## '' @ rest) = (''## '' @ l) # ls"
    using split_on_plain [of "CHR 0x0A" "''## ''" rest] by auto
  have "''## Unreleased'' @ nl @ nl @ ''## '' @ rest
      = ''## Unreleased'' @ CHR 0x0A # ([] @ CHR 0x0A # (''## '' @ rest))"
    by (simp add: nl_def)
  then have "split_on (CHR 0x0A) (''## Unreleased'' @ nl @ nl @ ''## '' @ rest)
      = split_on (CHR 0x0A) ''## Unreleased'' @ split_on (CHR 0x0A) []
          @ split_on (CHR 0x0A) (''## '' @ rest)"
    by (simp only: split_on_append)
  also have "\<dots> = [''## Unreleased''] @ [[]] @ ((''## '' @ l) # ls)"
    unfolding l by simp
  finally show ?thesis by simp
qed

lemma demo_parser: "emptyUnreleasedSectionYieldsNoBump demo_env"
proof (unfold emptyUnreleasedSectionYieldsNoBump_def, intro allI impI)
  fix pre rest minimum
  assume a: "(pre = [] \<or> last pre = CHR 0x0A) \<and> \<not> (\<exists>a b. pre = a @ ''##'' @ b)"
  let ?tail = "''## Unreleased'' @ nl @ nl @ ''## '' @ rest"
  have "unreleasedSection (split_on (CHR 0x0A) (pre @ ?tail)) = [[]]"
  proof (cases "pre = []")
    case True
    then show ?thesis by (simp only: append_Nil demo_section)
  next
    case False
    with a obtain pre' where pre': "pre = pre' @ [CHR 0x0A]"
      by (metis append_butlast_last_id)
    have "\<not> prefix ''## Unreleased'' l" if "l \<in> set (split_on (CHR 0x0A) pre')" for l
    proof
      assume "prefix ''## Unreleased'' l"
      then obtain t where "l = ''##'' @ t" by (auto simp: prefix_def)
      moreover from split_on_pieces [of pre' "CHR 0x0A"] that obtain x y
        where "pre' = x @ l @ y" by blast
      ultimately have "pre = x @ ''##'' @ (t @ y @ [CHR 0x0A])" using pre' by simp
      with a show False by blast
    qed
    then have skip: "\<forall>l \<in> set (split_on (CHR 0x0A) pre'). \<not> prefix ''## Unreleased'' l" by blast
    have "split_on (CHR 0x0A) (pre @ ?tail)
        = split_on (CHR 0x0A) pre' @ split_on (CHR 0x0A) ?tail"
      unfolding pre' using split_on_append [of "CHR 0x0A" pre' ?tail] by simp
    with unreleasedSection_skip [OF skip] demo_section show ?thesis by simp
  qed
  then show "calculateVersionBumpFromChangelog demo_env
          (readLines demo_env (pre @ ''## Unreleased'' @ nl @ nl @ ''## '' @ rest)) minimum = None"
    by (simp add: demo_env_def changelogBump_def List.map_filter_simps bumpOfHeading_def)
qed

lemma demo_first_runs:
  "fst (updatePackages demo_env (demo_config False ''minor'' ''latest'') ''Aborting!'' demo_world)
     = Inr (Some ''1f2e3d4'')"
  "processedPackages demo_env (demo_config False ''patch'' ''latest'') demo_world_fix =
     Inr [\<lparr> changelogPath = ''/tmp/gutenberg/packages/a11y/CHANGELOG.md'',
            packageJSONPath = ''/tmp/gutenberg/packages/a11y/package.json'',
            packageName = ''@wordpress/a11y'', nextVersion = Some ''1.0.1'',
            version = Some ''1.0.0'' \<rparr>]"
  by code_simp+

lemma demo_heading_first:
  "unreleasedHeadingFirst (''## Unreleased'' @ rest)"
  unfolding unreleasedHeadingFirst_def
  by (rule exI [of _ "[]"], rule exI [of _ rest]) simp

section \<open>The claims\<close>

text \<open>
  C10. The release branch the sync step returns depends on the release type alone:
  whenever the step returns, it returns \<open>wp/next\<close> for the release type \<open>next\<close> and
  \<open>wp/trunk\<close> for every other release type, \<open>latest\<close> and \<open>bugfix\<close> among them,
  whatever the rest of the configuration, the environment and the working directory
  are. The step does return when no collaborator raises and the operator accepts.
\<close>

theorem sync_step_release_branch:
  "(case fst (runWordPressReleaseBranchSyncStep env cfg abortMessage w) of
      Inl e \<Rightarrow> True
    | Inr branch \<Rightarrow> branch = (if releaseType cfg = ''next'' then ''wp/next'' else ''wp/trunk''))
   \<and> (cooperative env \<longrightarrow>
        fst (runWordPressReleaseBranchSyncStep env cfg abortMessage w) =
          Inr (if releaseType cfg = ''next'' then ''wp/next'' else ''wp/trunk''))"
proof -
  define r where "r = runWordPressReleaseBranchSyncStep env cfg abortMessage w"
  define expected where
    "expected = (if releaseType cfg = ''next'' then ''wp/next'' else ''wp/trunk'')"
  have branch: "branch = expected" if "fst r = Inr branch" for branch
  proof -
    from that have "runWordPressReleaseBranchSyncStep env cfg abortMessage w
        = (Inr branch, snd r)"
      unfolding r_def by (metis prod.collapse)
    from sync_value [OF this] show ?thesis
      by (simp add: wordpressReleaseBranch_def expected_def)
  qed
  have first: "case fst r of Inl e \<Rightarrow> True | Inr branch \<Rightarrow> branch = expected"
    by (cases "fst r") (simp_all add: branch)
  have second: "fst r = Inr expected" if "cooperative env"
  proof -
    from succeedsD [OF sync_succeeds [OF that], of cfg abortMessage w]
    obtain b where "fst r = Inr b" unfolding r_def ..
    with branch show ?thesis by simp
  qed
  from first second show ?thesis unfolding r_def expected_def by blast
qed

theorem sync_step_release_branch_witness:
  "cooperative demo_env \<and>
   fst (runWordPressReleaseBranchSyncStep demo_env (demo_config True ''minor'' ''next'')
          ''Aborting!'' demo_world) = Inr ''wp/next'' \<and>
   fst (runWordPressReleaseBranchSyncStep demo_env (demo_config True ''minor'' ''bugfix'')
          ''Aborting!'' demo_world) = Inr ''wp/trunk''"
proof -
  have a: "releaseType (demo_config True ''minor'' ''next'') = ''next''"
    and b: "releaseType (demo_config True ''minor'' ''bugfix'') \<noteq> ''next''"
    by (simp_all add: demo_config_def)
  from sync_step_release_branch [where env = demo_env
      and cfg = "demo_config True ''minor'' ''next''"
      and abortMessage = "''Aborting!''" and w = demo_world] cooperative_demo
  have 1: "fst (runWordPressReleaseBranchSyncStep demo_env (demo_config True ''minor'' ''next'')
          ''Aborting!'' demo_world) = Inr ''wp/next''"
    unfolding a by simp
  from sync_step_release_branch [where env = demo_env
      and cfg = "demo_config True ''minor'' ''bugfix''"
      and abortMessage = "''Aborting!''" and w = demo_world] cooperative_demo
  have 2: "fst (runWordPressReleaseBranchSyncStep demo_env (demo_config True ''minor'' ''bugfix'')
          ''Aborting!'' demo_world) = Inr ''wp/trunk''"
    using b by simp
  from 1 2 cooperative_demo show ?thesis by simp
qed

text \<open>
  C4. \<open>backportCommitsToTrunk\<close> does nothing at all, no reset, no cherry-pick, no push
  and no log line, when the release type is neither \<open>latest\<close> nor \<open>bugfix\<close> (so for
  \<open>next\<close>) or when the list of commits is empty: it returns with the world as it found
  it. Otherwise, when no Git operation raises, it announces the backport, resets the
  local \<open>trunk\<close> against origin, cherry-picks every commit in the order of the list and
  then pushes \<open>trunk\<close>, and these are all the calls it makes. When an operation
  raises, the calls made up to it are an initial segment of that sequence.
\<close>

theorem backport_skips_or_replays:
  "(releaseType cfg \<notin> {''latest'', ''bugfix''} \<or> commits = [] \<longrightarrow>
      backportCommitsToTrunk env cfg commits w = (Inr (), w)) \<and>
   (releaseType cfg \<in> {''latest'', ''bugfix''} \<and> commits \<noteq> [] \<and> quiet env \<longrightarrow>
      fst (backportCommitsToTrunk env cfg commits w) = Inr () \<and>
      trace (snd (backportCommitsToTrunk env cfg commits w)) =
        trace w @ [Log [''>> Backporting commits.''],
                   GitResetLocalBranchAgainstOrigin (gitWorkingDirectoryPath cfg) ''trunk'']
          @ map (GitCherrypickCommitIntoBranch (gitWorkingDirectoryPath cfg)) commits
          @ [GitPushBranchToOrigin (gitWorkingDirectoryPath cfg) (Some ''trunk'')]) \<and>
   (releaseType cfg \<in> {''latest'', ''bugfix''} \<and> commits \<noteq> [] \<longrightarrow>
      prefix (issued w (snd (backportCommitsToTrunk env cfg commits w)))
        ([Log [''>> Backporting commits.''],
          GitResetLocalBranchAgainstOrigin (gitWorkingDirectoryPath cfg) ''trunk'']
          @ map (GitCherrypickCommitIntoBranch (gitWorkingDirectoryPath cfg)) commits
          @ [GitPushBranchToOrigin (gitWorkingDirectoryPath cfg) (Some ''trunk'')]))"
proof -
  have skip: "backportCommitsToTrunk env cfg commits w = (Inr (), w)"
    if "releaseType cfg \<notin> {''latest'', ''bugfix''} \<or> commits = []"
    using that by (auto simp: backportCommitsToTrunk_def io_return_def)
  have part: "prefix (issued w (snd (backportCommitsToTrunk env cfg commits w)))
        ([Log [''>> Backporting commits.''],
          GitResetLocalBranchAgainstOrigin (gitWorkingDirectoryPath cfg) ''trunk'']
          @ map (GitCherrypickCommitIntoBranch (gitWorkingDirectoryPath cfg)) commits
          @ [GitPushBranchToOrigin (gitWorkingDirectoryPath cfg) (Some ''trunk'')])"
    if "releaseType cfg \<in> {''latest'', ''bugfix''} \<and> commits \<noteq> []"
  proof -
    from that have "releaseType cfg \<in> {''latest'', ''bugfix''}" and "commits \<noteq> []"
      by simp_all
    from issuesD [OF issues_backport [OF this], of env w] show ?thesis
      by (auto simp: issued_append)
  qed
  from skip backport_quiet [of cfg commits env w] part show ?thesis by blast
qed

theorem backport_skips_or_replays_witness:
  "backportCommitsToTrunk demo_env (demo_config False ''minor'' ''next'')
      [''1f2e3d4'', ''9a8b7c6''] demo_world = (Inr (), demo_world) \<and>
   backportCommitsToTrunk demo_env (demo_config False ''minor'' ''latest'') [] demo_world
     = (Inr (), demo_world) \<and>
   trace (snd (backportCommitsToTrunk demo_env (demo_config False ''minor'' ''latest'')
      [''1f2e3d4'', ''9a8b7c6''] demo_world)) =
     [Log [''>> Backporting commits.''],
      GitResetLocalBranchAgainstOrigin ''/tmp/gutenberg'' ''trunk'',
      GitCherrypickCommitIntoBranch ''/tmp/gutenberg'' ''1f2e3d4'',
      GitCherrypickCommitIntoBranch ''/tmp/gutenberg'' ''9a8b7c6'',
      GitPushBranchToOrigin ''/tmp/gutenberg'' (Some ''trunk'')]"
proof -
  have rt: "releaseType (demo_config False ''minor'' ''next'') \<notin> {''latest'', ''bugfix''}"
    by (simp add: demo_config_def)
  have rtl: "releaseType (demo_config False ''minor'' ''latest'') = ''latest''"
    by (simp add: demo_config_def)
  have dir: "gitWorkingDirectoryPath (demo_config False ''minor'' ''latest'') = ''/tmp/gutenberg''"
    by (simp add: demo_config_def)
  have t: "trace demo_world = []" by (simp add: demo_world_def)
  from backport_skips_or_replays [where cfg = "demo_config False ''minor'' ''next''"
      and commits = "[''1f2e3d4'', ''9a8b7c6'']" and env = demo_env and w = demo_world] rt
  have 1: "backportCommitsToTrunk demo_env (demo_config False ''minor'' ''next'')
      [''1f2e3d4'', ''9a8b7c6''] demo_world = (Inr (), demo_world)"
    by blast
  from backport_skips_or_replays [where cfg = "demo_config False ''minor'' ''latest''"
      and commits = "[]" and env = demo_env and w = demo_world]
  have 2: "backportCommitsToTrunk demo_env (demo_config False ''minor'' ''latest'') [] demo_world
     = (Inr (), demo_world)"
    by blast
  from backport_skips_or_replays [where cfg = "demo_config False ''minor'' ''latest''"
      and commits = "[''1f2e3d4'', ''9a8b7c6'']" and env = demo_env and w = demo_world]
    quiet_demo
  have 3: "trace (snd (backportCommitsToTrunk demo_env (demo_config False ''minor'' ''latest'')
      [''1f2e3d4'', ''9a8b7c6''] demo_world)) =
     [Log [''>> Backporting commits.''],
      GitResetLocalBranchAgainstOrigin ''/tmp/gutenberg'' ''trunk'',
      GitCherrypickCommitIntoBranch ''/tmp/gutenberg'' ''1f2e3d4'',
      GitCherrypickCommitIntoBranch ''/tmp/gutenberg'' ''9a8b7c6'',
      GitPushBranchToOrigin ''/tmp/gutenberg'' (Some ''trunk'')]"
    unfolding dir t rtl by simp
  from 1 2 3 show ?thesis by blast
qed


text \<open>
  C8. The sync step replaces the content of the release branch from the last plugin
  release branch and commits the overwrite exactly for the release types \<open>latest\<close> and
  \<open>next\<close>. The last plugin release branch is what \<open>findReleaseBranchName\<close> answers for
  the \<open>package.json\<close> of the working directory; the step asks once, after it has
  announced itself and checked out \<open>trunk\<close>, so the answer is \<open>pluginReleaseBranchName\<close>
  at the trace extended by these two calls. For any other release type, \<open>bugfix\<close> among
  them, the step issues neither a content replacement nor a commit, however it ends.
  For \<open>latest\<close> and \<open>next\<close>, every run of the step that returns has issued exactly the
  calls listed, in this order: one content replacement, from that branch, followed by
  one commit whose message names that branch. The step returns whenever no collaborator
  raises and the operator accepts.
\<close>

theorem sync_replaces_for_latest_and_next:
  "(releaseType cfg \<notin> {''latest'', ''next''} \<longrightarrow>
      filter isSync
        (issued w (snd (runWordPressReleaseBranchSyncStep env cfg abortMessage w))) = []) \<and>
   (releaseType cfg \<in> {''latest'', ''next''} \<longrightarrow>
      (cooperative env \<longrightarrow>
         (\<exists>branch. fst (runWordPressReleaseBranchSyncStep env cfg abortMessage w) = Inr branch)) \<and>
      (\<forall>branch. fst (runWordPressReleaseBranchSyncStep env cfg abortMessage w) = Inr branch \<longrightarrow>
         filter isSync
           (issued w (snd (runWordPressReleaseBranchSyncStep env cfg abortMessage w))) =
           [GitReplaceContentFromRemoteBranch (gitWorkingDirectoryPath cfg)
              (pluginReleaseBranchName env
                 (trace w @ [Log [''Getting into the WordPress release branch''],
                             GitCheckoutRemoteBranch (gitWorkingDirectoryPath cfg) ''trunk''])
                 (gitWorkingDirectoryPath cfg @ ''/package.json'')),
            GitCommit (gitWorkingDirectoryPath cfg)
              (''Merge changes published in the Gutenberg plugin '' @ dq
                @ pluginReleaseBranchName env
                    (trace w @ [Log [''Getting into the WordPress release branch''],
                                GitCheckoutRemoteBranch (gitWorkingDirectoryPath cfg) ''trunk''])
                    (gitWorkingDirectoryPath cfg @ ''/package.json'')
                @ dq @ '' branch'') None] \<and>
         issued w (snd (runWordPressReleaseBranchSyncStep env cfg abortMessage w)) =
           [Log [''Getting into the WordPress release branch''],
            GitCheckoutRemoteBranch (gitWorkingDirectoryPath cfg) ''trunk'',
            FindReleaseBranchName (gitWorkingDirectoryPath cfg @ ''/package.json''),
            GitCheckoutRemoteBranch (gitWorkingDirectoryPath cfg)
              (wordpressReleaseBranch (releaseType cfg)),
            GitFetch (gitWorkingDirectoryPath cfg) [''--depth=100''],
            Log [''>> The local release branch '' @ wordpressReleaseBranch (releaseType cfg)
                   @ '' has been successfully checked out.'']]
           @ (if interactive cfg then
                [AskForConfirmation
                   (''The branch is ready for sync with the latest plugin release changes applied to ''
                     @ dq @ pluginReleaseBranchName env
                        (trace w @ [Log [''Getting into the WordPress release branch''],
                              GitCheckoutRemoteBranch (gitWorkingDirectoryPath cfg) ''trunk''])
                        (gitWorkingDirectoryPath cfg @ ''/package.json'')
                     @ dq @ ''. Proceed?'') (Some True) (Some abortMessage)]
              else [])
           @ [GitReplaceContentFromRemoteBranch (gitWorkingDirectoryPath cfg)
                (pluginReleaseBranchName env
                   (trace w @ [Log [''Getting into the WordPress release branch''],
                               GitCheckoutRemoteBranch (gitWorkingDirectoryPath cfg) ''trunk''])
                   (gitWorkingDirectoryPath cfg @ ''/package.json'')),
              GitCommit (gitWorkingDirectoryPath cfg)
                (''Merge changes published in the Gutenberg plugin '' @ dq
                  @ pluginReleaseBranchName env
                      (trace w @ [Log [''Getting into the WordPress release branch''],
                                  GitCheckoutRemoteBranch (gitWorkingDirectoryPath cfg) ''trunk''])
                      (gitWorkingDirectoryPath cfg @ ''/package.json'')
                  @ dq @ '' branch'') None,
              Log [''>> The local WordPress release branch ''
                     @ wordpressReleaseBranch (releaseType cfg)
                     @ '' has been successfully synced.'']]))"
proof (intro conjI impI allI)
  define r where "r = runWordPressReleaseBranchSyncStep env cfg abortMessage w"
  assume "releaseType cfg \<notin> {''latest'', ''next''}"
  from addsD [OF sync_bugfix_adds [OF this], of env abortMessage w]
  obtain new where "trace (snd r) = trace w @ new" "list_all (\<lambda>c. \<not> isSync c) new"
    unfolding r_def by blast
  then have "filter isSync (issued w (snd r)) = []"
    by (simp add: issued_append list_all_iff)
  then show "filter isSync
        (issued w (snd (runWordPressReleaseBranchSyncStep env cfg abortMessage w))) = []"
    unfolding r_def .
next
  assume "cooperative env"
  then show "\<exists>branch. fst (runWordPressReleaseBranchSyncStep env cfg abortMessage w) = Inr branch"
    by (rule sync_succeeds_value)
next
  fix branch
  define r where "r = runWordPressReleaseBranchSyncStep env cfg abortMessage w"
  define source where "source = pluginReleaseBranchName env
     (trace w @ [Log [''Getting into the WordPress release branch''],
                 GitCheckoutRemoteBranch (gitWorkingDirectoryPath cfg) ''trunk''])
     (gitWorkingDirectoryPath cfg @ ''/package.json'')"
  assume rt: "releaseType cfg \<in> {''latest'', ''next''}"
    and "fst (runWordPressReleaseBranchSyncStep env cfg abortMessage w) = Inr branch"
  then have "runWordPressReleaseBranchSyncStep env cfg abortMessage w = (Inr branch, snd r)"
    unfolding r_def by (metis prod.collapse)
  from returningD [OF sync_calls this] rt
  have new: "issued w (snd r) =
           [Log [''Getting into the WordPress release branch''],
            GitCheckoutRemoteBranch (gitWorkingDirectoryPath cfg) ''trunk'',
            FindReleaseBranchName (gitWorkingDirectoryPath cfg @ ''/package.json''),
            GitCheckoutRemoteBranch (gitWorkingDirectoryPath cfg)
              (wordpressReleaseBranch (releaseType cfg)),
            GitFetch (gitWorkingDirectoryPath cfg) [''--depth=100''],
            Log [''>> The local release branch '' @ wordpressReleaseBranch (releaseType cfg)
                   @ '' has been successfully checked out.'']]
           @ (if interactive cfg then
                [AskForConfirmation
                   (''The branch is ready for sync with the latest plugin release changes applied to ''
                     @ dq @ source @ dq @ ''. Proceed?'') (Some True) (Some abortMessage)]
              else [])
           @ [GitReplaceContentFromRemoteBranch (gitWorkingDirectoryPath cfg) source,
              GitCommit (gitWorkingDirectoryPath cfg)
                (''Merge changes published in the Gutenberg plugin '' @ dq @ source
                  @ dq @ '' branch'') None,
              Log [''>> The local WordPress release branch ''
                     @ wordpressReleaseBranch (releaseType cfg)
                     @ '' has been successfully synced.'']]"
    unfolding source_def by (auto simp: issued_append)
  then show "issued w (snd (runWordPressReleaseBranchSyncStep env cfg abortMessage w)) =
           [Log [''Getting into the WordPress release branch''],
            GitCheckoutRemoteBranch (gitWorkingDirectoryPath cfg) ''trunk'',
            FindReleaseBranchName (gitWorkingDirectoryPath cfg @ ''/package.json''),
            GitCheckoutRemoteBranch (gitWorkingDirectoryPath cfg)
              (wordpressReleaseBranch (releaseType cfg)),
            GitFetch (gitWorkingDirectoryPath cfg) [''--depth=100''],
            Log [''>> The local release branch '' @ wordpressReleaseBranch (releaseType cfg)
                   @ '' has been successfully checked out.'']]
           @ (if interactive cfg then
                [AskForConfirmation
                   (''The branch is ready for sync with the latest plugin release changes applied to ''
                     @ dq @ pluginReleaseBranchName env
                        (trace w @ [Log [''Getting into the WordPress release branch''],
                              GitCheckoutRemoteBranch (gitWorkingDirectoryPath cfg) ''trunk''])
                        (gitWorkingDirectoryPath cfg @ ''/package.json'')
                     @ dq @ ''. Proceed?'') (Some True) (Some abortMessage)]
              else [])
           @ [GitReplaceContentFromRemoteBranch (gitWorkingDirectoryPath cfg)
                (pluginReleaseBranchName env
                   (trace w @ [Log [''Getting into the WordPress release branch''],
                               GitCheckoutRemoteBranch (gitWorkingDirectoryPath cfg) ''trunk''])
                   (gitWorkingDirectoryPath cfg @ ''/package.json'')),
              GitCommit (gitWorkingDirectoryPath cfg)
                (''Merge changes published in the Gutenberg plugin '' @ dq
                  @ pluginReleaseBranchName env
                      (trace w @ [Log [''Getting into the WordPress release branch''],
                                  GitCheckoutRemoteBranch (gitWorkingDirectoryPath cfg) ''trunk''])
                      (gitWorkingDirectoryPath cfg @ ''/package.json'')
                  @ dq @ '' branch'') None,
              Log [''>> The local WordPress release branch ''
                     @ wordpressReleaseBranch (releaseType cfg)
                     @ '' has been successfully synced.'']]"
    unfolding r_def source_def .
  from new have "filter isSync (issued w (snd r)) =
     [GitReplaceContentFromRemoteBranch (gitWorkingDirectoryPath cfg) source,
      GitCommit (gitWorkingDirectoryPath cfg)
        (''Merge changes published in the Gutenberg plugin '' @ dq @ source @ dq @ '' branch'')
        None]"
    by (simp add: isSync_def)
  then show "filter isSync
           (issued w (snd (runWordPressReleaseBranchSyncStep env cfg abortMessage w))) =
           [GitReplaceContentFromRemoteBranch (gitWorkingDirectoryPath cfg)
              (pluginReleaseBranchName env
                 (trace w @ [Log [''Getting into the WordPress release branch''],
                             GitCheckoutRemoteBranch (gitWorkingDirectoryPath cfg) ''trunk''])
                 (gitWorkingDirectoryPath cfg @ ''/package.json'')),
            GitCommit (gitWorkingDirectoryPath cfg)
              (''Merge changes published in the Gutenberg plugin '' @ dq
                @ pluginReleaseBranchName env
                    (trace w @ [Log [''Getting into the WordPress release branch''],
                                GitCheckoutRemoteBranch (gitWorkingDirectoryPath cfg) ''trunk''])
                    (gitWorkingDirectoryPath cfg @ ''/package.json'')
                @ dq @ '' branch'') None]"
    unfolding r_def source_def .
qed

theorem sync_replaces_for_latest_and_next_witness:
  "cooperative demo_env \<and>
   filter isSync (issued demo_world
     (snd (runWordPressReleaseBranchSyncStep demo_env (demo_config True ''minor'' ''bugfix'')
        ''Aborting!'' demo_world))) = [] \<and>
   pluginReleaseBranchName demo_env
     [Log [''Getting into the WordPress release branch''],
      GitCheckoutRemoteBranch ''/tmp/gutenberg'' ''trunk'']
     ''/tmp/gutenberg/package.json'' = ''release/10.0'' \<and>
   filter isSync (issued demo_world
     (snd (runWordPressReleaseBranchSyncStep demo_env (demo_config True ''minor'' ''latest'')
        ''Aborting!'' demo_world))) =
      [GitReplaceContentFromRemoteBranch ''/tmp/gutenberg'' ''release/10.0'',
       GitCommit ''/tmp/gutenberg''
         (''Merge changes published in the Gutenberg plugin '' @ dq @ ''release/10.0'' @ dq
           @ '' branch'') None]"
proof -
  have bugfix: "releaseType (demo_config True ''minor'' ''bugfix'') \<notin> {''latest'', ''next''}"
    by (simp add: demo_config_def)
  have latest: "releaseType (demo_config True ''minor'' ''latest'') \<in> {''latest'', ''next''}"
    by (simp add: demo_config_def)
  have dir: "gitWorkingDirectoryPath (demo_config True ''minor'' ''latest'') = ''/tmp/gutenberg''"
    by (simp add: demo_config_def)
  have t: "trace demo_world = []" by (simp add: demo_world_def)
  have source: "pluginReleaseBranchName demo_env h p = ''release/10.0''" for h p
    by (simp add: demo_env_def)
  from sync_replaces_for_latest_and_next [where env = demo_env
      and cfg = "demo_config True ''minor'' ''bugfix''" and abortMessage = "''Aborting!''"
      and w = demo_world] bugfix
  have 1: "filter isSync (issued demo_world
     (snd (runWordPressReleaseBranchSyncStep demo_env (demo_config True ''minor'' ''bugfix'')
        ''Aborting!'' demo_world))) = []"
    by blast
  from sync_replaces_for_latest_and_next [where env = demo_env
      and cfg = "demo_config True ''minor'' ''latest''" and abortMessage = "''Aborting!''"
      and w = demo_world] latest cooperative_demo
  have 2: "filter isSync (issued demo_world
     (snd (runWordPressReleaseBranchSyncStep demo_env (demo_config True ''minor'' ''latest'')
        ''Aborting!'' demo_world))) =
      [GitReplaceContentFromRemoteBranch ''/tmp/gutenberg'' ''release/10.0'',
       GitCommit ''/tmp/gutenberg''
         (''Merge changes published in the Gutenberg plugin '' @ dq @ ''release/10.0'' @ dq
           @ '' branch'') None]"
    unfolding dir t source by blast
  from 1 2 cooperative_demo source show ?thesis by blast
qed

text \<open>
  C7. A changelog whose sibling \<open>package.json\<close> has \<open>private\<close> set to \<open>true\<close> produces
  no record: its path is the \<open>changelogPath\<close> of none of the processed packages. The
  filter runs before anything is read from the changelog, so the records do not depend
  on the content of that changelog, nor on whether the file exists at all.
\<close>

theorem private_packages_are_skipped:
  assumes "manifests w (siblingManifestPath env p) = Some pkg"
    and "pkg_private pkg = Some True"
  shows "(\<forall>rs. processedPackages env cfg w = Inr rs \<longrightarrow> p \<notin> changelogPath ` set rs) \<and>
         (\<forall>content. processedPackages env cfg (w\<lparr>files := (files w)(p := content)\<rparr>)
                     = processedPackages env cfg w)"
proof (intro conjI allI impI)
  fix rs
  assume rs: "processedPackages env cfg w = Inr rs"
  show "p \<notin> changelogPath ` set rs"
  proof
    assume "p \<in> changelogPath ` set rs"
    then obtain r where r: "r \<in> set rs" "changelogPath r = p" by auto
    from processed_member [OF rs r(1)] r(2) obtain kept
      where "changelogFilesPublicPackages env w
       (globResult env (trace w)
          (path_resolve env (gitWorkingDirectoryPath cfg) ''packages/*/CHANGELOG.md'')) = Inr kept"
        and "p \<in> set kept" by auto
    from public_kept [OF this] assms show False by auto
  qed
next
  fix content
  let ?w' = "w\<lparr>files := (files w)(p := content)\<rparr>"
  let ?glob = "globResult env (trace w)
          (path_resolve env (gitWorkingDirectoryPath cfg) ''packages/*/CHANGELOG.md'')"
  have pub: "changelogFilesPublicPackages env ?w' ?glob = changelogFilesPublicPackages env w ?glob"
    by (rule public_manifests_only) simp
  show "processedPackages env cfg ?w' = processedPackages env cfg w"
  proof (cases "changelogFilesPublicPackages env w ?glob")
    case (Inl e)
    with pub show ?thesis by (simp add: processedPackages_def)
  next
    case (Inr kept)
    have "p \<notin> set kept"
      using public_kept [OF Inr, of p] assms by auto
    then have "processAll env cfg deps ?w' kept = processAll env cfg deps w kept" for deps
      by (intro processAll_reads) auto
    with pub Inr show ?thesis
      by (simp add: processedPackages_def split: option.splits)
  qed
qed

theorem private_packages_are_skipped_witness:
  "manifests demo_world (siblingManifestPath demo_env ''/tmp/gutenberg/packages/e2e/CHANGELOG.md'')
     = Some \<lparr> pkg_private = Some True, pkg_version = Some ''1.0.0'', pkg_other = [] \<rparr> \<and>
   ''/tmp/gutenberg/packages/e2e/CHANGELOG.md'' \<in> set (globResult demo_env []
       ''/tmp/gutenberg/packages/*/CHANGELOG.md'') \<and>
   map changelogPath (projr (processedPackages demo_env (demo_config False ''minor'' ''latest'') demo_world))
     = [''/tmp/gutenberg/packages/a11y/CHANGELOG.md''] \<and>
   processedPackages demo_env (demo_config False ''minor'' ''latest'')
      (demo_world\<lparr>files := (files demo_world)(''/tmp/gutenberg/packages/e2e/CHANGELOG.md'' \<mapsto>
         ''## Unreleased'' @ nl @ nl @ ''### Breaking Changes'' @ nl @ nl @ ''- Everything.'')\<rparr>)
     = processedPackages demo_env (demo_config False ''minor'' ''latest'') demo_world"
proof -
  have m: "manifests demo_world (siblingManifestPath demo_env ''/tmp/gutenberg/packages/e2e/CHANGELOG.md'')
     = Some \<lparr> pkg_private = Some True, pkg_version = Some ''1.0.0'', pkg_other = [] \<rparr>"
    by code_simp
  have g: "''/tmp/gutenberg/packages/e2e/CHANGELOG.md'' \<in> set (globResult demo_env []
       ''/tmp/gutenberg/packages/*/CHANGELOG.md'')"
    by (simp add: demo_env_def)
  from private_packages_are_skipped [OF m, where cfg = "demo_config False ''minor'' ''latest''"]
  have "processedPackages demo_env (demo_config False ''minor'' ''latest'')
      (demo_world\<lparr>files := (files demo_world)(''/tmp/gutenberg/packages/e2e/CHANGELOG.md'' \<mapsto>
         ''## Unreleased'' @ nl @ nl @ ''### Breaking Changes'' @ nl @ nl @ ''- Everything.'')\<rparr>)
     = processedPackages demo_env (demo_config False ''minor'' ''latest'') demo_world"
    by simp
  with m g demo_processed show ?thesis by simp
qed


text \<open>
  C2. For a public package whose changelog yields no bump (\<open>null\<close>),
  \<open>updatePackages\<close> forces the bump to \<open>minimumVersionBump\<close> exactly when the release
  type is not \<open>next\<close>, \<open>minimumVersionBump\<close> is not \<open>patch\<close> and the package name is
  among the production dependencies; the next version is then \<open>semver.inc\<close> of the
  current version by that bump. In every other case with no bump from the changelog,
  \<open>nextVersion\<close> is \<open>null\<close> and the package is not among the packages to update.
\<close>

theorem minimum_bump_floor:
  assumes "processedPackages env cfg w = Inr rs"
    and "r \<in> set rs"
    and "dependencies env = Some productionPackageNames"
    and "files w (changelogPath r) = Some content"
    and "calculateVersionBumpFromChangelog env (readLines env content) (minimumVersionBump cfg)
           = None"
  shows "(enforcedVersionBump cfg productionPackageNames (packageName r) None
            = Some (minimumVersionBump cfg)
          \<longleftrightarrow> releaseType cfg \<noteq> ''next'' \<and> minimumVersionBump cfg \<noteq> ''patch''
               \<and> packageName r \<in> set productionPackageNames) \<and>
         (releaseType cfg \<noteq> ''next'' \<and> minimumVersionBump cfg \<noteq> ''patch''
            \<and> packageName r \<in> set productionPackageNames
          \<longrightarrow> nextVersion r = semverInc env (version r) (minimumVersionBump cfg)) \<and>
         (\<not> (releaseType cfg \<noteq> ''next'' \<and> minimumVersionBump cfg \<noteq> ''patch''
               \<and> packageName r \<in> set productionPackageNames)
          \<longrightarrow> nextVersion r = None \<and> r \<notin> set (packagesToUpdate rs))"
proof -
  from processed_member [OF assms(1,2)] assms(3)
  have "processPackage env cfg productionPackageNames w (changelogPath r) = Inr r" by auto
  from processPackage_next [OF this assms(4)] assms(5)
  have name: "packageName r = packageNameOf (changelogPath r)"
    and n: "nextVersion r =
        (case enforcedVersionBump cfg productionPackageNames (packageNameOf (changelogPath r)) None of
           None \<Rightarrow> None
         | Some bump \<Rightarrow> semverInc env (version r) bump)"
    by simp_all
  show ?thesis
    using name n
    by (auto simp: enforcedVersionBump_def truthy_def packagesToUpdate_def)
qed

theorem minimum_bump_floor_witness:
  "(let r = \<lparr> changelogPath = ''/tmp/gutenberg/packages/a11y/CHANGELOG.md'',
              packageJSONPath = ''/tmp/gutenberg/packages/a11y/package.json'',
              packageName = ''@wordpress/a11y'', nextVersion = Some ''1.1.0'',
              version = Some ''1.0.0'' \<rparr>
    in processedPackages demo_env (demo_config False ''minor'' ''latest'') demo_world = Inr [r] \<and>
       changelogBump (split_on (CHR 0x0A) (the (files demo_world (changelogPath r)))) ''minor''
         = None \<and>
       enforcedVersionBump (demo_config False ''minor'' ''latest'') [''@wordpress/a11y'']
         ''@wordpress/a11y'' None = Some ''minor'' \<and>
       semverIncAt (Some ''1.0.0'') ''minor'' = Some ''1.1.0'') \<and>
   (let r = \<lparr> changelogPath = ''/tmp/gutenberg/packages/a11y/CHANGELOG.md'',
              packageJSONPath = ''/tmp/gutenberg/packages/a11y/package.json'',
              packageName = ''@wordpress/a11y'', nextVersion = None,
              version = Some ''1.0.0'' \<rparr>
    in processedPackages demo_env (demo_config False ''minor'' ''next'') demo_world = Inr [r] \<and>
       packagesToUpdate [r] = [])"
proof -
  define r1 where "r1 = \<lparr> changelogPath = ''/tmp/gutenberg/packages/a11y/CHANGELOG.md'',
              packageJSONPath = ''/tmp/gutenberg/packages/a11y/package.json'',
              packageName = ''@wordpress/a11y'', nextVersion = Some ''1.1.0'',
              version = Some ''1.0.0'' \<rparr>"
  define r2 where "r2 = \<lparr> changelogPath = ''/tmp/gutenberg/packages/a11y/CHANGELOG.md'',
              packageJSONPath = ''/tmp/gutenberg/packages/a11y/package.json'',
              packageName = ''@wordpress/a11y'', nextVersion = None,
              version = Some ''1.0.0'' \<rparr>"
  have p1: "processedPackages demo_env (demo_config False ''minor'' ''latest'') demo_world = Inr [r1]"
    unfolding r1_def by code_simp
  have p2: "processedPackages demo_env (demo_config False ''minor'' ''next'') demo_world = Inr [r2]"
    unfolding r2_def by code_simp
  have d: "dependencies demo_env = Some [''@wordpress/a11y'']"
    by (simp add: demo_env_def)
  have f: "files demo_world (changelogPath r1) = Some (''## Unreleased'' @ nl @ nl
      @ ''## 1.0.0 (2021-01-01)'' @ nl @ nl @ ''Initial release.'')"
    "files demo_world (changelogPath r2) = Some (''## Unreleased'' @ nl @ nl
      @ ''## 1.0.0 (2021-01-01)'' @ nl @ nl @ ''Initial release.'')"
    unfolding r1_def r2_def by (simp_all add: demo_world_def)
  have c: "calculateVersionBumpFromChangelog demo_env (readLines demo_env (''## Unreleased'' @ nl @ nl
      @ ''## 1.0.0 (2021-01-01)'' @ nl @ nl @ ''Initial release.''))
        (minimumVersionBump (demo_config ia ''minor'' rt)) = None" for ia rt
    by (simp add: demo_env_def demo_config_def nl_def changelogBump_def List.map_filter_def
        bumpOfHeading_def)
  have c': "changelogBump (split_on (CHR 0x0A) (the (files demo_world (changelogPath r1)))) ''minor''
         = None"
    using c [of False "''latest''"] f by (simp add: demo_env_def demo_config_def)
  have cfg: "releaseType (demo_config False ''minor'' ''latest'') = ''latest''"
    "releaseType (demo_config False ''minor'' ''next'') = ''next''"
    "minimumVersionBump (demo_config False ''minor'' ''latest'') = ''minor''"
    by (simp_all add: demo_config_def)
  have names: "packageName r1 = ''@wordpress/a11y''" "packageName r2 = ''@wordpress/a11y''"
    "version r1 = Some ''1.0.0''"
    by (simp_all add: r1_def r2_def)
  from minimum_bump_floor [OF p1 _ d f(1) c]
  have 1: "enforcedVersionBump (demo_config False ''minor'' ''latest'') [''@wordpress/a11y'']
         ''@wordpress/a11y'' None = Some ''minor''"
    and 2: "nextVersion r1 = semverInc demo_env (Some ''1.0.0'') ''minor''"
    unfolding cfg names by simp_all
  from 2 have 3: "semverIncAt (Some ''1.0.0'') ''minor'' = Some ''1.1.0''"
    by (simp add: r1_def demo_env_def)
  from minimum_bump_floor [OF p2 _ d f(2) c]
  have 4: "packagesToUpdate [r2] = []"
    unfolding cfg names by (auto simp: packagesToUpdate_def split: if_splits)
  from p1 p2 c' 1 3 4 show ?thesis
    unfolding r1_def r2_def Let_def by blast
qed

text \<open>
  C5, as the code has it. \<open>updatePackages\<close> rewrites the changelog of every package it
  updates with \<open>String.prototype.replace\<close>, which changes the first occurrence of
  \<open>## Unreleased\<close> and nothing else. The packages it updates are the records of
  \<open>processedPackages\<close> whose next version is neither null nor the empty string. When
  the changelog of such a package contains the marker, the first marker stays where it
  is, with nothing under it, and a new heading follows after a blank line: \<open>## \<close>, the
  version, and in brackets the date, which is the part before the \<open>T\<close> of the current
  time in ISO format. The version is \<open>nextVersion\<close> followed by \<open>-next.0\<close> for the
  release type \<open>next\<close> and \<open>nextVersion\<close> itself for every other release type. The text
  before and after the marker is kept. When the changelog has no marker, the package is
  updated all the same and its changelog stays as it was. \<open>updatePackages\<close> returns
  whenever no collaborator raises and the operator accepts. The glob lists every
  changelog once, the commit leaves the files of the working directory as they are, and
  versions and dates contain no dollar sign, which \<open>replace\<close> would expand.
\<close>

theorem changelog_heading_inserted:
  assumes "processedPackages env cfg w = Inr processed"
    and "r \<in> set processed"
    and "nextVersion r = Some v" and "v \<noteq> []"
    and "CHR 0x24 \<notin> set v" and "CHR 0x24 \<notin> set (now env)"
    and "distinct (globResult env (trace w)
           (path_resolve env (gitWorkingDirectoryPath cfg) ''packages/*/CHANGELOG.md''))"
    and "\<forall>h d. effect env h (GitCommit (gitWorkingDirectoryPath cfg) ''Update changelog files''
                    (Some [''./*''])) d = d"
  shows "(cooperative env \<longrightarrow> (\<exists>hash. fst (updatePackages env cfg abortMessage w) = Inr hash)) \<and>
         (\<forall>hash w'. updatePackages env cfg abortMessage w = (Inr hash, w') \<longrightarrow>
            (\<exists>content. files w (changelogPath r) = Some content \<and>
               ((\<exists>x y. content = x @ ''## Unreleased'' @ y) \<longrightarrow>
                  (\<exists>pre post. content = pre @ ''## Unreleased'' @ post \<and>
                     (\<forall>x y. content = x @ ''## Unreleased'' @ y \<longrightarrow> length pre \<le> length x) \<and>
                     files w' (changelogPath r) =
                       Some (pre @ ''## Unreleased'' @ nl @ nl @ ''## ''
                         @ (if releaseType cfg = ''next'' then v @ ''-next.0'' else v)
                         @ '' ('' @ takeWhile (\<lambda>c. c \<noteq> CHR ''T'') (now env) @ '')''
                         @ post))) \<and>
               (\<not> (\<exists>x y. content = x @ ''## Unreleased'' @ y) \<longrightarrow>
                  files w' (changelogPath r) = Some content)))"
proof (intro conjI impI allI)
  assume "cooperative env"
  with assms(1) show "\<exists>hash. fst (updatePackages env cfg abortMessage w) = Inr hash"
    by (rule updatePackages_returns)
next
  fix hash w'
  assume run: "updatePackages env cfg abortMessage w = (Inr hash, w')"
  let ?heading = "changelogHeading cfg (publishDate env) (nextVersion r)"
  from assms(2,3,4) have r: "r \<in> set (packagesToUpdate processed)"
    by (simp add: packagesToUpdate_def truthy_def)
  then have ne: "packagesToUpdate processed \<noteq> []" by auto
  from updatePackages_updates [OF assms(1) ne run] assms(8) obtain w0 w1
    where w0: "files w0 = files w" "manifests w0 = manifests w"
      and all: "updateAll cfg (publishDate env) (packagesToUpdate processed) w0 = (Inr (), w1)"
      and w1: "files w' = files w1" "manifests w' = manifests w1"
    by auto
  have d: "distinct (map changelogPath (packagesToUpdate processed))"
    using assms(1,7) by (rule processed_distinct_changelogs)
  from updateAll_rewrites [OF all r] d w0 w1 obtain content
    where c: "files w (changelogPath r) = Some content"
      and c': "files w' (changelogPath r) = Some (js_replace ''## Unreleased'' ?heading content)"
    by auto
  have "set (takeWhile (\<lambda>c. c \<noteq> CHR ''T'') (now env)) \<subseteq> set (now env)"
    by (auto dest: set_takeWhileD)
  with assms(5,6) have plain: "CHR 0x24 \<notin> set ?heading"
    by (auto simp: changelogHeading_def shownVersion_def null_text_def publishDate_def nl_def
        assms(3))
  have heading: "?heading = ''## Unreleased'' @ nl @ nl @ ''## ''
                     @ (if releaseType cfg = ''next'' then v @ ''-next.0'' else v)
                     @ '' ('' @ takeWhile (\<lambda>c. c \<noteq> CHR ''T'') (now env) @ '')''"
    by (simp add: changelogHeading_def shownVersion_def null_text_def publishDate_def assms(3))
  have present: "\<exists>pre post. content = pre @ ''## Unreleased'' @ post \<and>
                     (\<forall>x y. content = x @ ''## Unreleased'' @ y \<longrightarrow> length pre \<le> length x) \<and>
                     files w' (changelogPath r) =
                       Some (pre @ ''## Unreleased'' @ nl @ nl @ ''## ''
                         @ (if releaseType cfg = ''next'' then v @ ''-next.0'' else v)
                         @ '' ('' @ takeWhile (\<lambda>c. c \<noteq> CHR ''T'') (now env) @ '')''
                         @ post)"
    if "\<exists>x y. content = x @ ''## Unreleased'' @ y"
  proof -
    from that obtain x y where "content = x @ ''## Unreleased'' @ y" by blast
    from js_replace_present [OF this plain] obtain pre post
      where split: "content = pre @ ''## Unreleased'' @ post"
        and least: "\<forall>x y. content = x @ ''## Unreleased'' @ y \<longrightarrow> length pre \<le> length x"
        and new: "js_replace ''## Unreleased'' ?heading content = pre @ ?heading @ post"
      by blast
    from c' new have "files w' (changelogPath r) =
             Some (pre @ ''## Unreleased'' @ nl @ nl @ ''## ''
                     @ (if releaseType cfg = ''next'' then v @ ''-next.0'' else v)
                     @ '' ('' @ takeWhile (\<lambda>c. c \<noteq> CHR ''T'') (now env) @ '')'' @ post)"
      by (simp only: heading append_assoc)
    with split least show ?thesis by blast
  qed
  have absent: "files w' (changelogPath r) = Some content"
    if "\<not> (\<exists>x y. content = x @ ''## Unreleased'' @ y)"
    using c' js_replace_absent [OF that] by simp
  from c present absent
  show "\<exists>content. files w (changelogPath r) = Some content \<and>
               ((\<exists>x y. content = x @ ''## Unreleased'' @ y) \<longrightarrow>
                  (\<exists>pre post. content = pre @ ''## Unreleased'' @ post \<and>
                     (\<forall>x y. content = x @ ''## Unreleased'' @ y \<longrightarrow> length pre \<le> length x) \<and>
                     files w' (changelogPath r) =
                       Some (pre @ ''## Unreleased'' @ nl @ nl @ ''## ''
                         @ (if releaseType cfg = ''next'' then v @ ''-next.0'' else v)
                         @ '' ('' @ takeWhile (\<lambda>c. c \<noteq> CHR ''T'') (now env) @ '')''
                         @ post))) \<and>
               (\<not> (\<exists>x y. content = x @ ''## Unreleased'' @ y) \<longrightarrow>
                  files w' (changelogPath r) = Some content)"
    by blast
qed

text \<open>
  The production package \<open>a11y\<close> with a changelog that has no Unreleased heading, under
  a \<open>latest\<close> release with the minimum bump \<open>minor\<close>: the floor gives the package the
  next version 1.1.0, \<open>updatePackages\<close> sets its manifest to \<open>1.1.0-prerelease\<close> and
  commits, and the changelog is as it was, with no heading for 1.1.0.
\<close>

theorem floor_bump_without_marker_inserts_no_heading:
  "processedPackages demo_env (demo_config False ''minor'' ''latest'') demo_world_bare
     = Inr [demo_change] \<and>
   fst (updatePackages demo_env (demo_config False ''minor'' ''latest'') ''Aborting!''
          demo_world_bare) = Inr (Some ''1f2e3d4'') \<and>
   manifests (snd (updatePackages demo_env (demo_config False ''minor'' ''latest'') ''Aborting!''
      demo_world_bare)) ''/tmp/gutenberg/packages/a11y/package.json''
     = Some \<lparr> pkg_private = None, pkg_version = Some ''1.1.0-prerelease'', pkg_other = [] \<rparr> \<and>
   files demo_world_bare ''/tmp/gutenberg/packages/a11y/CHANGELOG.md''
     = Some (''## 1.0.0 (2021-01-01)'' @ nl @ nl @ ''Initial release.'') \<and>
   files (snd (updatePackages demo_env (demo_config False ''minor'' ''latest'') ''Aborting!''
      demo_world_bare)) ''/tmp/gutenberg/packages/a11y/CHANGELOG.md''
     = Some (''## 1.0.0 (2021-01-01)'' @ nl @ nl @ ''Initial release.'')"
  by code_simp

theorem changelog_heading_inserted_witness:
  "files (snd (updatePackages demo_env (demo_config False ''minor'' ''latest'') ''Aborting!''
      demo_world_fix)) ''/tmp/gutenberg/packages/a11y/CHANGELOG.md''
     = Some (''## Unreleased'' @ nl @ nl @ ''## 1.1.0 (2021-03-04)'' @ nl @ nl
              @ ''### Bug Fixes'' @ nl @ nl @ ''- Fix focus loss.''
              @ nl @ nl @ ''## 1.0.0 (2021-01-01)'' @ nl @ nl @ ''Initial release.'') \<and>
   files (snd (updatePackages demo_env (demo_config False ''minor'' ''next'') ''Aborting!''
      demo_world_fix)) ''/tmp/gutenberg/packages/a11y/CHANGELOG.md''
     = Some (''## Unreleased'' @ nl @ nl @ ''## 1.1.0-next.0 (2021-03-04)'' @ nl @ nl
              @ ''### Bug Fixes'' @ nl @ nl @ ''- Fix focus loss.''
              @ nl @ nl @ ''## 1.0.0 (2021-01-01)'' @ nl @ nl @ ''Initial release.'')"
proof -
  let ?rest = "nl @ nl @ ''### Bug Fixes'' @ nl @ nl @ ''- Fix focus loss.''
             @ nl @ nl @ ''## 1.0.0 (2021-01-01)'' @ nl @ nl @ ''Initial release.''"
  have v: "nextVersion demo_change = Some ''1.1.0''"
    and p: "changelogPath demo_change = ''/tmp/gutenberg/packages/a11y/CHANGELOG.md''"
    by (simp_all add: demo_change_def)
  have c: "files demo_world_fix (changelogPath demo_change) = Some (''## Unreleased'' @ ?rest)"
    by (simp add: demo_world_fix_def demo_change_def)
  have date: "takeWhile (\<lambda>c. c \<noteq> CHR ''T'') (now demo_env) = ''2021-03-04''"
    by (simp add: demo_env_def)
  have now: "CHR 0x24 \<notin> set (now demo_env)" by (simp add: demo_env_def)
  have dG: "distinct (globResult demo_env h q)" for h q by (simp add: demo_glob)
  have eff: "\<forall>h d. effect demo_env h c d = d" for c by (simp add: demo_effect)
  have one: "files (snd (updatePackages demo_env (demo_config False ''minor'' rt) ''Aborting!''
      demo_world_fix)) (changelogPath demo_change)
     = Some (''## Unreleased'' @ nl @ nl @ ''## ''
         @ (if releaseType (demo_config False ''minor'' rt) = ''next''
            then ''1.1.0'' @ ''-next.0'' else ''1.1.0'')
         @ '' ('' @ takeWhile (\<lambda>c. c \<noteq> CHR ''T'') (now demo_env) @ '')'' @ ?rest)"
    if q: "processedPackages demo_env (demo_config False ''minor'' rt) demo_world_fix
             = Inr [demo_change]" for rt
  proof -
    let ?run = "updatePackages demo_env (demo_config False ''minor'' rt) ''Aborting!'' demo_world_fix"
    have both: "(cooperative demo_env \<longrightarrow> (\<exists>hash. fst ?run = Inr hash)) \<and>
         (\<forall>hash w'. ?run = (Inr hash, w') \<longrightarrow>
            (\<exists>content. files demo_world_fix (changelogPath demo_change) = Some content \<and>
               ((\<exists>x y. content = x @ ''## Unreleased'' @ y) \<longrightarrow>
                  (\<exists>pre post. content = pre @ ''## Unreleased'' @ post \<and>
                     (\<forall>x y. content = x @ ''## Unreleased'' @ y \<longrightarrow> length pre \<le> length x) \<and>
                     files w' (changelogPath demo_change) =
                       Some (pre @ ''## Unreleased'' @ nl @ nl @ ''## ''
                         @ (if releaseType (demo_config False ''minor'' rt) = ''next''
                            then ''1.1.0'' @ ''-next.0'' else ''1.1.0'')
                         @ '' ('' @ takeWhile (\<lambda>c. c \<noteq> CHR ''T'') (now demo_env) @ '')''
                         @ post))) \<and>
               (\<not> (\<exists>x y. content = x @ ''## Unreleased'' @ y) \<longrightarrow>
                  files w' (changelogPath demo_change) = Some content)))"
      by (rule changelog_heading_inserted [OF q _ v _ _ now dG eff]) simp_all
    with cooperative_demo obtain hash where "fst ?run = Inr hash" by blast
    then have "?run = (Inr hash, snd ?run)" by (metis prod.collapse)
    with both have "\<exists>content. files demo_world_fix (changelogPath demo_change) = Some content \<and>
               ((\<exists>x y. content = x @ ''## Unreleased'' @ y) \<longrightarrow>
                  (\<exists>pre post. content = pre @ ''## Unreleased'' @ post \<and>
                     (\<forall>x y. content = x @ ''## Unreleased'' @ y \<longrightarrow> length pre \<le> length x) \<and>
                     files (snd ?run) (changelogPath demo_change) =
                       Some (pre @ ''## Unreleased'' @ nl @ nl @ ''## ''
                         @ (if releaseType (demo_config False ''minor'' rt) = ''next''
                            then ''1.1.0'' @ ''-next.0'' else ''1.1.0'')
                         @ '' ('' @ takeWhile (\<lambda>c. c \<noteq> CHR ''T'') (now demo_env) @ '')''
                         @ post))) \<and>
               (\<not> (\<exists>x y. content = x @ ''## Unreleased'' @ y) \<longrightarrow>
                  files (snd ?run) (changelogPath demo_change) = Some content)"
      by blast
    from heading_at_front [OF this c] show ?thesis .
  qed
  have rt: "releaseType (demo_config False ''minor'' ''latest'') \<noteq> ''next''"
    "releaseType (demo_config False ''minor'' ''next'') = ''next''"
    by (simp_all add: demo_config_def)
  from one [OF demo_processed_fix(1)] one [OF demo_processed_fix(2)] show ?thesis
    unfolding date p using rt by simp
qed

text \<open>
  C6. For every record of \<open>processedPackages\<close> with a next version (one that is not
  null, and not the empty string, which \<open>semver.inc\<close> never returns), \<open>updatePackages\<close>
  sets the \<open>version\<close> of the package's manifest to \<open>nextVersion\<close> followed by
  \<open>-prerelease\<close>, whatever the release type is, and keeps the rest of the manifest.
  The manifests of the packages that have no next version stay as they are.
  \<open>updatePackages\<close> returns whenever no collaborator raises and the operator accepts.
  The packages have distinct manifests, and the commit leaves the files of the working
  directory as they are.
\<close>

theorem manifest_version_prerelease:
  assumes "processedPackages env cfg w = Inr processed"
    and "r \<in> set processed"
    and "nextVersion r = Some v" and "v \<noteq> []"
    and "distinct (map (js_replace ''CHANGELOG.md'' ''package.json'')
           (globResult env (trace w)
              (path_resolve env (gitWorkingDirectoryPath cfg) ''packages/*/CHANGELOG.md'')))"
    and "\<forall>h d. effect env h (GitCommit (gitWorkingDirectoryPath cfg) ''Update changelog files''
                    (Some [''./*''])) d = d"
  shows "(cooperative env \<longrightarrow> (\<exists>hash. fst (updatePackages env cfg abortMessage w) = Inr hash)) \<and>
         (\<forall>hash w'. updatePackages env cfg abortMessage w = (Inr hash, w') \<longrightarrow>
            (\<exists>m. manifests w (packageJSONPath r) = Some m \<and>
                 manifests w' (packageJSONPath r) =
                   Some (m\<lparr>pkg_version := Some (v @ ''-prerelease'')\<rparr>)) \<and>
            (\<forall>r' \<in> set processed. \<not> truthy (nextVersion r') \<longrightarrow>
               manifests w' (packageJSONPath r') = manifests w (packageJSONPath r')))"
proof (intro conjI impI allI)
  assume "cooperative env"
  with assms(1) show "\<exists>hash. fst (updatePackages env cfg abortMessage w) = Inr hash"
    by (rule updatePackages_returns)
next
  fix hash w'
  assume run: "updatePackages env cfg abortMessage w = (Inr hash, w')"
  from assms(2,3,4) have r: "r \<in> set (packagesToUpdate processed)"
    by (simp add: packagesToUpdate_def truthy_def)
  then have ne: "packagesToUpdate processed \<noteq> []" by auto
  from updatePackages_updates [OF assms(1) ne run] assms(6) obtain w0 w1
    where w0: "files w0 = files w" "manifests w0 = manifests w"
      and all: "updateAll cfg (publishDate env) (packagesToUpdate processed) w0 = (Inr (), w1)"
      and w1: "files w' = files w1" "manifests w' = manifests w1"
    by auto
  have d: "distinct (map packageJSONPath processed)"
    using assms(1,5) by (rule processed_distinct_manifests)
  then have d': "distinct (map packageJSONPath (packagesToUpdate processed))"
    unfolding packagesToUpdate_def by (rule distinct_map_filter)
  from updateAll_rewrites [OF all r] d' w0 w1 assms(3)
  show "\<exists>m. manifests w (packageJSONPath r) = Some m \<and>
           manifests w' (packageJSONPath r) =
             Some (m\<lparr>pkg_version := Some (v @ ''-prerelease'')\<rparr>)"
    by (auto simp: null_text_def)
  show "\<forall>r' \<in> set processed. \<not> truthy (nextVersion r') \<longrightarrow>
               manifests w' (packageJSONPath r') = manifests w (packageJSONPath r')"
  proof (intro ballI impI)
    fix r'
    assume r': "r' \<in> set processed" and n: "\<not> truthy (nextVersion r')"
    have "packageJSONPath r' \<notin> packageJSONPath ` set (packagesToUpdate processed)"
    proof
      assume "packageJSONPath r' \<in> packageJSONPath ` set (packagesToUpdate processed)"
      then obtain s where s: "s \<in> set processed" "truthy (nextVersion s)"
        "packageJSONPath s = packageJSONPath r'"
        by (auto simp: packagesToUpdate_def)
      with d r' have "s = r'" by (meson distinct_map inj_onD)
      with s n show False by simp
    qed
    with updateAll_frame [OF all, of "changelogPath r'" "packageJSONPath r'"] w0 w1
    show "manifests w' (packageJSONPath r') = manifests w (packageJSONPath r')" by simp
  qed
qed

theorem manifest_version_prerelease_witness:
  "manifests (snd (updatePackages demo_env (demo_config False ''minor'' ''latest'') ''Aborting!''
      demo_world_fix)) ''/tmp/gutenberg/packages/a11y/package.json''
     = Some \<lparr> pkg_private = None, pkg_version = Some ''1.1.0-prerelease'', pkg_other = [] \<rparr> \<and>
   manifests (snd (updatePackages demo_env (demo_config False ''minor'' ''next'') ''Aborting!''
      demo_world_fix)) ''/tmp/gutenberg/packages/a11y/package.json''
     = Some \<lparr> pkg_private = None, pkg_version = Some ''1.1.0-prerelease'', pkg_other = [] \<rparr>"
proof -
  have one: "manifests (snd (updatePackages demo_env (demo_config False ''minor'' rt) ''Aborting!''
      demo_world_fix)) ''/tmp/gutenberg/packages/a11y/package.json''
     = Some \<lparr> pkg_private = None, pkg_version = Some ''1.1.0-prerelease'', pkg_other = [] \<rparr>"
    if p: "processedPackages demo_env (demo_config False ''minor'' rt) demo_world_fix
             = Inr [demo_change]" for rt
  proof -
    let ?run = "updatePackages demo_env (demo_config False ''minor'' rt) ''Aborting!'' demo_world_fix"
    have v: "nextVersion demo_change = Some ''1.1.0''"
      and j: "packageJSONPath demo_change = ''/tmp/gutenberg/packages/a11y/package.json''"
      by (simp_all add: demo_change_def)
    have m: "manifests demo_world_fix ''/tmp/gutenberg/packages/a11y/package.json''
        = Some \<lparr> pkg_private = None, pkg_version = Some ''1.0.0'', pkg_other = [] \<rparr>"
      by (simp add: demo_world_fix_def demo_world_def)
    note inst = manifest_version_prerelease [OF p _ v, where abortMessage = "''Aborting!''",
        unfolded demo_glob demo_manifest_paths demo_effect j]
    have both: "(cooperative demo_env \<longrightarrow> (\<exists>hash. fst ?run = Inr hash)) \<and>
         (\<forall>hash w'. ?run = (Inr hash, w') \<longrightarrow>
            (\<exists>m. manifests demo_world_fix ''/tmp/gutenberg/packages/a11y/package.json'' = Some m \<and>
                 manifests w' ''/tmp/gutenberg/packages/a11y/package.json'' =
                   Some (m\<lparr>pkg_version := Some (''1.1.0'' @ ''-prerelease'')\<rparr>)) \<and>
            (\<forall>r' \<in> set [demo_change]. \<not> truthy (nextVersion r') \<longrightarrow>
               manifests w' (packageJSONPath r') = manifests demo_world_fix (packageJSONPath r')))"
      by (rule inst) simp_all
    with cooperative_demo obtain hash where "fst ?run = Inr hash" by blast
    then have "?run = (Inr hash, snd ?run)" by (metis prod.collapse)
    with both m show ?thesis by auto
  qed
  from one [OF demo_processed_fix(1)] one [OF demo_processed_fix(2)] show ?thesis by simp
qed

text \<open>
  C1, as the code has it. When \<open>updatePackages\<close> finds no package to update it logs
  \<open>No changes in CHANGELOG files detected\<close>, returns no commit hash, makes no other call
  and leaves every file as it was; when it finds one, it never logs that message. The
  later stages are not skipped. Every run of \<open>prepareForPackageRelease\<close> that returns
  and has logged the message went on, directly after it, to push the release branch
  (asking first in interactive mode), to run \<open>npm ci\<close> and the publish commands of its
  release type, and to read the hash of the publish commit. The missing hash of the
  changelog commit only shortens the list of commits to backport: for \<open>latest\<close> and
  \<open>bugfix\<close> the backport replays the publish commit alone (and nothing when that hash is
  empty), for every other release type there is no backport. The cleanup and the last
  message follow. The branch pushed is the \<open>releaseBranch\<close> field of the config, which
  the three entry points leave unset.
\<close>

theorem no_changes_reported_release_continues:
  "(\<forall>ci semver rt. releaseBranch (initialConfig ci semver rt) = None) \<and>
   (\<forall>processed. processedPackages env cfg w = Inr processed \<and> packagesToUpdate processed = [] \<longrightarrow>
      updatePackages env cfg abortMessage w =
        (Inr None,
         w\<lparr>trace := trace w @ [Log [''>> No changes in CHANGELOG files detected.'']]\<rparr>)) \<and>
   (\<forall>processed. processedPackages env cfg w = Inr processed \<and> packagesToUpdate processed \<noteq> [] \<longrightarrow>
      Log [''>> No changes in CHANGELOG files detected.'']
        \<notin> set (issued w (snd (updatePackages env cfg abortMessage w)))) \<and>
   (\<forall>w'. prepareForPackageRelease env cfg0 messages w0 = (Inr (), w') \<and>
          Log [''>> No changes in CHANGELOG files detected.''] \<in> set (issued w0 w') \<longrightarrow>
      (\<exists>pre dir preid before.
         before =
           pre @ [Log [''>> No changes in CHANGELOG files detected.''],
                  Log [''Pushing the release branch'']]
           @ (if interactive cfg0
              then [AskForConfirmation
                      ''The release branch is going to be pushed to the remote repository. Continue?''
                      (Some True)
                      (Some (''Aborting! Make sure to push changes applied to WordPress release branch ''
                               @ dq @ wordpressReleaseBranch (releaseType cfg0) @ dq
                               @ '' manually.''))]
              else [])
           @ [GitPushBranchToOrigin dir (releaseBranch cfg0),
              Log [''>> Installing npm packages.''],
              Command ''npm ci'' dir False]
           @ (if releaseType cfg0 = ''next'' then
                [Log [''>> Bumping version of public packages changed since the last release.''],
                 GitGetLastCommitHash dir,
                 Command (''npx lerna version pre'' @ minimumVersionBump cfg0 @ '' --preid next.''
                           @ preid @ '' --no-private'') dir True,
                 Log [''>> Publishing modified packages to npm.''],
                 Command ''npx lerna publish from-package --dist-tag next'' dir True]
              else if releaseType cfg0 = ''bugfix'' then
                [Log [''>> Publishing modified packages to npm.''],
                 Command ''npm run publish:latest'' dir True]
              else
                [Log [''>> Bumping version of public packages changed since the last release.''],
                 Command (''npx lerna version '' @ minimumVersionBump cfg0 @ '' --no-private'')
                   dir True,
                 Log [''>> Publishing modified packages to npm.''],
                 Command ''npx lerna publish from-package'' dir True])
           @ [GitGetLastCommitHash dir] \<and>
         issued w0 w' =
           before
           @ (if releaseType cfg0 \<in> {''latest'', ''bugfix''}
                 \<and> headHash env (trace w0 @ before) \<noteq> []
              then [Log [''>> Backporting commits.''],
                    GitResetLocalBranchAgainstOrigin dir ''trunk'',
                    GitCherrypickCommitIntoBranch dir (headHash env (trace w0 @ before)),
                    GitPushBranchToOrigin dir (Some ''trunk'')]
              else [])
           @ [RunCleanLocalFoldersStep (if interactive cfg0 then [dir] else []) ''Cleaning failed.'',
              Log [nl @ ''>> WordPress packages are now published!'' @ nl @ nl,
                   ''Let also people know on WordPress Slack and celebrate together.'']]))"
proof (intro conjI allI impI)
  fix ci semver rt
  show "releaseBranch (initialConfig ci semver rt) = None"
    by (simp add: initialConfig_def)
next
  fix processed
  assume "processedPackages env cfg w = Inr processed \<and> packagesToUpdate processed = []"
  then show "updatePackages env cfg abortMessage w =
        (Inr None,
         w\<lparr>trace := trace w @ [Log [''>> No changes in CHANGELOG files detected.'']]\<rparr>)"
    by (auto intro: updatePackages_no_changes)
next
  fix processed
  assume "processedPackages env cfg w = Inr processed \<and> packagesToUpdate processed \<noteq> []"
  then have "processedPackages env cfg w = Inr processed" and "packagesToUpdate processed \<noteq> []"
    by simp_all
  then show "Log [''>> No changes in CHANGELOG files detected.'']
        \<notin> set (issued w (snd (updatePackages env cfg abortMessage w)))"
    by (rule updatePackages_reports_changes)
next
  fix w'
  let ?no = "Log [''>> No changes in CHANGELOG files detected.'']"
  assume a: "prepareForPackageRelease env cfg0 messages w0 = (Inr (), w') \<and>
          ?no \<in> set (issued w0 w')"
  then have run: "prepareForPackageRelease env cfg0 messages w0 = (Inr (), w')"
    and no: "?no \<in> set (issued w0 w')" by simp_all
  from run [unfolded prepareForPackageRelease_def]
  show "\<exists>pre dir preid before.
         before =
           pre @ [Log [''>> No changes in CHANGELOG files detected.''],
                  Log [''Pushing the release branch'']]
           @ (if interactive cfg0
              then [AskForConfirmation
                      ''The release branch is going to be pushed to the remote repository. Continue?''
                      (Some True)
                      (Some (''Aborting! Make sure to push changes applied to WordPress release branch ''
                               @ dq @ wordpressReleaseBranch (releaseType cfg0) @ dq
                               @ '' manually.''))]
              else [])
           @ [GitPushBranchToOrigin dir (releaseBranch cfg0),
              Log [''>> Installing npm packages.''],
              Command ''npm ci'' dir False]
           @ (if releaseType cfg0 = ''next'' then
                [Log [''>> Bumping version of public packages changed since the last release.''],
                 GitGetLastCommitHash dir,
                 Command (''npx lerna version pre'' @ minimumVersionBump cfg0 @ '' --preid next.''
                           @ preid @ '' --no-private'') dir True,
                 Log [''>> Publishing modified packages to npm.''],
                 Command ''npx lerna publish from-package --dist-tag next'' dir True]
              else if releaseType cfg0 = ''bugfix'' then
                [Log [''>> Publishing modified packages to npm.''],
                 Command ''npm run publish:latest'' dir True]
              else
                [Log [''>> Bumping version of public packages changed since the last release.''],
                 Command (''npx lerna version '' @ minimumVersionBump cfg0 @ '' --no-private'')
                   dir True,
                 Log [''>> Publishing modified packages to npm.''],
                 Command ''npx lerna publish from-package'' dir True])
           @ [GitGetLastCommitHash dir] \<and>
         issued w0 w' =
           before
           @ (if releaseType cfg0 \<in> {''latest'', ''bugfix''}
                 \<and> headHash env (trace w0 @ before) \<noteq> []
              then [Log [''>> Backporting commits.''],
                    GitResetLocalBranchAgainstOrigin dir ''trunk'',
                    GitCherrypickCommitIntoBranch dir (headHash env (trace w0 @ before)),
                    GitPushBranchToOrigin dir (Some ''trunk'')]
              else [])
           @ [RunCleanLocalFoldersStep (if interactive cfg0 then [dir] else []) ''Cleaning failed.'',
              Log [nl @ ''>> WordPress packages are now published!'' @ nl @ nl,
                   ''Let also people know on WordPress Slack and celebrate together.'']]"
  proof (elim io_bind_InrE, goal_cases)
    case (1 ua wa x wb)
    define first where "first = Log ([nl @ ''Time to publish WordPress packages to npm'' @ nl @ nl,
                    ''To perform a release you'' @ [CHR 0x27]
                      @ ''ll have to be a member of the WordPress Team on npm.'' @ nl]
                   @ messages)"
    from 1(1) have na: "trace wa = trace w0 @ [first]"
      by (auto simp: log_def record_call_def first_def)
    have sa: "?no \<noteq> first" by (simp add: first_def)
    obtain cfg folders where x: "x = (cfg, folders)" by (cases x)
    from returningD [OF choose_calls 1(2)] x obtain nb
      where nb: "trace wb = trace wa @ nb" and sb: "?no \<notin> set nb"
        and f: "folders = (if interactive cfg0 then [gitWorkingDirectoryPath cfg] else [])"
      by (auto split: if_splits)
    from choose_interactive [OF 1(2) [unfolded x]]
    have same: "interactive cfg = interactive cfg0" "releaseType cfg = releaseType cfg0"
      "releaseBranch cfg = releaseBranch cfg0" "minimumVersionBump cfg = minimumVersionBump cfg0"
      by simp_all
    from 1(3) have steps: "releaseSteps env cfg folders wb = (Inr (), w')" by (simp add: x)
    from adds_extends [OF adds_releaseSteps steps] obtain nc where nc: "trace w' = trace wb @ nc"
      by auto
    have i0: "issued w0 w' = first # nb @ nc" by (simp add: issued_def na nb nc)
    have ib: "issued wb w' = nc" by (simp add: issued_def nc)
    from no sa sb have "?no \<in> set (issued wb w')" unfolding i0 ib by auto
    from releaseSteps_after_no_changes [OF steps this, unfolded same f ib]
    obtain pre preid before where
      before: "before =
           pre @ [Log [''>> No changes in CHANGELOG files detected.''],
                  Log [''Pushing the release branch'']]
           @ (if interactive cfg0
              then [AskForConfirmation
                      ''The release branch is going to be pushed to the remote repository. Continue?''
                      (Some True)
                      (Some (''Aborting! Make sure to push changes applied to WordPress release branch ''
                               @ dq @ wordpressReleaseBranch (releaseType cfg0) @ dq
                               @ '' manually.''))]
              else [])
           @ [GitPushBranchToOrigin (gitWorkingDirectoryPath cfg) (releaseBranch cfg0),
              Log [''>> Installing npm packages.''],
              Command ''npm ci'' (gitWorkingDirectoryPath cfg) False]
           @ (if releaseType cfg0 = ''next'' then
                [Log [''>> Bumping version of public packages changed since the last release.''],
                 GitGetLastCommitHash (gitWorkingDirectoryPath cfg),
                 Command (''npx lerna version pre'' @ minimumVersionBump cfg0 @ '' --preid next.''
                           @ preid @ '' --no-private'') (gitWorkingDirectoryPath cfg) True,
                 Log [''>> Publishing modified packages to npm.''],
                 Command ''npx lerna publish from-package --dist-tag next''
                   (gitWorkingDirectoryPath cfg) True]
              else if releaseType cfg0 = ''bugfix'' then
                [Log [''>> Publishing modified packages to npm.''],
                 Command ''npm run publish:latest'' (gitWorkingDirectoryPath cfg) True]
              else
                [Log [''>> Bumping version of public packages changed since the last release.''],
                 Command (''npx lerna version '' @ minimumVersionBump cfg0 @ '' --no-private'')
                   (gitWorkingDirectoryPath cfg) True,
                 Log [''>> Publishing modified packages to npm.''],
                 Command ''npx lerna publish from-package'' (gitWorkingDirectoryPath cfg) True])
           @ [GitGetLastCommitHash (gitWorkingDirectoryPath cfg)]"
      and rest: "nc =
           before
           @ (if releaseType cfg0 \<in> {''latest'', ''bugfix''}
                 \<and> headHash env (trace wb @ before) \<noteq> []
              then [Log [''>> Backporting commits.''],
                    GitResetLocalBranchAgainstOrigin (gitWorkingDirectoryPath cfg) ''trunk'',
                    GitCherrypickCommitIntoBranch (gitWorkingDirectoryPath cfg)
                      (headHash env (trace wb @ before)),
                    GitPushBranchToOrigin (gitWorkingDirectoryPath cfg) (Some ''trunk'')]
              else [])
           @ [RunCleanLocalFoldersStep
                (if interactive cfg0 then [gitWorkingDirectoryPath cfg] else [])
                ''Cleaning failed.'',
              Log [nl @ ''>> WordPress packages are now published!'' @ nl @ nl,
                   ''Let also people know on WordPress Slack and celebrate together.'']]"
      by blast
    have tb: "trace wb @ before = trace w0 @ (first # nb @ before)"
      by (simp add: na nb)
    show ?case
      apply (rule exI [of _ "first # nb @ pre"], rule exI [of _ "gitWorkingDirectoryPath cfg"],
          rule exI [of _ preid], rule exI [of _ "first # nb @ before"])
      apply (rule conjI)
       apply (simp only: before append_Cons append_Nil append_assoc)
      apply (simp only: i0 rest tb append_Cons append_Nil append_assoc)
      done
  qed
qed

text \<open>
  In the concrete run, started in CI mode as a \<open>latest\<close> release with the minimum bump
  \<open>patch\<close>, no package needs an update and the message says so; the release branch is
  pushed and the packages are published all the same.
\<close>

theorem no_changes_still_pushes_and_publishes:
  "packagesToUpdate (projr (processedPackages demo_env (demo_config False ''patch'' ''latest'')
      demo_world)) = [] \<and>
   fst (publishNpmLatestDistTag demo_env True ''patch'' demo_world) = Inr () \<and>
   Log [''>> No changes in CHANGELOG files detected.'']
     \<in> set (trace (snd (publishNpmLatestDistTag demo_env True ''patch'' demo_world))) \<and>
   GitPushBranchToOrigin ''/tmp/gutenberg'' None
     \<in> set (trace (snd (publishNpmLatestDistTag demo_env True ''patch'' demo_world))) \<and>
   Command ''npm ci'' ''/tmp/gutenberg'' False
     \<in> set (trace (snd (publishNpmLatestDistTag demo_env True ''patch'' demo_world))) \<and>
   Command ''npx lerna version patch --no-private'' ''/tmp/gutenberg'' True
     \<in> set (trace (snd (publishNpmLatestDistTag demo_env True ''patch'' demo_world))) \<and>
   Command ''npx lerna publish from-package'' ''/tmp/gutenberg'' True
     \<in> set (trace (snd (publishNpmLatestDistTag demo_env True ''patch'' demo_world)))"
  unfolding demo_latest_ci by (simp add: demo_nothing_to_update)

theorem no_changes_reported_release_continues_witness:
  "updatePackages demo_env (demo_config False ''patch'' ''latest'') ''Aborting!'' demo_world =
     (Inr None,
      demo_world\<lparr>trace := [Log [''>> No changes in CHANGELOG files detected.'']]\<rparr>) \<and>
   fst (prepareForPackageRelease demo_env (initialConfig True ''patch'' ''latest'')
     [''Welcome! This tool helps with publishing a new latest version of WordPress packages.'' @ nl]
     demo_world) = Inr () \<and>
   (\<exists>pre dir. issued demo_world
       (snd (prepareForPackageRelease demo_env (initialConfig True ''patch'' ''latest'')
     [''Welcome! This tool helps with publishing a new latest version of WordPress packages.'' @ nl]
     demo_world)) =
      pre @ [Log [''>> No changes in CHANGELOG files detected.''],
             Log [''Pushing the release branch''],
             GitPushBranchToOrigin dir None,
             Log [''>> Installing npm packages.''],
             Command ''npm ci'' dir False,
             Log [''>> Bumping version of public packages changed since the last release.''],
             Command ''npx lerna version patch --no-private'' dir True,
             Log [''>> Publishing modified packages to npm.''],
             Command ''npx lerna publish from-package'' dir True,
             GitGetLastCommitHash dir,
             Log [''>> Backporting commits.''],
             GitResetLocalBranchAgainstOrigin dir ''trunk'',
             GitCherrypickCommitIntoBranch dir ''9a8b7c6'',
             GitPushBranchToOrigin dir (Some ''trunk''),
             RunCleanLocalFoldersStep [] ''Cleaning failed.'',
             Log [nl @ ''>> WordPress packages are now published!'' @ nl @ nl,
                  ''Let also people know on WordPress Slack and celebrate together.'']])"
proof -
  let ?cfg0 = "initialConfig True ''patch'' ''latest''"
  let ?messages = "[''Welcome! This tool helps with publishing a new latest version of WordPress packages.'' @ nl]"
  let ?run = "prepareForPackageRelease demo_env ?cfg0 ?messages demo_world"
  let ?no = "Log [''>> No changes in CHANGELOG files detected.'']"
  obtain processed where p: "processedPackages demo_env (demo_config False ''patch'' ''latest'')
      demo_world = Inr processed" and n: "packagesToUpdate processed = []"
    using demo_nothing_to_update(1,2)
    by (cases "processedPackages demo_env (demo_config False ''patch'' ''latest'') demo_world")
       auto
  have f: "fst ?run = Inr ()"
    using demo_latest_ci by (simp add: publishNpmLatestDistTag_def)
  then have r: "?run = (Inr (), snd ?run)" by (metis prod.collapse)
  have t: "trace demo_world = []" by (simp add: demo_world_def)
  have no: "?no \<in> set (issued demo_world (snd ?run))"
    using demo_latest_ci by (simp add: publishNpmLatestDistTag_def issued_def t)
  have cfg0: "interactive ?cfg0 = False" "releaseType ?cfg0 = ''latest''"
    "releaseBranch ?cfg0 = None" "minimumVersionBump ?cfg0 = ''patch''"
    by (simp_all add: initialConfig_def)
  have head: "headHash demo_env h = ''9a8b7c6''" for h by (simp add: demo_env_def)
  note inst = no_changes_reported_release_continues [where env = demo_env
      and cfg = "demo_config False ''patch'' ''latest''" and w = demo_world
      and abortMessage = "''Aborting!''" and ?cfg0.0 = ?cfg0
      and messages = ?messages and ?w0.0 = demo_world]
  from inst p n have 1: "updatePackages demo_env (demo_config False ''patch'' ''latest'')
      ''Aborting!'' demo_world =
     (Inr None,
      demo_world\<lparr>trace := [Log [''>> No changes in CHANGELOG files detected.'']]\<rparr>)"
    unfolding t by simp
  from inst r no obtain pre dir preid before where
    "before =
           pre @ [Log [''>> No changes in CHANGELOG files detected.''],
                  Log [''Pushing the release branch'']]
           @ (if interactive ?cfg0
              then [AskForConfirmation
                      ''The release branch is going to be pushed to the remote repository. Continue?''
                      (Some True)
                      (Some (''Aborting! Make sure to push changes applied to WordPress release branch ''
                               @ dq @ wordpressReleaseBranch (releaseType ?cfg0) @ dq
                               @ '' manually.''))]
              else [])
           @ [GitPushBranchToOrigin dir (releaseBranch ?cfg0),
              Log [''>> Installing npm packages.''],
              Command ''npm ci'' dir False]
           @ (if releaseType ?cfg0 = ''next'' then
                [Log [''>> Bumping version of public packages changed since the last release.''],
                 GitGetLastCommitHash dir,
                 Command (''npx lerna version pre'' @ minimumVersionBump ?cfg0 @ '' --preid next.''
                           @ preid @ '' --no-private'') dir True,
                 Log [''>> Publishing modified packages to npm.''],
                 Command ''npx lerna publish from-package --dist-tag next'' dir True]
              else if releaseType ?cfg0 = ''bugfix'' then
                [Log [''>> Publishing modified packages to npm.''],
                 Command ''npm run publish:latest'' dir True]
              else
                [Log [''>> Bumping version of public packages changed since the last release.''],
                 Command (''npx lerna version '' @ minimumVersionBump ?cfg0 @ '' --no-private'')
                   dir True,
                 Log [''>> Publishing modified packages to npm.''],
                 Command ''npx lerna publish from-package'' dir True])
           @ [GitGetLastCommitHash dir]"
    and "issued demo_world (snd ?run) =
           before
           @ (if releaseType ?cfg0 \<in> {''latest'', ''bugfix''}
                 \<and> headHash demo_env (trace demo_world @ before) \<noteq> []
              then [Log [''>> Backporting commits.''],
                    GitResetLocalBranchAgainstOrigin dir ''trunk'',
                    GitCherrypickCommitIntoBranch dir (headHash demo_env (trace demo_world @ before)),
                    GitPushBranchToOrigin dir (Some ''trunk'')]
              else [])
           @ [RunCleanLocalFoldersStep (if interactive ?cfg0 then [dir] else []) ''Cleaning failed.'',
              Log [nl @ ''>> WordPress packages are now published!'' @ nl @ nl,
                   ''Let also people know on WordPress Slack and celebrate together.'']]"
    by blast
  then have "issued demo_world (snd ?run) =
      pre @ [Log [''>> No changes in CHANGELOG files detected.''],
             Log [''Pushing the release branch''],
             GitPushBranchToOrigin dir None,
             Log [''>> Installing npm packages.''],
             Command ''npm ci'' dir False,
             Log [''>> Bumping version of public packages changed since the last release.''],
             Command ''npx lerna version patch --no-private'' dir True,
             Log [''>> Publishing modified packages to npm.''],
             Command ''npx lerna publish from-package'' dir True,
             GitGetLastCommitHash dir,
             Log [''>> Backporting commits.''],
             GitResetLocalBranchAgainstOrigin dir ''trunk'',
             GitCherrypickCommitIntoBranch dir ''9a8b7c6'',
             GitPushBranchToOrigin dir (Some ''trunk''),
             RunCleanLocalFoldersStep [] ''Cleaning failed.'',
             Log [nl @ ''>> WordPress packages are now published!'' @ nl @ nl,
                  ''Let also people know on WordPress Slack and celebrate together.'']]"
    unfolding cfg0 head by simp
  then have 2: "\<exists>pre dir. issued demo_world (snd ?run) =
      pre @ [Log [''>> No changes in CHANGELOG files detected.''],
             Log [''Pushing the release branch''],
             GitPushBranchToOrigin dir None,
             Log [''>> Installing npm packages.''],
             Command ''npm ci'' dir False,
             Log [''>> Bumping version of public packages changed since the last release.''],
             Command ''npx lerna version patch --no-private'' dir True,
             Log [''>> Publishing modified packages to npm.''],
             Command ''npx lerna publish from-package'' dir True,
             GitGetLastCommitHash dir,
             Log [''>> Backporting commits.''],
             GitResetLocalBranchAgainstOrigin dir ''trunk'',
             GitCherrypickCommitIntoBranch dir ''9a8b7c6'',
             GitPushBranchToOrigin dir (Some ''trunk''),
             RunCleanLocalFoldersStep [] ''Cleaning failed.'',
             Log [nl @ ''>> WordPress packages are now published!'' @ nl @ nl,
                  ''Let also people know on WordPress Slack and celebrate together.'']]"
    by blast
  from 1 f 2 show ?thesis by blast
qed




text \<open>
  C3, as the code has it. A first run of \<open>updatePackages\<close> has returned, and a second
  run starts with the same configuration in the working directory the first has left.
  When the minimum-bump floor applies to none of the packages the first run updated,
  the second run finds no package to update: it logs
  \<open>No changes in CHANGELOG files detected\<close>, returns no commit and writes no file, so no
  heading is repeated. When the floor applies to a package the first run updated (a
  production package, a release that is not \<open>next\<close>, a minimum bump other than \<open>patch\<close>),
  the second run reads the pre-release version from its manifest and computes a next
  version for it again, \<open>semver.inc\<close> of the pre-release version and the minimum bump;
  when that is a version, the second run does not report that there are no changes.

  The collaborators are as the command expects them: the glob lists the same
  changelogs in both runs, each once and with a manifest of its own; the commit leaves
  the files of the working directory as they are; the changelog parser reads no bump
  under an Unreleased heading that has no entries; the Unreleased heading is the first
  heading of every changelog the first run rewrote; versions and dates contain no
  dollar sign.
\<close>

theorem rerun_without_bump_changes_nothing:
  assumes "updatePackages env cfg abortMessage w = (Inr hash, w1)"
    and "processedPackages env cfg w = Inr processed"
    and "dependencies env = Some productionPackageNames"
    and "globResult env (trace w1)
           (path_resolve env (gitWorkingDirectoryPath cfg) ''packages/*/CHANGELOG.md'')
         = globResult env (trace w)
           (path_resolve env (gitWorkingDirectoryPath cfg) ''packages/*/CHANGELOG.md'')"
    and "distinct (map (js_replace ''CHANGELOG.md'' ''package.json'')
           (globResult env (trace w)
              (path_resolve env (gitWorkingDirectoryPath cfg) ''packages/*/CHANGELOG.md'')))"
    and "\<forall>h d. effect env h (GitCommit (gitWorkingDirectoryPath cfg)
                    ''Update changelog files'' (Some [''./*''])) d = d"
    and "emptyUnreleasedSectionYieldsNoBump env"
    and "\<forall>r \<in> set (packagesToUpdate processed). \<forall>content.
           files w (changelogPath r) = Some content \<longrightarrow> unreleasedHeadingFirst content"
    and "CHR 0x24 \<notin> set (now env)"
    and "\<forall>r \<in> set (packagesToUpdate processed). \<forall>v. nextVersion r = Some v \<longrightarrow> CHR 0x24 \<notin> set v"
  shows "((\<forall>r \<in> set (packagesToUpdate processed).
            \<not> (releaseType cfg \<noteq> ''next'' \<and> minimumVersionBump cfg \<noteq> ''patch''
                 \<and> packageName r \<in> set productionPackageNames)) \<longrightarrow>
          updatePackages env cfg abortMessage w1 =
            (Inr None,
             w1\<lparr>trace := trace w1 @ [Log [''>> No changes in CHANGELOG files detected.'']]\<rparr>)) \<and>
         (\<forall>r \<in> set (packagesToUpdate processed).
            releaseType cfg \<noteq> ''next'' \<and> minimumVersionBump cfg \<noteq> ''patch''
              \<and> packageName r \<in> set productionPackageNames \<longrightarrow>
            (\<exists>processed2 r2.
               processedPackages env cfg w1 = Inr processed2 \<and> r2 \<in> set processed2 \<and>
               changelogPath r2 = changelogPath r \<and>
               version r2 = Some (null_text (nextVersion r) @ ''-prerelease'') \<and>
               nextVersion r2 =
                 semverInc env (Some (null_text (nextVersion r) @ ''-prerelease''))
                   (minimumVersionBump cfg)) \<and>
            (truthy (semverInc env (Some (null_text (nextVersion r) @ ''-prerelease''))
                       (minimumVersionBump cfg)) \<longrightarrow>
               Log [''>> No changes in CHANGELOG files detected.'']
                 \<notin> set (issued w1 (snd (updatePackages env cfg abortMessage w1)))))"
proof -
  define f :: "package_change \<Rightarrow> package_change" where "f = (\<lambda>r. if truthy (nextVersion r)
                    then r\<lparr>nextVersion :=
                             (case enforcedVersionBump cfg productionPackageNames (packageName r) None of
                                None \<Rightarrow> None
                              | Some bump \<Rightarrow>
                                  semverInc env (Some (null_text (nextVersion r) @ ''-prerelease''))
                                    bump),
                           version := Some (null_text (nextVersion r) @ ''-prerelease'')\<rparr>
                    else r)"
  have second: "processedPackages env cfg w1 = Inr (map f processed)"
    unfolding f_def by (rule second_run_processed [OF assms])
  have floor: "enforcedVersionBump cfg productionPackageNames (packageName r) None =
      (if releaseType cfg \<noteq> ''next'' \<and> minimumVersionBump cfg \<noteq> ''patch''
            \<and> packageName r \<in> set productionPackageNames
       then Some (minimumVersionBump cfg) else None)" for r
    by (simp add: enforcedVersionBump_def truthy_def)
  show ?thesis
  proof (intro conjI impI ballI)
    assume free: "\<forall>r \<in> set (packagesToUpdate processed).
            \<not> (releaseType cfg \<noteq> ''next'' \<and> minimumVersionBump cfg \<noteq> ''patch''
                 \<and> packageName r \<in> set productionPackageNames)"
    have "\<not> truthy (nextVersion (f r))" if "r \<in> set processed" for r
    proof (cases "truthy (nextVersion r)")
      case True
      with that have "r \<in> set (packagesToUpdate processed)" by (simp add: packagesToUpdate_def)
      with free have "enforcedVersionBump cfg productionPackageNames (packageName r) None = None"
        unfolding floor by auto
      with True show ?thesis by (simp add: f_def truthy_def)
    next
      case False
      then show ?thesis by (simp add: f_def)
    qed
    then have "packagesToUpdate (map f processed) = []"
      by (auto simp: packagesToUpdate_def filter_empty_conv)
    from updatePackages_no_changes [OF second this]
    show "updatePackages env cfg abortMessage w1 =
            (Inr None,
             w1\<lparr>trace := trace w1 @ [Log [''>> No changes in CHANGELOG files detected.'']]\<rparr>)" .
  next
    fix r
    assume r: "r \<in> set (packagesToUpdate processed)"
      and applies: "releaseType cfg \<noteq> ''next'' \<and> minimumVersionBump cfg \<noteq> ''patch''
              \<and> packageName r \<in> set productionPackageNames"
    from r have rp: "r \<in> set processed" and t: "truthy (nextVersion r)"
      by (simp_all add: packagesToUpdate_def)
    from applies have e: "enforcedVersionBump cfg productionPackageNames (packageName r) None
        = Some (minimumVersionBump cfg)"
      unfolding floor by simp
    from t e have n: "nextVersion (f r) =
        semverInc env (Some (null_text (nextVersion r) @ ''-prerelease'')) (minimumVersionBump cfg)"
      and c: "changelogPath (f r) = changelogPath r"
      and v: "version (f r) = Some (null_text (nextVersion r) @ ''-prerelease'')"
      by (simp_all add: f_def)
    from rp have m: "f r \<in> set (map f processed)" by simp
    from second m c v n
    show "\<exists>processed2 r2.
               processedPackages env cfg w1 = Inr processed2 \<and> r2 \<in> set processed2 \<and>
               changelogPath r2 = changelogPath r \<and>
               version r2 = Some (null_text (nextVersion r) @ ''-prerelease'') \<and>
               nextVersion r2 =
                 semverInc env (Some (null_text (nextVersion r) @ ''-prerelease''))
                   (minimumVersionBump cfg)"
      by blast
    assume "truthy (semverInc env (Some (null_text (nextVersion r) @ ''-prerelease''))
                       (minimumVersionBump cfg))"
    with n m have "f r \<in> set (packagesToUpdate (map f processed))"
      by (simp add: packagesToUpdate_def)
    then have "packagesToUpdate (map f processed) \<noteq> []" by auto
    from updatePackages_reports_changes [OF second this]
    show "Log [''>> No changes in CHANGELOG files detected.'']
                 \<notin> set (issued w1 (snd (updatePackages env cfg abortMessage w1)))" .
  qed
qed

text \<open>
  The production package \<open>a11y\<close> under a \<open>latest\<close> release with the minimum bump
  \<open>minor\<close>: the first run inserts the heading of 1.1.0 and sets the manifest to
  \<open>1.1.0-prerelease\<close>; the second run finds no changelog entry, is held to the floor
  all the same, computes 1.1.0 again from the pre-release version and inserts the same
  heading a second time.
\<close>

theorem second_run_repeats_floor_bump:
  "files (snd (updatePackages demo_env (demo_config False ''minor'' ''latest'') ''Aborting!''
        demo_world)) ''/tmp/gutenberg/packages/a11y/CHANGELOG.md''
   = Some (''## Unreleased'' @ nl @ nl @ ''## 1.1.0 (2021-03-04)'' @ nl @ nl
            @ ''## 1.0.0 (2021-01-01)'' @ nl @ nl @ ''Initial release.'') \<and>
   fst (updatePackages demo_env (demo_config False ''minor'' ''latest'') ''Aborting!''
     (snd (updatePackages demo_env (demo_config False ''minor'' ''latest'') ''Aborting!''
        demo_world))) = Inr (Some ''1f2e3d4'') \<and>
   trace (snd (updatePackages demo_env (demo_config False ''minor'' ''latest'') ''Aborting!''
     (snd (updatePackages demo_env (demo_config False ''minor'' ''latest'') ''Aborting!''
        demo_world)))) =
     [Log [''>> Recommended version bumps based on the changes detected in CHANGELOG files:''],
      Log [''   - @wordpress/a11y: 1.0.0 -> 1.1.0''],
      GitCommit ''/tmp/gutenberg'' ''Update changelog files'' (Some [''./*'']),
      Log [''>> Changelog files changes have been committed successfully.''],
      Log [''>> Recommended version bumps based on the changes detected in CHANGELOG files:''],
      Log [''   - @wordpress/a11y: 1.1.0-prerelease -> 1.1.0''],
      GitCommit ''/tmp/gutenberg'' ''Update changelog files'' (Some [''./*'']),
      Log [''>> Changelog files changes have been committed successfully.'']] \<and>
   files (snd (updatePackages demo_env (demo_config False ''minor'' ''latest'') ''Aborting!''
     (snd (updatePackages demo_env (demo_config False ''minor'' ''latest'') ''Aborting!''
        demo_world)))) ''/tmp/gutenberg/packages/a11y/CHANGELOG.md''
   = Some (''## Unreleased'' @ nl @ nl @ ''## 1.1.0 (2021-03-04)'' @ nl @ nl
            @ ''## 1.1.0 (2021-03-04)'' @ nl @ nl @ ''## 1.0.0 (2021-01-01)'' @ nl @ nl
            @ ''Initial release.'')"
  by code_simp

theorem rerun_without_bump_changes_nothing_witness:
  "fst (updatePackages demo_env (demo_config False ''patch'' ''latest'') ''Aborting!''
         demo_world_fix) = Inr (Some ''1f2e3d4'') \<and>
   fst (updatePackages demo_env (demo_config False ''patch'' ''latest'') ''Aborting!''
     (snd (updatePackages demo_env (demo_config False ''patch'' ''latest'') ''Aborting!''
        demo_world_fix))) = Inr None \<and>
   files (snd (updatePackages demo_env (demo_config False ''patch'' ''latest'') ''Aborting!''
     (snd (updatePackages demo_env (demo_config False ''patch'' ''latest'') ''Aborting!''
        demo_world_fix)))) ''/tmp/gutenberg/packages/a11y/CHANGELOG.md''
     = Some (''## Unreleased'' @ nl @ nl @ ''## 1.0.1 (2021-03-04)'' @ nl @ nl
              @ ''### Bug Fixes'' @ nl @ nl @ ''- Fix focus loss.''
              @ nl @ nl @ ''## 1.0.0 (2021-01-01)'' @ nl @ nl @ ''Initial release.'') \<and>
   (\<exists>processed2 r2.
      processedPackages demo_env (demo_config False ''minor'' ''latest'')
        (snd (updatePackages demo_env (demo_config False ''minor'' ''latest'') ''Aborting!''
           demo_world)) = Inr processed2 \<and>
      r2 \<in> set processed2 \<and>
      changelogPath r2 = ''/tmp/gutenberg/packages/a11y/CHANGELOG.md'' \<and>
      version r2 = Some ''1.1.0-prerelease'' \<and> nextVersion r2 = Some ''1.1.0'')"
proof -
  let ?patch = "demo_config False ''patch'' ''latest''"
  let ?minor = "demo_config False ''minor'' ''latest''"
  let ?first = "updatePackages demo_env ?patch ''Aborting!'' demo_world_fix"
  let ?firstm = "updatePackages demo_env ?minor ''Aborting!'' demo_world"
  let ?fix = "\<lparr> changelogPath = ''/tmp/gutenberg/packages/a11y/CHANGELOG.md'',
            packageJSONPath = ''/tmp/gutenberg/packages/a11y/package.json'',
            packageName = ''@wordpress/a11y'', nextVersion = Some ''1.0.1'',
            version = Some ''1.0.0'' \<rparr>"
  have d: "dependencies demo_env = Some [''@wordpress/a11y'']" by (simp add: demo_env_def)
  have now: "CHR 0x24 \<notin> set (now demo_env)" by (simp add: demo_env_def)
  have run: "?first = (Inr (Some ''1f2e3d4''), snd ?first)"
    using demo_fix_first_run(1) by (metis prod.collapse)
  have runm: "?firstm = (Inr (Some ''1f2e3d4''), snd ?firstm)"
    using demo_first_runs(1) by (metis prod.collapse)
  have up: "packagesToUpdate [?fix] = [?fix]" "packagesToUpdate [demo_change] = [demo_change]"
    by (simp_all add: packagesToUpdate_def truthy_def demo_change_def)
  have wf: "\<forall>r \<in> set (packagesToUpdate [?fix]). \<forall>content.
           files demo_world_fix (changelogPath r) = Some content \<longrightarrow> unreleasedHeadingFirst content"
    unfolding up by (simp add: demo_world_fix_def demo_heading_first [simplified])
  have wfm: "\<forall>r \<in> set (packagesToUpdate [demo_change]). \<forall>content.
           files demo_world (changelogPath r) = Some content \<longrightarrow> unreleasedHeadingFirst content"
    unfolding up by (simp add: demo_world_def demo_change_def demo_heading_first [simplified])
  have plain: "\<forall>r \<in> set (packagesToUpdate [?fix]). \<forall>v. nextVersion r = Some v \<longrightarrow> CHR 0x24 \<notin> set v"
    unfolding up by simp
  have plainm: "\<forall>r \<in> set (packagesToUpdate [demo_change]). \<forall>v. nextVersion r = Some v \<longrightarrow> CHR 0x24 \<notin> set v"
    unfolding up by (simp add: demo_change_def)
  have dist: "distinct (map (js_replace ''CHANGELOG.md'' ''package.json'')
           (globResult demo_env h p))" for h p
    unfolding demo_glob demo_manifest_paths by simp
  have eff: "\<forall>h d. effect demo_env h c d = d" for c by (simp add: demo_effect)
  have glob: "globResult demo_env h p = globResult demo_env h' p" for h h' p
    by (simp add: demo_glob)
  note one = rerun_without_bump_changes_nothing [OF run demo_first_runs(2) d glob dist eff
      demo_parser wf now plain, unfolded up]
  have free: "\<forall>r \<in> set [?fix].
            \<not> (releaseType ?patch \<noteq> ''next'' \<and> minimumVersionBump ?patch \<noteq> ''patch''
                 \<and> packageName r \<in> set [''@wordpress/a11y''])"
    by (simp add: demo_config_def)
  from one free have second: "updatePackages demo_env ?patch ''Aborting!'' (snd ?first) =
            (Inr None,
             (snd ?first)\<lparr>trace := trace (snd ?first)
                @ [Log [''>> No changes in CHANGELOG files detected.'']]\<rparr>)"
    by blast
  have pm: "processedPackages demo_env ?minor demo_world = Inr [demo_change]"
    using demo_processed by (simp add: demo_change_def)
  note two = rerun_without_bump_changes_nothing [OF runm pm d glob dist eff
      demo_parser wfm now plainm, unfolded up]
  have applies: "releaseType ?minor \<noteq> ''next'' \<and> minimumVersionBump ?minor \<noteq> ''patch''
              \<and> packageName demo_change \<in> set [''@wordpress/a11y'']"
    by (simp add: demo_config_def demo_change_def)
  have inc: "semverInc demo_env (Some ''1.1.0-prerelease'') (minimumVersionBump ?minor)
      = Some ''1.1.0''"
    by (simp add: demo_env_def demo_config_def semverIncAt_def)
  have ver: "null_text (nextVersion demo_change) @ ''-prerelease'' = ''1.1.0-prerelease''"
    by (simp add: demo_change_def null_text_def)
  have cp: "changelogPath demo_change = ''/tmp/gutenberg/packages/a11y/CHANGELOG.md''"
    by (simp add: demo_change_def)
  from two applies have "\<exists>processed2 r2.
               processedPackages demo_env ?minor (snd ?firstm) = Inr processed2 \<and>
               r2 \<in> set processed2 \<and>
               changelogPath r2 = changelogPath demo_change \<and>
               version r2 = Some (null_text (nextVersion demo_change) @ ''-prerelease'') \<and>
               nextVersion r2 =
                 semverInc demo_env (Some (null_text (nextVersion demo_change) @ ''-prerelease''))
                   (minimumVersionBump ?minor)"
    by simp
  then have again: "\<exists>processed2 r2.
      processedPackages demo_env ?minor (snd ?firstm) = Inr processed2 \<and>
      r2 \<in> set processed2 \<and>
      changelogPath r2 = ''/tmp/gutenberg/packages/a11y/CHANGELOG.md'' \<and>
      version r2 = Some ''1.1.0-prerelease'' \<and> nextVersion r2 = Some ''1.1.0''"
    unfolding cp ver inc .
  from second demo_fix_first_run(1,2) again show ?thesis by simp
qed


end
